(* ===== verification/Prelude.thy ===== *)
theory Prelude
  imports Main "HOL-Library.Code_Target_Numeral" "HOL-Library.Sublist" "HOL-Library.While_Combinator"
begin

text \<open>
  Shared vocabulary of the development: JavaScript strings as lists of UTF-16 code
  units, the string built-ins the sources call (\<open>trim\<close>, \<open>indexOf\<close>,
  \<open>lastIndexOf\<close>, \<open>substring\<close>, \<open>split\<close>, \<open>includes\<close>, a global
  \<open>replace\<close>, decimal printing of integers in template literals), the two
  normalising loops of array code, and the generic list lemmas the component theories share. The collection
  \<open>js_simps\<close> gathers the evaluation rules of these built-ins.
\<close>

named_theorems js_simps "evaluation rules of the modelled JavaScript built-ins"

subsection \<open>Strings\<close>

type_synonym jstr = "nat list"

text \<open>\<open>window.localStorage\<close>: string keys to string values, shared by every component.\<close>

type_synonym lstore = "jstr \<rightharpoonup> jstr"

text \<open>A source string literal: ASCII text read as its code units.\<close>

definition js :: "string \<Rightarrow> jstr" where
  "js s = map of_char s"

text \<open>
  JavaScript white space (ECMA-262 WhiteSpace and LineTerminator), used by
  \<open>String.prototype.trim\<close> and by the regular-expression class \<open>\s\<close>.
\<close>

definition js_ws :: "nat \<Rightarrow> bool" where
  "js_ws c \<longleftrightarrow> c \<in> {9, 10, 11, 12, 13, 32, 160, 5760, 8232, 8233, 8239, 8287, 12288, 65279}
     \<or> (8192 \<le> c \<and> c \<le> 8202)"

definition js_trim :: "jstr \<Rightarrow> jstr" where
  "js_trim s = rev (dropWhile js_ws (rev (dropWhile js_ws s)))"

text \<open>\<open>s.indexOf(c)\<close> and \<open>s.lastIndexOf(c)\<close> for a one-unit search string.\<close>

fun js_index_of :: "nat \<Rightarrow> jstr \<Rightarrow> int" where
  "js_index_of c [] = -1"
| "js_index_of c (x # xs) =
     (if x = c then 0 else (let r = js_index_of c xs in if r < 0 then -1 else r + 1))"

definition js_last_index_of :: "nat \<Rightarrow> jstr \<Rightarrow> int" where
  "js_last_index_of c s =
     (let r = js_index_of c (rev s) in if r < 0 then -1 else int (length s) - 1 - r)"

text \<open>\<open>s.substring(a, b)\<close>: both ends clamped to \<open>[0, length]\<close>, swapped if reversed.\<close>

definition js_substring :: "jstr \<Rightarrow> int \<Rightarrow> int \<Rightarrow> jstr" where
  "js_substring s a b =
     (let n = int (length s);
          a' = min (max a 0) n; b' = min (max b 0) n
      in take (nat (max a' b' - min a' b')) (drop (nat (min a' b')) s))"

text \<open>\<open>s.split(c)\<close> for a one-unit separator: \<open>k\<close> separators give \<open>k + 1\<close> pieces.\<close>

fun js_split :: "nat \<Rightarrow> jstr \<Rightarrow> jstr list" where
  "js_split c [] = [[]]"
| "js_split c (x # xs) =
     (let r = js_split c xs in if x = c then [] # r else (x # hd r) # tl r)"

text \<open>\<open>a.join(c)\<close> for a one-unit separator, the inverse of \<open>js_split\<close>.\<close>

fun js_join :: "nat \<Rightarrow> jstr list \<Rightarrow> jstr" where
  "js_join c [] = []"
| "js_join c [x] = x"
| "js_join c (x # y # xs) = x @ c # js_join c (y # xs)"

text \<open>\<open>s.includes(p)\<close>.\<close>

definition js_includes :: "jstr \<Rightarrow> jstr \<Rightarrow> bool" where
  "js_includes s p \<longleftrightarrow> list_ex (\<lambda>i. take (length p) (drop i s) = p) [0..<Suc (length s)]"

text \<open>
  \<open>s.replace(/p/g, r)\<close> for a pattern that matches only the literal text \<open>p\<close>
  (non-empty) and a replacement without \<open>$\<close> patterns.
\<close>

fun js_replace_all :: "jstr \<Rightarrow> jstr \<Rightarrow> jstr \<Rightarrow> jstr" where
  "js_replace_all p r [] = []"
| "js_replace_all p r (x # xs) =
     (if p \<noteq> [] \<and> take (length p) (x # xs) = p
      then r @ js_replace_all p r (drop (length p - 1) xs)
      else x # js_replace_all p r xs)"

subsection \<open>Asynchronous calls\<close>

text \<open>
  An \<open>async\<close> method as the event loop runs it: the microtasks it queues run before the
  next event, so a call either settles within the event that made it (\<open>Settled\<close> with
  its outcome) or waits for input from outside, a backend response (\<open>Pending\<close> with what
  its continuation needs).
\<close>

datatype ('a, 'w) async = Settled 'a | Pending 'w

subsection \<open>Numbers in template literals\<close>

text \<open>\<open>`${n}`\<close> for an integer \<open>n\<close>: its decimal digits, with a minus sign.\<close>

fun js_of_nat :: "nat \<Rightarrow> jstr" where
  "js_of_nat n = (if n < 10 then [48 + n] else js_of_nat (n div 10) @ [48 + n mod 10])"

declare js_of_nat.simps [simp del]

definition js_of_int :: "int \<Rightarrow> jstr" where
  "js_of_int i = (if i < 0 then 45 # js_of_nat (nat (- i)) else js_of_nat (nat i))"

definition is_digit :: "nat \<Rightarrow> bool" where
  "is_digit c \<longleftrightarrow> 48 \<le> c \<and> c \<le> 57"

fun digits_val :: "nat \<Rightarrow> jstr \<Rightarrow> nat" where
  "digits_val acc [] = acc"
| "digits_val acc (c # cs) = digits_val (10 * acc + (c - 48)) cs"

subsection \<open>List helpers\<close>

text \<open>
  \<open>while (a.length > n) a.pop(); while (a.length < n) a.push(f(a.length))\<close>:
  the two normalising loops, as recursive functions.
\<close>

fun pop_while :: "nat \<Rightarrow> 'a list \<Rightarrow> 'a list" where
  "pop_while n xs = (if length xs > n then pop_while n (butlast xs) else xs)"

declare pop_while.simps [simp del]

function push_while :: "nat \<Rightarrow> (nat \<Rightarrow> 'a) \<Rightarrow> 'a list \<Rightarrow> 'a list" where
  "push_while n f xs = (if length xs < n then push_while n f (xs @ [f (length xs)]) else xs)"
  by pat_completeness auto
termination
  by (relation "measure (\<lambda>(n, f, xs). n - length xs)") auto

declare push_while.simps [simp del]

subsection \<open>Lemmas\<close>

lemma js_Nil [simp]: "js [] = []"
  by (simp add: js_def)

lemma js_append [simp]: "js (s @ t) = js s @ js t"
  by (simp add: js_def)

lemma length_js [simp]: "length (js s) = length s"
  by (simp add: js_def)

lemma js_of_nat_digits: "c \<in> set (js_of_nat n) \<Longrightarrow> is_digit c"
proof (induction n rule: js_of_nat.induct)
  case (1 n)
  then show ?case
    by (subst (asm) js_of_nat.simps) (auto simp: is_digit_def split: if_splits)
qed

lemma js_of_nat_not_Nil [simp]: "js_of_nat n \<noteq> []"
  by (subst js_of_nat.simps) simp

lemma js_of_nat_Cons: "\<exists>d ds. js_of_nat n = d # ds \<and> is_digit d"
  using js_of_nat_not_Nil [of n] js_of_nat_digits [of _ n]
  by (cases "js_of_nat n") auto

lemma digits_val_append: "digits_val acc (xs @ ys) = digits_val (digits_val acc xs) ys"
  by (induction xs arbitrary: acc) auto

lemma digits_val_js_of_nat: "digits_val 0 (js_of_nat n) = n"
proof (induction n rule: js_of_nat.induct)
  case (1 n)
  show ?case
  proof (cases "n < 10")
    case True
    then show ?thesis by (subst js_of_nat.simps) simp
  next
    case False
    with "1.IH" show ?thesis
      by (subst js_of_nat.simps) (simp add: digits_val_append)
  qed
qed

lemma js_of_nat_inj [simp]: "js_of_nat m = js_of_nat n \<longleftrightarrow> m = n"
  by (metis digits_val_js_of_nat)

lemma digits_prefix_eq:
  assumes "\<forall>c\<in>set u. is_digit c" and "\<forall>c\<in>set v. is_digit c"
    and "\<not> is_digit x" and "\<not> is_digit y"
    and "u @ x # r = v @ y # r'"
  shows "u = v \<and> x = y \<and> r = r'"
  using assms
proof (induction u arbitrary: v)
  case Nil
  then show ?case by (cases v) auto
next
  case (Cons a u)
  then show ?case by (cases v) auto
qed

lemma js_of_int_prefix_eq:
  assumes "\<not> is_digit x" and "\<not> is_digit y"
    and "js_of_int a @ x # r = js_of_int b @ y # r'"
  shows "a = b \<and> x = y \<and> r = r'"
proof -
  have dig: "\<forall>c\<in>set (js_of_nat n). is_digit c" for n
    using js_of_nat_digits by blast
  have minus: "\<not> is_digit 45"
    by (simp add: is_digit_def)
  consider (nn) "a < 0" "b < 0" | (np) "a < 0" "\<not> b < 0" | (pn) "\<not> a < 0" "b < 0"
    | (pp) "\<not> a < 0" "\<not> b < 0"
    by blast
  then show ?thesis
  proof cases
    case nn
    with assms have "js_of_nat (nat (- a)) @ x # r = js_of_nat (nat (- b)) @ y # r'"
      by (simp add: js_of_int_def)
    then have "js_of_nat (nat (- a)) = js_of_nat (nat (- b)) \<and> x = y \<and> r = r'"
      by (rule digits_prefix_eq [OF dig dig assms(1,2)])
    with nn show ?thesis by (simp add: nat_eq_iff)
  next
    case np
    with assms minus js_of_nat_Cons [of "nat b"] show ?thesis
      by (auto simp: js_of_int_def)
  next
    case pn
    with assms minus js_of_nat_Cons [of "nat a"] show ?thesis
      by (auto simp: js_of_int_def)
  next
    case pp
    with assms have "js_of_nat (nat a) @ x # r = js_of_nat (nat b) @ y # r'"
      by (simp add: js_of_int_def)
    then have "js_of_nat (nat a) = js_of_nat (nat b) \<and> x = y \<and> r = r'"
      by (rule digits_prefix_eq [OF dig dig assms(1,2)])
    with pp show ?thesis by (simp add: nat_eq_iff)
  qed
qed

lemma js_of_int_inj [simp]: "js_of_int a = js_of_int b \<longleftrightarrow> a = b"
proof
  assume "js_of_int a = js_of_int b"
  then have "js_of_int a @ [44] = js_of_int b @ [44]" by simp
  then show "a = b"
    using js_of_int_prefix_eq [of 44 44 a "[]" b "[]"] by (simp add: is_digit_def)
qed simp

lemma pop_while_eq_take: "pop_while n xs = take n xs"
proof (induction n xs rule: pop_while.induct)
  case (1 n xs)
  show ?case
  proof (cases "n < length xs")
    case True
    with "1.IH" have "pop_while n (butlast xs) = take n (butlast xs)" by simp
    with True show ?thesis by (simp add: pop_while.simps [of n xs] take_butlast)
  next
    case False
    then show ?thesis by (simp add: pop_while.simps [of n xs])
  qed
qed

text \<open>
  The same loops as \<open>while_option\<close> over the array, the shape the source writes:
  both return, with the value of the recursive functions.
\<close>

lemma while_option_pop_while:
  "while_option (\<lambda>c. n < length c) butlast xs = Some (pop_while n xs)"
proof (induction n xs rule: pop_while.induct)
  case (1 n xs)
  then show ?case by (subst while_option_unfold, subst pop_while.simps) simp
qed

lemma while_option_push_while:
  "while_option (\<lambda>c. length c < n) (\<lambda>c. c @ [f (length c)]) xs = Some (push_while n f xs)"
proof (induction n f xs rule: push_while.induct)
  case (1 n f xs)
  then show ?case by (subst while_option_unfold, subst push_while.simps) simp
qed

lemma push_while_eq: "push_while n f xs = xs @ map f [length xs..<n]"
proof (induction n f xs rule: push_while.induct)
  case (1 n f xs)
  show ?case
  proof (cases "length xs < n")
    case True
    with "1.IH" have "push_while n f (xs @ [f (length xs)])
        = (xs @ [f (length xs)]) @ map f [Suc (length xs)..<n]" by simp
    with True show ?thesis by (simp add: push_while.simps [of n f xs] upt_conv_Cons)
  next
    case False
    then show ?thesis by (simp add: push_while.simps [of n f xs])
  qed
qed

lemma js_split_not_Nil [simp]: "js_split c s \<noteq> []"
  by (cases s) (simp_all add: Let_def)

lemma js_split_sep_free: "p \<in> set (js_split c s) \<Longrightarrow> c \<notin> set p"
proof (induction s arbitrary: p)
  case Nil
  then show ?case by simp
next
  case (Cons x xs)
  then show ?case
    by (cases "js_split c xs") (auto simp: Let_def split: if_splits)
qed

lemma js_join_split: "js_join c (js_split c s) = s"
proof (induction s)
  case Nil
  then show ?case by simp
next
  case (Cons x xs)
  then show ?case
    by (cases "js_split c xs" rule: list.exhaust; cases "tl (js_split c xs)")
      (auto simp: Let_def)
qed

lemma js_index_of_eq:
  "js_index_of c s = (if c \<in> set s then int (length (takeWhile (\<lambda>x. x \<noteq> c) s)) else -1)"
  by (induction s) (auto simp: Let_def)

lemma js_trim_idem_empty [simp]: "js_trim [] = []"
  by (simp add: js_trim_def)

lemma js_includes_sublist: "js_includes s p \<longleftrightarrow> sublist p s"
proof
  assume "js_includes s p"
  then obtain i where "take (length p) (drop i s) = p"
    by (auto simp: js_includes_def list_ex_iff)
  then have "s = take i s @ p @ drop (length p) (drop i s)"
    by (metis append_take_drop_id)
  then show "sublist p s" by (metis sublist_appendI)
next
  assume "sublist p s"
  then obtain u v where s: "s = u @ p @ v" by (auto simp: sublist_def)
  then show "js_includes s p"
    by (auto simp: js_includes_def list_ex_iff intro!: bexI [of _ "length u"])
qed

lemma sublist_sep:
  assumes "set p \<inter> set d = {}" and "d \<noteq> []"
  shows "sublist p (u @ d @ w) \<longleftrightarrow> sublist p u \<or> sublist p w"
proof
  assume "sublist p (u @ d @ w)"
  then consider "sublist p u" | "sublist p (d @ w)"
    | p1 p2 where "p = p1 @ p2" "suffix p1 u" "prefix p2 (d @ w)"
    by (auto simp: sublist_append)
  then show "sublist p u \<or> sublist p w"
  proof cases
    case 2
    then consider "sublist p d" | "sublist p w"
      | q1 q2 where "p = q1 @ q2" "suffix q1 d" "prefix q2 w"
      by (auto simp: sublist_append)
    then show ?thesis
    proof cases
      case 1
      then have "set p \<subseteq> set d" by (rule set_mono_sublist)
      with assms(1) have "p = []" by (metis Int_absorb2 set_empty)
      then show ?thesis by simp
    next
      case 3
      have "q1 = []"
      proof (rule ccontr)
        assume "q1 \<noteq> []"
        then have "last q1 \<in> set d" using 3(2) set_mono_suffix by fastforce
        with 3(1) \<open>q1 \<noteq> []\<close> assms(1) show False by (auto dest: last_in_set)
      qed
      with 3 show ?thesis by (auto intro: prefix_imp_sublist)
    qed simp
  next
    case 3
    have "p2 = []"
    proof (rule ccontr)
      assume "p2 \<noteq> []"
      with 3(3) assms(2) have "hd p2 = hd d" by (metis hd_append2 prefixE)
      with \<open>p2 \<noteq> []\<close> 3(1) assms show False by (auto dest: hd_in_set)
    qed
    with 3 show ?thesis by (auto intro: suffix_imp_sublist)
  qed simp
qed (auto simp: sublist_append)

lemma js_of_int_chars: "c \<in> set (js_of_int i) \<Longrightarrow> c = 45 \<or> is_digit c"
  by (auto simp: js_of_int_def split: if_splits dest: js_of_nat_digits)

lemma js_of_int_not_Nil [simp]: "js_of_int i \<noteq> []"
  by (simp add: js_of_int_def)

text \<open>A pattern free of digits and \<open>-\<close> never straddles a printed integer.\<close>

lemma js_includes_int_sep:
  assumes "\<forall>c\<in>set p. c \<noteq> 45 \<and> \<not> is_digit c"
  shows "js_includes (u @ js_of_int i @ w) p \<longleftrightarrow> js_includes u p \<or> js_includes w p"
proof -
  have "set p \<inter> set (js_of_int i) = {}" using assms js_of_int_chars by blast
  then show ?thesis by (simp add: js_includes_sublist sublist_sep)
qed

lemma upt_split_half:
  "[a..<a + h] @ [a + h..<a + h + h] = [a..<a + 2 * h]"
  by (metis mult_2 add.assoc le_add1 upt_add_eq_append)

lemma map_shift: "map (\<lambda>i. f (m + i)) [0..<k] = map f [m..<m + k]"
  by (induction k) auto

text \<open>A result triple whose outcome is not an exception.\<close>

lemma Inr_collapse: "\<not> isl (fst p) \<Longrightarrow> p = (Inr (projr (fst p)), fst (snd p), snd (snd p))"
  by (cases p; cases "fst p") auto

end
