(* ===== verification/Json.thy ===== *)
theory Json
  imports Prelude "HOL-Library.AList"
begin

text \<open>
  JavaScript values as the sources handle them, and the two JSON built-ins the
  persistent store and the catalog extraction rely on. \<open>JSON.stringify\<close> is
  \<open>json_print\<close>; \<open>JSON.parse\<close> is \<open>json_parse\<close>, a recursive-descent parser
  with fuel (\<open>None\<close> is a thrown \<open>SyntaxError\<close>). Numbers are the integers;
  a number with a fraction or an exponent is outside the model and parses as an error.
  The main lemma is the roundtrip \<open>json_parse (json_print v) = Some (json_norm v)\<close>:
  \<open>undefined\<close> array slots come back as \<open>null\<close>, \<open>undefined\<close> members are
  dropped, and a repeated member key keeps its first position and its last value.
\<close>

datatype jsval =
    JUndef
  | JNull
  | JBool bool
  | JNum int
  | JStr jstr
  | JArr "jsval list"
  | JObj "(jstr \<times> jsval) list"

subsection \<open>Truthiness and \<open>String(v)\<close>\<close>

fun js_truthy :: "jsval \<Rightarrow> bool" where
  "js_truthy JUndef = False"
| "js_truthy JNull = False"
| "js_truthy (JBool b) = b"
| "js_truthy (JNum n) = (n \<noteq> 0)"
| "js_truthy (JStr s) = (s \<noteq> [])"
| "js_truthy (JArr _) = True"
| "js_truthy (JObj _) = True"

fun js_is_array :: "jsval \<Rightarrow> bool" where
  "js_is_array (JArr _) = True"
| "js_is_array _ = False"

text \<open>\<open>String(v)\<close>, as a template literal \<open>`${v}`\<close> converts a value.\<close>

fun js_to_string :: "jsval \<Rightarrow> jstr" where
  "js_to_string JUndef = js ''undefined''"
| "js_to_string JNull = js ''null''"
| "js_to_string (JBool b) = (if b then js ''true'' else js ''false'')"
| "js_to_string (JNum n) = js_of_int n"
| "js_to_string (JStr s) = s"
| "js_to_string (JArr vs) =
     js_join 44 (map (\<lambda>v. if v = JUndef \<or> v = JNull then [] else js_to_string v) vs)"
| "js_to_string (JObj _) = js ''[object Object]''"

subsection \<open>\<open>JSON.stringify\<close>\<close>

definition hex_digit :: "nat \<Rightarrow> nat" where
  "hex_digit d = (if d < 10 then 48 + d else 87 + d)"

definition hex4 :: "nat \<Rightarrow> jstr" where
  "hex4 c = map (\<lambda>k. hex_digit (c div 16 ^ k mod 16)) [3, 2, 1, 0]"

definition is_high_surrogate :: "nat \<Rightarrow> bool" where
  "is_high_surrogate c \<longleftrightarrow> 55296 \<le> c \<and> c \<le> 56319"

definition is_low_surrogate :: "nat \<Rightarrow> bool" where
  "is_low_surrogate c \<longleftrightarrow> 56320 \<le> c \<and> c \<le> 57343"

text \<open>
  The escaping of \<open>QuoteJSONString\<close> (ECMA-262, 2019 and later): quote, backslash
  and the five short control escapes, \<open>\u00XX\<close> for the other control units, and
  \<open>\uXXXX\<close> for a surrogate that is not part of a pair.
\<close>

definition json_esc :: "nat \<Rightarrow> jstr" where
  "json_esc c =
     (if c = 34 then [92, 34]
      else if c = 92 then [92, 92]
      else if c = 8 then [92, 98]
      else if c = 12 then [92, 102]
      else if c = 10 then [92, 110]
      else if c = 13 then [92, 114]
      else if c = 9 then [92, 116]
      else if c < 32 \<or> is_high_surrogate c \<or> is_low_surrogate c then [92, 117] @ hex4 c
      else [c])"

fun json_quote :: "jstr \<Rightarrow> jstr" where
  "json_quote [] = []"
| "json_quote (c # cs) =
     (if is_high_surrogate c \<and> cs \<noteq> [] \<and> is_low_surrogate (hd cs)
      then c # hd cs # json_quote (tl cs)
      else json_esc c @ json_quote cs)"

definition json_string :: "jstr \<Rightarrow> jstr" where
  "json_string s = 34 # json_quote s @ [34]"

text \<open>
  \<open>undefined\<close> prints as \<open>null\<close> in an array slot (the only place the sources
  meet it); a member whose value is \<open>undefined\<close> is left out.
\<close>

fun json_print :: "jsval \<Rightarrow> jstr" where
  "json_print JUndef = js ''null''"
| "json_print JNull = js ''null''"
| "json_print (JBool b) = (if b then js ''true'' else js ''false'')"
| "json_print (JNum n) = js_of_int n"
| "json_print (JStr s) = json_string s"
| "json_print (JArr vs) = 91 # js_join 44 (map json_print vs) @ [93]"
| "json_print (JObj kvs) =
     123 # js_join 44 (map (\<lambda>kv. json_string (fst kv) @ 58 # json_print (snd kv))
                        (filter (\<lambda>kv. snd kv \<noteq> JUndef) kvs)) @ [125]"

subsection \<open>\<open>JSON.parse\<close>\<close>

definition json_ws :: "nat \<Rightarrow> bool" where
  "json_ws c \<longleftrightarrow> c = 9 \<or> c = 10 \<or> c = 13 \<or> c = 32"

definition skip_ws :: "jstr \<Rightarrow> jstr" where
  "skip_ws s = dropWhile json_ws s"

definition hex_val :: "nat \<Rightarrow> nat option" where
  "hex_val c =
     (if 48 \<le> c \<and> c \<le> 57 then Some (c - 48)
      else if 65 \<le> c \<and> c \<le> 70 then Some (c - 55)
      else if 97 \<le> c \<and> c \<le> 102 then Some (c - 87) else None)"

definition hex4_val :: "jstr \<Rightarrow> nat option" where
  "hex4_val s =
     (if length s = 4 \<and> (\<forall>c\<in>set s. hex_val c \<noteq> None)
      then Some (foldl (\<lambda>acc c. 16 * acc + the (hex_val c)) 0 s) else None)"

definition esc_char :: "nat \<Rightarrow> nat option" where
  "esc_char e =
     (if e = 34 \<or> e = 92 \<or> e = 47 then Some e
      else if e = 98 then Some 8 else if e = 102 then Some 12
      else if e = 110 then Some 10 else if e = 114 then Some 13
      else if e = 116 then Some 9 else None)"

text \<open>The body of a string literal, up to and without its closing quote.\<close>

fun parse_chars :: "jstr \<Rightarrow> (jstr \<times> jstr) option" where
  "parse_chars [] = None"
| "parse_chars (c # r) =
     (if c = 34 then Some ([], r)
      else if c = 92 then
        (case r of
          [] \<Rightarrow> None
        | e # r' \<Rightarrow>
            (if e = 117 then
               (case hex4_val (take 4 r') of
                  None \<Rightarrow> None
                | Some u \<Rightarrow> map_option (\<lambda>(t, rest). (u # t, rest)) (parse_chars (drop 4 r')))
             else
               (case esc_char e of
                  None \<Rightarrow> None
                | Some u \<Rightarrow> map_option (\<lambda>(t, rest). (u # t, rest)) (parse_chars r'))))
      else if c < 32 then None
      else map_option (\<lambda>(t, rest). (c # t, rest)) (parse_chars r))"

text \<open>An integer literal: \<open>-?(0|[1-9][0-9]*)\<close>, not followed by a fraction or an exponent.\<close>

definition parse_number :: "jstr \<Rightarrow> (jsval \<times> jstr) option" where
  "parse_number s =
     (let neg = (s \<noteq> [] \<and> hd s = 45);
          s1 = (if neg then tl s else s);
          ds = takeWhile is_digit s1;
          r = dropWhile is_digit s1
      in if ds = [] \<or> (hd ds = 48 \<and> 1 < length ds) \<or> (r \<noteq> [] \<and> hd r \<in> {46, 69, 101})
         then None
         else Some (JNum ((if neg then -1 else 1) * int (digits_val 0 ds)), r))"

text \<open>Member keys as \<open>JSON.parse\<close> stores them: a later duplicate overwrites in place.\<close>

definition json_members :: "(jstr \<times> jsval) list \<Rightarrow> (jstr \<times> jsval) list" where
  "json_members kvs = foldl (\<lambda>al kv. AList.update (fst kv) (snd kv) al) [] kvs"

fun parse_value :: "nat \<Rightarrow> jstr \<Rightarrow> (jsval \<times> jstr) option"
and parse_elems :: "nat \<Rightarrow> jstr \<Rightarrow> (jsval list \<times> jstr) option"
and parse_members :: "nat \<Rightarrow> jstr \<Rightarrow> ((jstr \<times> jsval) list \<times> jstr) option" where
  "parse_value 0 s = None"
| "parse_value (Suc n) s =
     (case s of
       [] \<Rightarrow> None
     | c # r \<Rightarrow>
         (if c = 91 then
            (let r1 = skip_ws r in
             if r1 \<noteq> [] \<and> hd r1 = 93 then Some (JArr [], tl r1)
             else map_option (\<lambda>(vs, rest). (JArr vs, rest)) (parse_elems n r1))
          else if c = 123 then
            (let r1 = skip_ws r in
             if r1 \<noteq> [] \<and> hd r1 = 125 then Some (JObj [], tl r1)
             else map_option (\<lambda>(kvs, rest). (JObj (json_members kvs), rest)) (parse_members n r1))
          else if c = 34 then map_option (\<lambda>(t, rest). (JStr t, rest)) (parse_chars r)
          else if c = 116 \<and> take 3 r = js ''rue'' then Some (JBool True, drop 3 r)
          else if c = 102 \<and> take 4 r = js ''alse'' then Some (JBool False, drop 4 r)
          else if c = 110 \<and> take 3 r = js ''ull'' then Some (JNull, drop 3 r)
          else parse_number s))"
| "parse_elems 0 s = None"
| "parse_elems (Suc n) s =
     (case parse_value n s of
       None \<Rightarrow> None
     | Some (v, r) \<Rightarrow>
         (let r1 = skip_ws r in
          if r1 \<noteq> [] \<and> hd r1 = 93 then Some ([v], tl r1)
          else if r1 \<noteq> [] \<and> hd r1 = 44 then
            map_option (\<lambda>(vs, rest). (v # vs, rest)) (parse_elems n (skip_ws (tl r1)))
          else None))"
| "parse_members 0 s = None"
| "parse_members (Suc n) s =
     (case s of
       [] \<Rightarrow> None
     | c # r \<Rightarrow>
         (if c \<noteq> 34 then None
          else
            (case parse_chars r of
              None \<Rightarrow> None
            | Some (k, r1) \<Rightarrow>
                (let r2 = skip_ws r1 in
                 if r2 = [] \<or> hd r2 \<noteq> 58 then None
                 else
                   (case parse_value n (skip_ws (tl r2)) of
                     None \<Rightarrow> None
                   | Some (v, r3) \<Rightarrow>
                       (let r4 = skip_ws r3 in
                        if r4 \<noteq> [] \<and> hd r4 = 125 then Some ([(k, v)], tl r4)
                        else if r4 \<noteq> [] \<and> hd r4 = 44 then
                          map_option (\<lambda>(kvs, rest). ((k, v) # kvs, rest))
                            (parse_members n (skip_ws (tl r4)))
                        else None))))))"

text \<open>
  The whole text must be one value between white space. The fuel is one more than the
  length of the text; \<open>jfuel_le\<close> below shows it is enough for every printed value.
\<close>

definition json_parse :: "jstr \<Rightarrow> jsval option" where
  "json_parse s =
     (case parse_value (Suc (length s)) (skip_ws s) of
       None \<Rightarrow> None
     | Some (v, r) \<Rightarrow> if skip_ws r = [] then Some v else None)"

text \<open>What \<open>JSON.parse(JSON.stringify(v))\<close> gives back.\<close>

fun json_norm :: "jsval \<Rightarrow> jsval" where
  "json_norm JUndef = JNull"
| "json_norm (JArr vs) = JArr (map json_norm vs)"
| "json_norm (JObj kvs) =
     JObj (json_members (map (\<lambda>kv. (fst kv, json_norm (snd kv)))
                          (filter (\<lambda>kv. snd kv \<noteq> JUndef) kvs)))"
| "json_norm v = v"

text \<open>
  The exceptions the modelled code can raise: \<open>JSON.parse\<close> on malformed text, and
  a property access or method call on a value that does not have it (class bodies run
  in strict mode, so assigning an index of a primitive throws too).
\<close>

datatype js_exn = SyntaxError | TypeError

definition JSON_parse :: "jstr \<Rightarrow> js_exn + jsval" where
  "JSON_parse s = (case json_parse s of None \<Rightarrow> Inl SyntaxError | Some v \<Rightarrow> Inr v)"

text \<open>\<open>v.k\<close>: a member of an object, \<open>undefined\<close> otherwise.\<close>

fun js_get_prop :: "jsval \<Rightarrow> jstr \<Rightarrow> jsval" where
  "js_get_prop (JObj kvs) k = (case map_of kvs k of None \<Rightarrow> JUndef | Some v \<Rightarrow> v)"
| "js_get_prop _ k = JUndef"

text \<open>
  \<open>a[i] = v\<close>: an array past its end grows, the new slots between are holes
  (\<open>undefined\<close>); an object gets the member \<open>String(i)\<close>.
\<close>

fun js_set_index :: "jsval \<Rightarrow> nat \<Rightarrow> jsval \<Rightarrow> js_exn + jsval" where
  "js_set_index (JArr vs) i v =
     Inr (JArr (if i < length vs then vs[i := v] else vs @ replicate (i - length vs) JUndef @ [v]))"
| "js_set_index (JObj kvs) i v = Inr (JObj (AList.update (js_of_nat i) v kvs))"
| "js_set_index _ i v = Inl TypeError"

text \<open>
  \<open>a.includes(x)\<close> and \<open>a.push(x)\<close>; on a string \<open>includes\<close> is the substring
  test (only a string \<open>x\<close> is ever passed), elsewhere both are missing methods.
\<close>

fun js_includes_val :: "jsval \<Rightarrow> jsval \<Rightarrow> js_exn + bool" where
  "js_includes_val (JArr vs) x = Inr (x \<in> set vs)"
| "js_includes_val (JStr s) x = Inr (js_includes s (js_to_string x))"
| "js_includes_val _ x = Inl TypeError"

fun js_push :: "jsval \<Rightarrow> jsval \<Rightarrow> js_exn + jsval" where
  "js_push (JArr vs) x = Inr (JArr (vs @ [x]))"
| "js_push _ x = Inl TypeError"

text \<open>
  Proof support: the context a printed value may be followed by, and the fuel a value
  needs (one unit per nesting level and per element).
\<close>

definition json_delim :: "jstr \<Rightarrow> bool" where
  "json_delim r \<longleftrightarrow> r = [] \<or> hd r \<in> {9, 10, 13, 32, 44, 93, 125}"

fun jfuel :: "jsval \<Rightarrow> nat" where
  "jfuel (JArr vs) = Suc (sum_list (map (\<lambda>v. Suc (jfuel v)) vs))"
| "jfuel (JObj kvs) =
     Suc (sum_list (map (\<lambda>kv. Suc (jfuel (snd kv))) (filter (\<lambda>kv. snd kv \<noteq> JUndef) kvs)))"
| "jfuel _ = 1"

text \<open>A value \<open>JSON.parse\<close> can produce: no \<open>undefined\<close>, objects without duplicate keys.\<close>

definition json_normal :: "jsval \<Rightarrow> bool" where
  "json_normal v \<longleftrightarrow> json_norm v = v \<and> v \<noteq> JUndef"

subsection \<open>Lemmas\<close>

lemma hex_val_hex_digit: "d < 16 \<Longrightarrow> hex_val (hex_digit d) = Some d"
  by (auto simp: hex_val_def hex_digit_def)

lemma hex4_arith:
  assumes "(c::nat) < 65536"
  shows "16 * (16 * (16 * (c div 4096 mod 16) + c div 256 mod 16) + c div 16 mod 16) + c mod 16 = c"
proof -
  have d3: "c div 4096 mod 16 = c div 256 div 16"
    using assms by (simp add: div_mult2_eq [symmetric])
  have "16 * (c div 256 div 16) + c div 256 mod 16 = c div 256"
    by (rule mult_div_mod_eq)
  moreover have "c div 256 = c div 16 div 16"
    by (simp add: div_mult2_eq [symmetric])
  moreover have "16 * (c div 16 div 16) + c div 16 mod 16 = c div 16"
    by (rule mult_div_mod_eq)
  moreover have "16 * (c div 16) + c mod 16 = c"
    by (rule mult_div_mod_eq)
  ultimately show ?thesis
    using d3 by (metis mod_mod_trivial)
qed

lemma length_hex4 [simp]: "length (hex4 c) = 4"
  by (simp add: hex4_def)

lemma hex4_val_hex4: "c < 65536 \<Longrightarrow> hex4_val (hex4 c) = Some c"
  using hex4_arith [of c] by (simp add: hex4_val_def hex4_def hex_val_hex_digit)

lemma parse_chars_esc:
  "parse_chars (json_esc c @ r) = map_option (\<lambda>(t, rest). (c # t, rest)) (parse_chars r)"
  by (auto simp: json_esc_def esc_char_def hex4_val_hex4 is_high_surrogate_def is_low_surrogate_def)

lemma parse_chars_quote: "parse_chars (json_quote s @ 34 # r) = Some (s, r)"
proof (induction s rule: json_quote.induct)
  case 1
  then show ?case by simp
next
  case (2 c cs)
  then show ?case
    by (cases cs) (auto simp: parse_chars_esc is_high_surrogate_def is_low_surrogate_def)
qed

lemma js_of_nat_lead_zero: "js_of_nat n = 48 # ds \<Longrightarrow> ds = []"
proof (induction n arbitrary: ds rule: js_of_nat.induct)
  case (1 n)
  show ?case
  proof (cases "n < 10")
    case True
    with "1.prems" show ?thesis by (subst (asm) js_of_nat.simps) simp
  next
    case False
    obtain d ds' where hd: "js_of_nat (n div 10) = d # ds'"
      using js_of_nat_Cons by blast
    with False "1.prems" have "d = 48"
      by (subst (asm) js_of_nat.simps) simp
    with False "1.IH" hd have "js_of_nat (n div 10) = [48]" by simp
    then have "n div 10 = 0"
      using digits_val_js_of_nat [of "n div 10"] by simp
    with False show ?thesis by simp
  qed
qed

lemma digits_split:
  assumes "\<forall>c\<in>set u. is_digit c" and "r = [] \<or> \<not> is_digit (hd r)"
  shows "takeWhile is_digit (u @ r) = u" and "dropWhile is_digit (u @ r) = r"
  using assms by (cases r; simp add: takeWhile_append dropWhile_append)+

lemma parse_number_js_of_int:
  assumes "r = [] \<or> (\<not> is_digit (hd r) \<and> hd r \<notin> {46, 69, 101})"
  shows "parse_number (js_of_int i @ r) = Some (JNum i, r)"
proof -
  let ?m = "nat \<bar>i\<bar>"
  have dig: "\<forall>c\<in>set (js_of_nat ?m). is_digit c"
    using js_of_nat_digits by blast
  have r: "r = [] \<or> \<not> is_digit (hd r)"
    using assms by blast
  obtain d ds where dd: "js_of_nat ?m = d # ds" and "is_digit d"
    using js_of_nat_Cons by blast
  then have not_minus: "d \<noteq> 45"
    by (auto simp: is_digit_def)
  have lead: "\<not> (hd (js_of_nat ?m) = 48 \<and> 1 < length (js_of_nat ?m))"
    using dd js_of_nat_lead_zero [of ?m ds] by auto
  have val: "digits_val 0 (js_of_nat ?m) = ?m"
    by (rule digits_val_js_of_nat)
  have tw0: "takeWhile is_digit r = []" and dw0: "dropWhile is_digit r = r"
    using r by (cases r; simp)+
  show ?thesis
  proof (cases "i < 0")
    case True
    then have "js_of_int i = 45 # js_of_nat ?m"
      by (simp add: js_of_int_def)
    with True assms dig r lead val dd tw0 dw0 show ?thesis
      by (cases r) (simp_all add: parse_number_def Let_def takeWhile_eq_all_conv [THEN iffD2])
  next
    case False
    then have "js_of_int i = js_of_nat ?m"
      by (simp add: js_of_int_def)
    with False assms dig r lead val dd not_minus tw0 dw0 show ?thesis
      by (cases r) (simp_all add: parse_number_def Let_def takeWhile_eq_all_conv [THEN iffD2])
  qed
qed

lemma skip_ws_id: "s \<noteq> [] \<Longrightarrow> \<not> json_ws (hd s) \<Longrightarrow> skip_ws s = s"
  by (cases s) (simp_all add: skip_ws_def)

lemma js_join_Cons: "js_join c (x # xs) = (if xs = [] then x else x @ c # js_join c xs)"
  by (cases xs) simp_all

lemma json_print_head:
  "json_print v \<noteq> [] \<and> \<not> json_ws (hd (json_print v)) \<and> hd (json_print v) \<notin> {93, 125}"
proof (cases v)
  case (JNum i)
  obtain d ds where "js_of_nat (nat \<bar>i\<bar>) = d # ds" and "is_digit d"
    using js_of_nat_Cons by blast
  with JNum show ?thesis
    by (auto simp: js_of_int_def json_ws_def is_digit_def split: if_splits)
qed (auto simp: js_def json_string_def json_ws_def)

lemma json_print_skip_ws: "skip_ws (json_print v @ r) = json_print v @ r"
  using json_print_head [of v] by (simp add: skip_ws_id)

lemma json_delim_number: "json_delim r \<Longrightarrow> r = [] \<or> (\<not> is_digit (hd r) \<and> hd r \<notin> {46, 69, 101})"
  by (auto simp: json_delim_def is_digit_def)

lemma jfuel_pos: "jfuel v \<noteq> 0"
  by (cases v) simp_all

lemma skip_ws_Cons: "\<not> json_ws c \<Longrightarrow> skip_ws (c # s) = c # s"
  by (simp add: skip_ws_def)

lemma skip_ws_join:
  "vs \<noteq> [] \<Longrightarrow> skip_ws (js_join 44 (map json_print vs) @ t) = js_join 44 (map json_print vs) @ t"
  using json_print_skip_ws [of "hd vs"] by (cases vs) (simp_all add: js_join_Cons)

lemma parse_elems_join:
  assumes "\<And>x n r. x \<in> set vs \<Longrightarrow> jfuel x \<le> n \<Longrightarrow> json_delim r \<Longrightarrow>
      parse_value n (json_print x @ r) = Some (json_norm x, r)"
    and "vs \<noteq> []" and "sum_list (map (\<lambda>v. Suc (jfuel v)) vs) \<le> m"
  shows "parse_elems m (js_join 44 (map json_print vs) @ 93 # r) = Some (map json_norm vs, r)"
  using assms
proof (induction vs arbitrary: m)
  case Nil
  then show ?case by simp
next
  case (Cons v vs)
  from Cons.prems(3) obtain m' where m: "m = Suc m'" and fv: "jfuel v \<le> m'"
      and rest: "sum_list (map (\<lambda>v. Suc (jfuel v)) vs) \<le> m'"
    by (cases m) auto
  show ?case
  proof (cases "vs = []")
    case True
    have "parse_value m' (json_print v @ 93 # r) = Some (json_norm v, 93 # r)"
      using Cons.prems(1) fv by (simp add: json_delim_def)
    with True m show ?thesis by (simp add: skip_ws_Cons json_ws_def)
  next
    case False
    let ?t = "js_join 44 (map json_print vs) @ 93 # r"
    have v: "parse_value m' (json_print v @ 44 # ?t) = Some (json_norm v, 44 # ?t)"
      using Cons.prems(1) fv by (simp add: json_delim_def)
    have "parse_elems m' ?t = Some (map json_norm vs, r)"
      by (rule Cons.IH) (use Cons.prems(1) False rest in auto)
    with m v False show ?thesis
      by (simp add: js_join_Cons skip_ws_Cons json_ws_def skip_ws_join)
  qed
qed

lemma parse_members_join:
  assumes "\<And>kv n r. kv \<in> set kvs \<Longrightarrow> jfuel (snd kv) \<le> n \<Longrightarrow> json_delim r \<Longrightarrow>
      parse_value n (json_print (snd kv) @ r) = Some (json_norm (snd kv), r)"
    and "kvs \<noteq> []" and "sum_list (map (\<lambda>kv. Suc (jfuel (snd kv))) kvs) \<le> m"
  shows "parse_members m
      (js_join 44 (map (\<lambda>kv. json_string (fst kv) @ 58 # json_print (snd kv)) kvs) @ 125 # r)
    = Some (map (\<lambda>kv. (fst kv, json_norm (snd kv))) kvs, r)"
  using assms
proof (induction kvs arbitrary: m)
  case Nil
  then show ?case by simp
next
  case (Cons kv kvs)
  obtain k v where kv: "kv = (k, v)" by fastforce
  from Cons.prems(3) kv obtain m' where m: "m = Suc m'" and fv: "jfuel v \<le> m'"
      and rest: "sum_list (map (\<lambda>kv. Suc (jfuel (snd kv))) kvs) \<le> m'"
    by (cases m) auto
  have key: "parse_chars (json_quote k @ 34 # t) = Some (k, t)" for t
    by (rule parse_chars_quote)
  show ?case
  proof (cases "kvs = []")
    case True
    have "parse_value m' (json_print v @ 125 # r) = Some (json_norm v, 125 # r)"
      using Cons.prems(1) [of kv] kv fv by (simp add: json_delim_def)
    with True m kv key show ?thesis
      by (simp add: json_string_def skip_ws_Cons json_ws_def json_print_skip_ws)
  next
    case False
    let ?t = "js_join 44 (map (\<lambda>kv. json_string (fst kv) @ 58 # json_print (snd kv)) kvs) @ 125 # r"
    have v: "parse_value m' (json_print v @ 44 # ?t) = Some (json_norm v, 44 # ?t)"
      using Cons.prems(1) [of kv] kv fv by (simp add: json_delim_def)
    have t: "skip_ws ?t = ?t"
      using False by (cases kvs) (simp_all add: js_join_Cons json_string_def skip_ws_Cons json_ws_def)
    have "parse_members m' ?t = Some (map (\<lambda>kv. (fst kv, json_norm (snd kv))) kvs, r)"
      by (rule Cons.IH) (use Cons.prems(1) False rest in auto)
    with m v t False kv key show ?thesis
      by (simp add: js_join_Cons json_string_def skip_ws_Cons json_ws_def json_print_skip_ws)
  qed
qed

lemma js_of_int_Cons: "\<exists>c cs. js_of_int i = c # cs \<and> (c = 45 \<or> is_digit c)"
  using js_of_nat_Cons [of "nat \<bar>i\<bar>"] by (auto simp: js_of_int_def)

lemma parse_print:
  "jfuel v \<le> n \<Longrightarrow> json_delim r \<Longrightarrow> parse_value n (json_print v @ r) = Some (json_norm v, r)"
proof (induction v arbitrary: n r rule: json_print.induct)
  case (4 i)
  then obtain m where m: "n = Suc m" by (cases n) auto
  obtain c cs where cs: "js_of_int i = c # cs" and c: "c = 45 \<or> is_digit c"
    using js_of_int_Cons by blast
  from c cs m have "parse_value n (json_print (JNum i) @ r) = parse_number (js_of_int i @ r)"
    by (auto simp: is_digit_def)
  also have "\<dots> = Some (JNum i, r)"
    using json_delim_number [OF "4.prems"(2)] by (rule parse_number_js_of_int)
  finally show ?case by simp
next
  case (5 s)
  then show ?case
    by (cases n) (simp_all add: json_string_def parse_chars_quote)
next
  case (6 vs)
  then obtain m where m: "n = Suc m" by (cases n) auto
  show ?case
  proof (cases "vs = []")
    case True
    with m show ?thesis by (simp add: skip_ws_Cons json_ws_def)
  next
    case False
    have "parse_elems m (js_join 44 (map json_print vs) @ 93 # r) = Some (map json_norm vs, r)"
      by (rule parse_elems_join) (use "6" m False in auto)
    moreover have "js_join 44 (map json_print vs) \<noteq> [] \<and> hd (js_join 44 (map json_print vs)) \<noteq> 93"
      using False json_print_head [of "hd vs"] by (cases vs) (auto simp: js_join_Cons)
    ultimately show ?thesis
      using m False by (simp add: skip_ws_join)
  qed
next
  case (7 kvs)
  let ?f = "filter (\<lambda>kv. snd kv \<noteq> JUndef) kvs"
  from "7.prems" obtain m where m: "n = Suc m" by (cases n) auto
  show ?case
  proof (cases "?f = []")
    case True
    with m show ?thesis
      by (simp add: skip_ws_Cons json_ws_def json_members_def)
  next
    case False
    have "parse_members m
        (js_join 44 (map (\<lambda>kv. json_string (fst kv) @ 58 # json_print (snd kv)) ?f) @ 125 # r)
      = Some (map (\<lambda>kv. (fst kv, json_norm (snd kv))) ?f, r)"
      by (rule parse_members_join) (use "7" m False in auto)
    moreover have "skip_ws (js_join 44 (map (\<lambda>kv. json_string (fst kv) @ 58 # json_print (snd kv)) ?f) @ 125 # r)
        = js_join 44 (map (\<lambda>kv. json_string (fst kv) @ 58 # json_print (snd kv)) ?f) @ 125 # r"
      using False by (cases ?f) (simp_all add: js_join_Cons json_string_def skip_ws_Cons json_ws_def)
    moreover have "js_join 44 (map (\<lambda>kv. json_string (fst kv) @ 58 # json_print (snd kv)) ?f) \<noteq> []
        \<and> hd (js_join 44 (map (\<lambda>kv. json_string (fst kv) @ 58 # json_print (snd kv)) ?f)) = 34"
      using False by (cases ?f) (simp_all add: js_join_Cons json_string_def)
    ultimately show ?thesis
      using m False by (simp add: json_string_def Let_def)
  qed
next
  case 1
  then show ?case by (cases n) (simp_all add: js_def)
next
  case 2
  then show ?case by (cases n) (simp_all add: js_def)
next
  case (3 b)
  then show ?case by (cases n; cases b) (simp_all add: js_def)
qed

lemma length_js_join:
  "xs \<noteq> [] \<Longrightarrow> Suc (length (js_join c xs)) = sum_list (map (\<lambda>x. Suc (length x)) xs)"
  by (induction c xs rule: js_join.induct) auto

lemma jfuel_le: "jfuel v \<le> length (json_print v)"
proof (induction v rule: json_print.induct)
  case (4 i)
  then show ?case using js_of_int_Cons [of i] by auto
next
  case (6 vs)
  show ?case
  proof (cases "vs = []")
    case False
    have "sum_list (map (\<lambda>v. Suc (jfuel v)) vs) \<le> sum_list (map (\<lambda>x. Suc (length x)) (map json_print vs))"
      using "6" by (simp add: sum_list_mono)
    with False show ?thesis
      using length_js_join [of "map json_print vs" 44] by simp
  qed simp
next
  case (7 kvs)
  let ?f = "filter (\<lambda>kv. snd kv \<noteq> JUndef) kvs"
  let ?m = "map (\<lambda>kv. json_string (fst kv) @ 58 # json_print (snd kv)) ?f"
  show ?case
  proof (cases "?f = []")
    case False
    have "sum_list (map (\<lambda>kv. Suc (jfuel (snd kv))) ?f)
        \<le> sum_list (map (\<lambda>kv. Suc (length (json_string (fst kv) @ 58 # json_print (snd kv)))) ?f)"
      by (rule sum_list_mono) (use "7" in \<open>fastforce simp: json_string_def\<close>)
    then have "sum_list (map (\<lambda>kv. Suc (jfuel (snd kv))) ?f) \<le> sum_list (map (\<lambda>x. Suc (length x)) ?m)"
      by (simp add: comp_def)
    with False show ?thesis
      using length_js_join [of ?m 44] by simp
  qed simp
qed (simp_all add: js_def json_string_def)

theorem json_roundtrip: "json_parse (json_print v) = Some (json_norm v)"
proof -
  have "parse_value (Suc (length (json_print v))) (json_print v @ []) = Some (json_norm v, [])"
    by (rule parse_print) (use jfuel_le [of v] in \<open>simp_all add: json_delim_def\<close>)
  then show ?thesis
    using json_print_skip_ws [of v "[]"] by (simp add: json_parse_def skip_ws_def)
qed

lemma JSON_parse_print: "JSON_parse (json_print v) = Inr (json_norm v)"
  by (simp add: JSON_parse_def json_roundtrip)

lemma json_print_not_Nil [simp]: "json_print v \<noteq> []"
  using json_print_head [of v] by blast

lemma json_norm_strs [simp]: "json_norm (JArr (map JStr ks)) = JArr (map JStr ks)"
  by (induction ks) simp_all

text \<open>Every value \<open>JSON.parse\<close> returns is already normal.\<close>

lemma update_fresh: "k \<notin> fst ` set al \<Longrightarrow> AList.update k v al = al @ [(k, v)]"
  by (induction al) auto

lemma foldl_update_distinct:
  "distinct (map fst (acc @ al)) \<Longrightarrow> foldl (\<lambda>al kv. AList.update (fst kv) (snd kv) al) acc al = acc @ al"
proof (induction al arbitrary: acc)
  case (Cons kv al)
  then have "AList.update (fst kv) (snd kv) acc = acc @ [kv]"
    by (simp add: update_fresh)
  with Cons show ?case by simp
qed simp

lemma foldl_update_set:
  "set (foldl (\<lambda>al kv. AList.update (fst kv) (snd kv) al) acc al) \<subseteq> set acc \<union> set al"
proof (induction al arbitrary: acc)
  case (Cons kv al)
  have "set (AList.update (fst kv) (snd kv) acc) \<subseteq> insert kv (set acc)"
    by (induction acc) (auto simp: AList.update.simps)
  with Cons.IH [of "AList.update (fst kv) (snd kv) acc"] show ?case by auto
qed simp

lemma json_members_distinct: "distinct (map fst (json_members kvs))"
proof -
  have "\<And>acc. distinct (map fst acc) \<Longrightarrow>
          distinct (map fst (foldl (\<lambda>al kv. AList.update (fst kv) (snd kv) al) acc kvs))"
    by (induction kvs) (auto simp: AList.distinct_update)
  then show ?thesis by (simp add: json_members_def)
qed

lemma json_members_idem: "json_members (json_members kvs) = json_members kvs"
  using foldl_update_distinct [of "[]" "json_members kvs"] json_members_distinct
  by (simp add: json_members_def)

lemma json_members_id: "distinct (map fst kvs) \<Longrightarrow> json_members kvs = kvs"
  using foldl_update_distinct [of "[]" kvs] by (simp add: json_members_def)

lemma json_members_normal:
  assumes "\<forall>kv\<in>set kvs. json_normal (snd kv)"
  shows "json_normal (JObj (json_members kvs))"
proof -
  have s: "\<forall>kv\<in>set (json_members kvs). json_normal (snd kv)"
    using assms foldl_update_set [of "[]" kvs] by (auto simp: json_members_def)
  then have "filter (\<lambda>kv. snd kv \<noteq> JUndef) (json_members kvs) = json_members kvs"
    by (auto simp: json_normal_def)
  moreover have "map (\<lambda>kv. (fst kv, json_norm (snd kv))) (json_members kvs) = json_members kvs"
    using s by (induction "json_members kvs") (auto simp: json_normal_def intro!: map_idI)
  ultimately show ?thesis by (simp add: json_normal_def json_members_idem)
qed

lemma json_normal_intros:
  "json_normal (JStr t)" "json_normal (JBool b)" "json_normal JNull" "json_normal (JNum i)"
  "json_normal (JObj [])"
  "\<forall>v\<in>set vs. json_normal v \<Longrightarrow> json_normal (JArr vs)"
  by (auto simp: json_normal_def json_members_def intro: map_idI)

lemma parse_number_normal: "parse_number s = Some (v, r) \<Longrightarrow> json_normal v"
  by (auto simp: parse_number_def Let_def json_normal_def split: if_splits)

lemma parse_normal:
  "parse_value n s = Some (v, r) \<Longrightarrow> json_normal v"
  "parse_elems n s = Some (vs, r) \<Longrightarrow> \<forall>v\<in>set vs. json_normal v"
  "parse_members n s = Some (kvs, r) \<Longrightarrow> \<forall>kv\<in>set kvs. json_normal (snd kv)"
proof (induction n s and n s and n s arbitrary: v r and vs r and kvs r
       rule: parse_value_parse_elems_parse_members.induct)
  case (2 n s)
  then show ?case
    by (auto simp: Let_def split: list.splits if_splits option.splits
             intro: json_normal_intros json_members_normal parse_number_normal)
       (blast intro: json_members_normal)+
next
  case (4 n s)
  then show ?case
    by (auto simp: Let_def split: option.splits if_splits)
next
  case (6 n s)
  then show ?case
    by (auto simp: Let_def split: list.splits option.splits if_splits) fastforce+
qed simp_all

lemma JSON_parse_value: "JSON_parse s = Inr v \<Longrightarrow> \<exists>n r. parse_value n (skip_ws s) = Some (v, r)"
proof -
  assume p: "JSON_parse s = Inr v"
  define f where "f = Suc (length s)"
  have "json_parse s = (case parse_value f (skip_ws s) of None \<Rightarrow> None
                        | Some (v, r) \<Rightarrow> if skip_ws r = [] then Some v else None)"
    by (simp add: json_parse_def f_def)
  with p show ?thesis by (auto simp: JSON_parse_def split: option.splits if_splits) blast
qed

lemma JSON_parse_normal: "JSON_parse s = Inr v \<Longrightarrow> json_norm v = v"
  by (auto simp: json_normal_def dest!: JSON_parse_value parse_normal(1))

lemma JSON_parse_wellformed: "JSON_parse s = Inr v \<Longrightarrow> json_normal v"
  by (auto dest!: JSON_parse_value parse_normal(1))

end
