(* ===== verification/Config.thy ===== *)
theory Config
  imports Prelude
begin

text \<open>
  The read-only inputs of the core: the configuration object \<open>CONFIG\<close>
  (src/src/js/config.js) and the offline content \<open>MOCK_DATA\<close>
  (src/src/js/mockData.js). The sources read \<open>CONFIG\<close> as a global; the model passes
  it to every operation as an explicit value. Counts (\<open>booksPerRoom\<close> and the shelf
  layout) are natural numbers, all other numbers integers.
\<close>

record size2 =
  width :: int
  height :: int

record config =
  librarySize :: size2
  roomSize :: size2
  booksPerRoom :: nat
  aislesPerRoom :: nat
  booksPerAisle :: nat
  playerSpeed :: int
  playerSize :: int
  wordsPerPage :: int
  apiURL :: jstr
  apiModel :: jstr
  debug :: bool
  useMockData :: bool
  debugControls :: bool
  showFPS :: bool
  logEvents :: bool

definition CONFIG :: config where
  "CONFIG =
    \<lparr>librarySize = \<lparr>width = 256, height = 256\<rparr>,
     roomSize = \<lparr>width = 800, height = 600\<rparr>,
     booksPerRoom = 100, aislesPerRoom = 5, booksPerAisle = 20,
     playerSpeed = 3, playerSize = 32, wordsPerPage = 500,
     apiURL = js ''https://api.openai.com/v1/chat/completions'',
     apiModel = js ''gpt-3.5-turbo'',
     debug = True, useMockData = True, debugControls = True, showFPS = True,
     logEvents = True\<rparr>"

record mock_data =
  stories :: "jstr list"
  bookContents :: "jstr list"
  bookTitles :: "jstr list"

definition MOCK_DATA :: mock_data where
  \<open>MOCK_DATA =
    \<lparr>stories = [
      js ''As {name} stood at the entrance of the Library of Babel, the weight of their quest pressed heavily upon their shoulders. {description} They had traveled across continents, following whispers and legends, all leading to this mythical repository of all possible knowledge. The librarian had greeted them with knowing eyes, as if expecting their arrival. "The book you seek contains the cure for your sister's illness," they had said. "But finding it among the infinite shelves will be your true test." Now, with determination burning in their heart, {name} steps forward into the labyrinthine corridors, knowing that somewhere in this vast collection lies the knowledge that could save their sister's life.'',
      js ''{name} pushed open the heavy wooden doors of the Library of Babel with trembling hands. {description} For years, they had been haunted by a recurring dream '' @ [8211] @ js '' symbols and texts in a language they couldn't understand, yet somehow knew held the answers to their past. The scholars at the university had directed them here, to the legendary library said to contain every possible combination of letters, and thus every book that could ever be written. "Your ancestry, your true lineage," the head scholar had whispered, "the secrets erased from history '' @ [8211] @ js '' they are hidden in a book within these walls." With each step deeper into the library, {name} felt closer to uncovering the truth that had been denied to them for so long.''],
     bookContents = [
      js ''The nature of infinity is such that all possibilities exist simultaneously in the grand tapestry of the cosmos. As you read these words, countless versions of yourself are reading slightly different variations of this same text. The Library of Babel stands as physical proof of this concept, housing every possible arrangement of letters, and therefore containing all knowledge both discovered and yet to be conceived. Within these pages, one might find accurate prophecies of the future, or complete nonsense '' @ [8211] @ js '' the challenge lies in distinguishing between them. The librarians who tend to this collection have developed systems over centuries to navigate the overwhelming vastness, but even they admit that finding specific information is often a matter of chance rather than methodology.'',
      js ''The theory of knowledge preservation suggests that ideas are never truly lost, merely waiting to be rediscovered in the great cycle of human understanding. Ancient wisdom often emerges anew, dressed in contemporary language but containing the same essential truths that have guided humanity since its earliest days. This book serves as a bridge between past insights and future discoveries, drawing connections across the tapestry of time. The careful reader might notice patterns emerging from the seemingly random collection of thoughts presented herein '' @ [8211] @ js '' patterns that reveal the underlying structure of reality itself. Whether you sought this volume or stumbled upon it by chance, know that your encounter with these words was inevitable, a predestined moment in the cosmic dance of cause and effect.''],
     bookTitles = [
      js ''Whispers of Forgotten Knowledge'',
      js ''Celestial Patterns and Mortal Understanding'',
      js ''The Veiled Truth: Revelations of the Inner Cosmos'',
      js ''Threads of Fate in the Tapestry of Time'',
      js ''Echoes from the Void: Messages from Beyond'',
      js ''The Philosopher's Enigma'',
      js ''Codex of Improbable Realities'',
      js ''Symmetries in Chaos: The Hidden Order'',
      js ''The Cartographer's Dream: Mapping the Impossible'',
      js ''Riddles of the Ancient Librarians'']\<rparr>\<close>

end
