(* ===== verification/Api.thy ===== *)
theory Api
  imports Json Config
begin

text \<open>
  The generation client: \<open>APIHandler\<close> of src/src/js/api.js. Its state is a record
  of the three fields the code keeps; \<open>localStorage\<close> is passed along because the
  handler reads the API key from it and writes two items to it. Everything the browser
  decides is an input in \<open>browser_env\<close>: whether \<open>window.MOCK_DATA\<close> is defined,
  the user's answers to \<open>confirm\<close> and \<open>prompt\<close>, the two clock readings of one
  \<open>callAPI\<close>, the outcome of \<open>fetch\<close>, and the random draws. \<open>callAPI\<close> keeps
  the source's recursive retry; its termination proof is the argument that the retry
  runs at most once, because every failing branch sets the fallback flag first.
\<close>

record api_handler =
  apiKey :: "jstr option"
  api_useMockData :: bool
  lastCallTime :: int
  minTimeBetweenCalls :: int

definition new_APIHandler :: api_handler where
  "new_APIHandler =
     \<lparr>apiKey = None, api_useMockData = False, lastCallTime = 0, minTimeBetweenCalls = 1000\<rparr>"

text \<open>
  A \<open>fetch\<close> either rejects (network failure) or yields a response with a status and
  a body text; \<open>response.ok\<close> is a status in \<open>[200, 299]\<close>.
\<close>

datatype fetch_outcome = FetchRejects | Response int jstr

record browser_env =
  window_MOCK_DATA :: bool
  confirm_answer :: bool
  prompt_answer :: "jstr option"
  clock_now :: int
  clock_resumed :: int
  fetch_result :: fetch_outcome
  random_story :: nat
  shuffled_titles :: "jstr list"

text \<open>
  The clock is monotone and \<open>setTimeout(resolve, delay)\<close> resumes no earlier than
  \<open>delay\<close> milliseconds later: the second reading is at least the first plus the
  delay the code asked for.
\<close>

definition rate_delay :: "api_handler \<Rightarrow> int \<Rightarrow> int" where
  "rate_delay h now =
     (let timeElapsed = now - lastCallTime h
      in if timeElapsed < minTimeBetweenCalls h then minTimeBetweenCalls h - timeElapsed else 0)"

definition env_ok :: "api_handler \<Rightarrow> browser_env \<Rightarrow> bool" where
  "env_ok h env \<longleftrightarrow> clock_now env + rate_delay h (clock_now env) \<le> clock_resumed env"

subsection \<open>initialize\<close>

definition api_key_item :: jstr where
  "api_key_item = js ''babel_api_key''"

definition truthy_str :: "jstr option \<Rightarrow> bool" where
  "truthy_str v \<longleftrightarrow> (case v of None \<Rightarrow> False | Some s \<Rightarrow> s \<noteq> [])"

definition initialize ::
  "config \<Rightarrow> browser_env \<Rightarrow> api_handler \<Rightarrow> lstore \<Rightarrow> bool \<times> api_handler \<times> lstore" where
  "initialize cfg env h ls =
     (let h1 = h\<lparr>api_useMockData := debug cfg \<and> window_MOCK_DATA env\<rparr>
      in if api_useMockData h1 then (True, h1, ls)
         else if truthy_str (apiKey h1) then (api_useMockData h1 \<or> truthy_str (apiKey h1), h1, ls)
         else
           (let h2 = h1\<lparr>apiKey := ls api_key_item\<rparr>
            in if truthy_str (apiKey h2) then (api_useMockData h2 \<or> truthy_str (apiKey h2), h2, ls)
               else if confirm_answer env then
                 (let h3 = h2\<lparr>apiKey := prompt_answer env\<rparr>;
                      ls3 = (case prompt_answer env of
                               Some k \<Rightarrow> if k \<noteq> [] then ls(api_key_item \<mapsto> k) else ls
                             | None \<Rightarrow> ls)
                  in (api_useMockData h3 \<or> truthy_str (apiKey h3), h3, ls3))
               else (True, h2\<lparr>api_useMockData := True\<rparr>, ls)))"

subsection \<open>callAPI\<close>

definition mock_response :: "jstr \<Rightarrow> jsval" where
  "mock_response prompt =
     (if js_includes prompt (js ''story'')
      then JStr (js_replace_all (js ''{description}'') (js ''A curious explorer'')
                  (js_replace_all (js ''{name}'') (js ''Character'') (stories MOCK_DATA ! 0)))
      else if js_includes prompt (js ''book titles'')
      then JStr (json_print (JArr (map JStr (take 10 (bookTitles MOCK_DATA)))))
      else JStr (bookContents MOCK_DATA ! 0))"

text \<open>\<open>data.choices[0].message.content\<close>; a missing link is a \<open>TypeError\<close> (\<open>None\<close>).\<close>

definition js_index :: "jsval \<Rightarrow> nat \<Rightarrow> jsval option" where
  "js_index v i =
     (case v of
       JArr vs \<Rightarrow> Some (if i < length vs then vs ! i else JUndef)
     | JStr s \<Rightarrow> Some (if i < length s then JStr [s ! i] else JUndef)
     | JObj kvs \<Rightarrow> Some (js_get_prop v (js_of_nat i))
     | JUndef \<Rightarrow> None
     | JNull \<Rightarrow> None
     | _ \<Rightarrow> Some JUndef)"

definition js_member :: "jsval \<Rightarrow> jstr \<Rightarrow> jsval option" where
  "js_member v k = (if v = JUndef \<or> v = JNull then None else Some (js_get_prop v k))"

definition completion_content :: "jsval \<Rightarrow> jsval option" where
  "completion_content data =
     (case js_member data (js ''choices'') of
       None \<Rightarrow> None
     | Some cs \<Rightarrow>
         (case js_index cs 0 of
           None \<Rightarrow> None
         | Some c \<Rightarrow>
             (case js_member c (js ''message'') of
               None \<Rightarrow> None
             | Some m \<Rightarrow> js_member m (js ''content''))))"

definition mock_data_item :: jstr where
  "mock_data_item = js ''babel_use_mock_data''"

text \<open>
  The result of one backend round trip: \<open>Inr\<close> the content, or \<open>Inl\<close> whether
  the failure was a 429 (the only failure that also writes the persisted flag).
\<close>

definition backend_answer :: "fetch_outcome \<Rightarrow> bool + jsval" where
  "backend_answer r =
     (case r of
       FetchRejects \<Rightarrow> Inl False
     | Response status body \<Rightarrow>
         if \<not> (200 \<le> status \<and> status \<le> 299) then Inl (status = 429)
         else (case JSON_parse body of
                 Inl _ \<Rightarrow> Inl False
               | Inr data \<Rightarrow> (case completion_content data of None \<Rightarrow> Inl False | Some c \<Rightarrow> Inr c)))"

function callAPI ::
  "config \<Rightarrow> browser_env \<Rightarrow> api_handler \<Rightarrow> lstore \<Rightarrow> jstr \<Rightarrow> jsval \<times> api_handler \<times> lstore" where
  "callAPI cfg env h ls prompt =
     (if (debug cfg \<and> useMockData cfg) \<or> api_useMockData h then (mock_response prompt, h, ls)
      else
        (let h1 = h\<lparr>lastCallTime := clock_resumed env\<rparr>
         in case backend_answer (fetch_result env) of
              Inr content \<Rightarrow> (content, h1, ls)
            | Inl True \<Rightarrow>
                callAPI cfg env (h1\<lparr>api_useMockData := True\<rparr>) (ls(mock_data_item \<mapsto> js ''true'')) prompt
            | Inl False \<Rightarrow> callAPI cfg env (h1\<lparr>api_useMockData := True\<rparr>) ls prompt))"
  by pat_completeness auto
termination
  by (relation "measure (\<lambda>(cfg, env, h, ls, prompt). if api_useMockData h then 0 else 1)") auto

subsection \<open>The three requests\<close>

definition story_prompt :: "jstr \<Rightarrow> jstr \<Rightarrow> jstr" where
  "story_prompt name description =
     js ''Generate a short story (about 300 words) about a character named '' @ name
     @ js '' who has arrived at the Library of Babel searching for important information. The character is described as: ''
     @ description
     @ js ''. The story should explain why they are in the library and what specific knowledge they seek.''"

definition generateCharacterStory ::
  "config \<Rightarrow> browser_env \<Rightarrow> api_handler \<Rightarrow> lstore \<Rightarrow> jstr \<Rightarrow> jstr \<Rightarrow> jsval \<times> api_handler \<times> lstore" where
  "generateCharacterStory cfg env h ls name description =
     (case initialize cfg env h ls of
       (False, h1, ls1) \<Rightarrow> (JNull, h1, ls1)
     | (True, h1, ls1) \<Rightarrow>
         if api_useMockData h1 \<and> window_MOCK_DATA env then
           (let storyTemplate = stories MOCK_DATA ! (random_story env mod length (stories MOCK_DATA))
            in (JStr (js_replace_all (js ''{description}'') description
                       (js_replace_all (js ''{name}'') name storyTemplate)), h1, ls1))
         else callAPI cfg env h1 ls1 (story_prompt name description))"

text \<open>\<open>%\<close> keeps the sign of the dividend; an index out of range reads \<open>undefined\<close>.\<close>

definition js_rem :: "int \<Rightarrow> int \<Rightarrow> int" where
  "js_rem a b = (if a < 0 then - ((- a) mod b) else a mod b)"

definition js_nth_str :: "jstr list \<Rightarrow> int \<Rightarrow> jsval" where
  "js_nth_str xs i = (if 0 \<le> i \<and> i < int (length xs) then JStr (xs ! nat i) else JUndef)"

definition page_prompt :: "config \<Rightarrow> jsval \<Rightarrow> int \<Rightarrow> jstr" where
  "page_prompt cfg bookTitle currentPage =
     js ''Generate '' @ js_of_int (wordsPerPage cfg) @ js '' words of content for page ''
     @ js_of_int currentPage @ js '' of a book titled \"'' @ js_to_string bookTitle
     @ js ''\" in the Library of Babel. The content should be mystical, philosophical, or contain hidden knowledge. If this is beyond page 1, make the content flow naturally from the previous pages.''"

definition generateBookContent ::
  "config \<Rightarrow> browser_env \<Rightarrow> api_handler \<Rightarrow> lstore \<Rightarrow> jsval \<Rightarrow> int \<Rightarrow> jsval \<times> api_handler \<times> lstore" where
  "generateBookContent cfg env h ls bookTitle currentPage =
     (case initialize cfg env h ls of
       (False, h1, ls1) \<Rightarrow> (JNull, h1, ls1)
     | (True, h1, ls1) \<Rightarrow>
         if api_useMockData h1 \<and> window_MOCK_DATA env then
           (let pageIndex = js_rem (currentPage - 1) (int (length (bookContents MOCK_DATA)))
            in (JStr (js_to_string (js_nth_str (bookContents MOCK_DATA) pageIndex)
                      @ [10, 10] @ js ''(Page '' @ js_of_int currentPage @ js '' of \"''
                      @ js_to_string bookTitle @ js ''\")''), h1, ls1))
         else callAPI cfg env h1 ls1 (page_prompt cfg bookTitle currentPage))"

subsection \<open>Room catalogs\<close>

definition catalog_prompt :: "config \<Rightarrow> int \<Rightarrow> int \<Rightarrow> jstr" where
  "catalog_prompt cfg roomX roomY =
     js ''Generate a list of '' @ js_of_nat (booksPerRoom cfg)
     @ js '' book titles that would be found in room ('' @ js_of_int roomX @ js '', ''
     @ js_of_int roomY
     @ js '') of the Library of Babel. The titles should be mystical, philosophical, or suggest hidden knowledge. Return them as a JSON array of strings.''"

text \<open>
  The offline catalog: \<open>`${baseTitle} (Vol. ${Math.floor(i/10) + 1}.${i % 10 + 1})`\<close>
  for \<open>i < booksPerRoom\<close>, over the shuffled titles (\<open>undefined\<close> when there are none).
\<close>

definition mock_title :: "jstr list \<Rightarrow> nat \<Rightarrow> jstr" where
  "mock_title shuffled i =
     (if shuffled = [] then js ''undefined'' else shuffled ! (i mod length shuffled))
     @ js '' (Vol. '' @ js_of_nat (i div 10 + 1) @ js ''.'' @ js_of_nat (i mod 10 + 1) @ js '')''"

text \<open>
  The leading-bullet pattern \<open>^["'\d\-.*...]+\s*\<close> (three non-ASCII characters in place of the dots): the class holds the quote
  characters, the ASCII digits, \<open>-\<close>, \<open>.\<close>, \<open>*\<close> and the three characters
  U+00E2, U+20AC and U+00A2 into which the UTF-8 bytes of a bullet were mis-decoded.
\<close>

definition bullet_char :: "nat \<Rightarrow> bool" where
  "bullet_char c \<longleftrightarrow> c \<in> {34, 39, 45, 46, 42, 226, 8364, 162} \<or> is_digit c"

definition strip_bullet :: "jstr \<Rightarrow> jstr" where
  "strip_bullet line =
     (if line \<noteq> [] \<and> bullet_char (hd line) then dropWhile js_ws (dropWhile bullet_char line) else line)"

definition heuristic_titles :: "nat \<Rightarrow> jstr \<Rightarrow> jstr list" where
  "heuristic_titles n response =
     take n (map (\<lambda>line. js_trim (strip_bullet line)) (filter (\<lambda>line. js_trim line \<noteq> []) (js_split 10 response)))"

text \<open>
  Lines 88 to 104: the first \<open>[\<close> to the last \<open>]\<close> parsed as JSON if both exist in
  that order, the line heuristic otherwise; any exception (a parse error, or a response
  that is not a string) makes the result \<open>null\<close>.
\<close>

definition extract_catalog :: "nat \<Rightarrow> jsval \<Rightarrow> jsval" where
  "extract_catalog n response =
     (case response of
       JStr s \<Rightarrow>
         (let jsonStart = js_index_of 91 s; jsonEnd = js_last_index_of 93 s + 1
          in if 0 \<le> jsonStart \<and> jsonStart < jsonEnd
             then (case JSON_parse (js_substring s jsonStart jsonEnd) of Inl _ \<Rightarrow> JNull | Inr v \<Rightarrow> v)
             else JArr (map JStr (heuristic_titles n s)))
     | _ \<Rightarrow> JNull)"

definition generateRoomCatalog ::
  "config \<Rightarrow> browser_env \<Rightarrow> api_handler \<Rightarrow> lstore \<Rightarrow> int \<Rightarrow> int \<Rightarrow> jsval \<times> api_handler \<times> lstore" where
  "generateRoomCatalog cfg env h ls roomX roomY =
     (case initialize cfg env h ls of
       (False, h1, ls1) \<Rightarrow> (JNull, h1, ls1)
     | (True, h1, ls1) \<Rightarrow>
         if api_useMockData h1 \<and> window_MOCK_DATA env then
           (JArr (map (\<lambda>i. JStr (mock_title (shuffled_titles env) i)) [0..<booksPerRoom cfg]), h1, ls1)
         else
           (case callAPI cfg env h1 ls1 (catalog_prompt cfg roomX roomY) of
             (response, h2, ls2) \<Rightarrow> (extract_catalog (booksPerRoom cfg) response, h2, ls2)))"

subsection \<open>When a request waits\<close>

text \<open>
  A generation request waits for the outside world exactly when \<open>initialize\<close> succeeds
  and \<open>callAPI\<close> then takes neither mock branch: it reaches the rate-limit timer or
  \<open>fetch\<close> (lines 110 and 127 to 141). Every other path settles within microtasks.
\<close>

definition reaches_backend :: "config \<Rightarrow> browser_env \<Rightarrow> api_handler \<Rightarrow> lstore \<Rightarrow> bool" where
  "reaches_backend cfg env h ls =
     (case initialize cfg env h ls of
       (ok, h1, _) \<Rightarrow> ok \<and> \<not> ((debug cfg \<and> useMockData cfg) \<or> api_useMockData h1))"

subsection \<open>Proof support\<close>

text \<open>The fixed parts of the catalog prompt under \<open>CONFIG\<close>.\<close>

definition catalog_prompt_head :: jstr where
  "catalog_prompt_head = js ''Generate a list of 100 book titles that would be found in room (''"

definition catalog_prompt_tail :: jstr where
  "catalog_prompt_tail = js '') of the Library of Babel. The titles should be mystical, philosophical, or suggest hidden knowledge. Return them as a JSON array of strings.''"


subsection \<open>Lemmas\<close>

declare callAPI.simps [simp del]

lemma callAPI_mock:
  "debug cfg \<and> useMockData cfg \<or> api_useMockData h \<Longrightarrow> callAPI cfg env h ls p = (mock_response p, h, ls)"
  by (simp add: callAPI.simps)

lemma callAPI_backend:
  assumes "\<not> (debug cfg \<and> useMockData cfg)" and "\<not> api_useMockData h"
  shows "callAPI cfg env h ls p =
    (case backend_answer (fetch_result env) of
      Inr c \<Rightarrow> (c, h\<lparr>lastCallTime := clock_resumed env\<rparr>, ls)
    | Inl throttled \<Rightarrow>
        (mock_response p, h\<lparr>lastCallTime := clock_resumed env, api_useMockData := True\<rparr>,
         if throttled then ls(mock_data_item \<mapsto> js ''true'') else ls))"
  using assms by (subst callAPI.simps) (auto simp: callAPI_mock Let_def split: sum.split bool.split)

lemma callAPI_lastCallTime:
  assumes "\<not> (debug cfg \<and> useMockData cfg)" and "\<not> api_useMockData h"
  shows "lastCallTime (fst (snd (callAPI cfg env h ls p))) = clock_resumed env"
  using assms by (simp add: callAPI_backend split: sum.split)

lemma env_ok_spacing: "env_ok h env \<Longrightarrow> lastCallTime h + minTimeBetweenCalls h \<le> clock_resumed env"
  by (simp add: env_ok_def rate_delay_def Let_def split: if_splits)

lemma extract_catalog_bracketed:
  "extract_catalog n (JStr (91 # b @ [93])) =
     (case JSON_parse (91 # b @ [93]) of Inl _ \<Rightarrow> JNull | Inr v \<Rightarrow> v)"
  by (simp add: extract_catalog_def js_last_index_of_def js_substring_def Let_def)

lemma extract_catalog_printed_array:
  "extract_catalog n (JStr (json_print (JArr vs))) = json_norm (JArr vs)"
proof -
  have "extract_catalog n (JStr (json_print (JArr vs))) =
          (case JSON_parse (json_print (JArr vs)) of Inl _ \<Rightarrow> JNull | Inr v \<Rightarrow> v)"
    using extract_catalog_bracketed [of n "js_join 44 (map json_print vs)"] by simp
  then show ?thesis by (simp only: JSON_parse_print sum.case)
qed

lemma catalog_prompt_CONFIG:
  "catalog_prompt CONFIG x y = catalog_prompt_head @ js_of_int x @ (js '', '' @ js_of_int y @ catalog_prompt_tail)"
  by (simp add: catalog_prompt_def CONFIG_def catalog_prompt_head_def catalog_prompt_tail_def js_of_nat.simps js_def)

lemma mock_response_catalog:
  "mock_response (catalog_prompt CONFIG x y) = JStr (json_print (JArr (map JStr (take 10 (bookTitles MOCK_DATA)))))"
proof -
  have sep: "\<forall>c\<in>set (js ''story''). c \<noteq> 45 \<and> \<not> is_digit c" by (simp add: is_digit_def js_def)
  have h: "\<not> js_includes catalog_prompt_head (js ''story'')" by code_simp
  have t1: "\<not> js_includes (js '', '') (js ''story'')" by code_simp
  have t2: "\<not> js_includes catalog_prompt_tail (js ''story'')" by code_simp
  have bt: "js_includes (catalog_prompt CONFIG x y) (js ''book titles'')"
  proof -
    have "catalog_prompt CONFIG x y = js ''Generate a list of 100 '' @ js ''book titles'' @ (js '' that would be found in room ('' @ js_of_int x @ js '', '' @ js_of_int y @ catalog_prompt_tail)"
      by (simp add: catalog_prompt_CONFIG catalog_prompt_head_def js_def)
    then show ?thesis by (simp only: js_includes_sublist sublist_appendI)
  qed
  have "\<not> js_includes (catalog_prompt CONFIG x y) (js ''story'')"
    using h t1 t2 by (simp only: catalog_prompt_CONFIG js_includes_int_sep [OF sep] js_includes_int_sep [OF sep, of "js '', ''"]) simp
  with bt show ?thesis by (simp add: mock_response_def)
qed


lemma initialize_with_key:
  "\<not> window_MOCK_DATA env \<Longrightarrow> truthy_str (apiKey h) \<Longrightarrow>
   initialize cfg env h ls = (True, h\<lparr>api_useMockData := False\<rparr>, ls)"
  by (simp add: initialize_def Let_def)


subsection \<open>Properties of the generation client\<close>

text \<open>
  C3: a backend call that fails (network error, non-2xx status, body that is not JSON, a
  missing \<open>choices[0].message\<close>) never reaches the caller: it answers with the
  offline response to the same prompt, switches the handler to mock mode and, on a 429,
  persists \<open>babel_use_mock_data\<close>; the call's start time is recorded.
\<close>

theorem callAPI_absorbs_failures:
  assumes "\<not> (debug cfg \<and> useMockData cfg)" and "\<not> api_useMockData h"
    and "backend_answer (fetch_result env) = Inl throttled"
  shows "callAPI cfg env h ls p =
    (mock_response p, h\<lparr>lastCallTime := clock_resumed env, api_useMockData := True\<rparr>,
     if throttled then ls(mock_data_item \<mapsto> js ''true'') else ls)"
  using assms by (simp add: callAPI_backend)

text \<open>
  C4: rate limiting. When the clock honours the requested \<open>setTimeout\<close> delay, a
  backend call starts at least \<open>minTimeBetweenCalls\<close> after the previous one started.
\<close>

theorem callAPI_rate_limited:
  assumes "env_ok h env" and "\<not> (debug cfg \<and> useMockData cfg)" and "\<not> api_useMockData h"
  shows "lastCallTime h + minTimeBetweenCalls h \<le> lastCallTime (fst (snd (callAPI cfg env h ls p)))"
  using assms by (simp add: callAPI_lastCallTime env_ok_spacing)


text \<open>
  The two catalog-extraction examples of the specification: a bracketed JSON array
  inside prose is parsed, and numbered lines without brackets go through the heuristic.
\<close>

theorem catalog_extraction_examples:
  "extract_catalog 100 (JStr (js ''Here are some titles: [\"A\",\"B\",\"C\"]'')) =
     JArr [JStr (js ''A''), JStr (js ''B''), JStr (js ''C'')] \<and>
   extract_catalog 100 (JStr (js ''1. Alpha'' @ [10] @ js ''2. Beta'')) =
     JArr [JStr (js ''Alpha''), JStr (js ''Beta'')]"
  by code_simp



text \<open>
  C13: with the shipped configuration (\<open>debug\<close> and \<open>useMockData\<close> set) and
  \<open>MOCK_DATA\<close> not a property of \<open>window\<close> (a top-level \<open>const\<close> is not),
  every room's catalog request gets the same ten titles from the offline response.
\<close>

theorem shipped_catalog_same_for_every_room:
  assumes "\<not> window_MOCK_DATA env" and "fst (initialize CONFIG env h ls)"
  shows "fst (generateRoomCatalog CONFIG env h ls x y) = JArr (map JStr (take 10 (bookTitles MOCK_DATA)))"
proof -
  obtain h1 ls1 where i: "initialize CONFIG env h ls = (True, h1, ls1)"
    using assms(2) by (cases "initialize CONFIG env h ls") auto
  have "debug CONFIG \<and> useMockData CONFIG" by (simp add: CONFIG_def)
  then show ?thesis
    using assms(1) by (simp add: generateRoomCatalog_def i callAPI_mock mock_response_catalog
                                  extract_catalog_printed_array del: json_norm.simps json_print.simps)
qed

theorem shipped_catalog_same_for_every_room_witness:
  "fst (generateRoomCatalog CONFIG
      \<lparr>window_MOCK_DATA = False, confirm_answer = False, prompt_answer = None, clock_now = 0,
       clock_resumed = 0, fetch_result = FetchRejects, random_story = 0, shuffled_titles = []\<rparr>
      new_APIHandler Map.empty 3 4) = JArr (map JStr (take 10 (bookTitles MOCK_DATA)))"
  by (rule shipped_catalog_same_for_every_room) (simp_all add: initialize_def new_APIHandler_def truthy_str_def CONFIG_def)


text \<open>
  C12: the fallback after a 429 is not permanent within a session: the handler's flag is
  set and \<open>babel_use_mock_data\<close> persisted, but the next request re-runs
  \<open>initialize\<close>, which resets the flag, and goes to the backend again.
\<close>

theorem fallback_not_permanent:
  assumes "\<not> useMockData cfg" and "\<not> window_MOCK_DATA env1" and "\<not> window_MOCK_DATA env2"
    and "truthy_str (apiKey h)"
    and "backend_answer (fetch_result env1) = Inl True" and "backend_answer (fetch_result env2) = Inr c"
  shows "case generateBookContent cfg env1 h ls t n of (r1, h1, ls1) \<Rightarrow>
           api_useMockData h1 \<and> ls1 mock_data_item = Some (js ''true'') \<and>
           fst (generateBookContent cfg env2 h1 ls1 t' n') = c"
  using assms by (simp add: generateBookContent_def initialize_with_key callAPI_backend)

theorem fallback_not_permanent_witness:
  \<open>case generateBookContent (CONFIG\<lparr>useMockData := False\<rparr>)
      \<lparr>window_MOCK_DATA = False, confirm_answer = False, prompt_answer = None, clock_now = 0,
       clock_resumed = 0, fetch_result = Response 429 [], random_story = 0, shuffled_titles = []\<rparr>
      (new_APIHandler\<lparr>apiKey := Some (js ''sk'')\<rparr>) Map.empty (JStr (js ''Codex'')) 1 of (r1, h1, ls1) \<Rightarrow>
     api_useMockData h1 \<and> ls1 mock_data_item = Some (js ''true'') \<and>
     fst (generateBookContent (CONFIG\<lparr>useMockData := False\<rparr>)
      \<lparr>window_MOCK_DATA = False, confirm_answer = False, prompt_answer = None, clock_now = 5000,
       clock_resumed = 5000,
       fetch_result = Response 200 (js ''{"choices":[{"message":{"content":"Page one"}}]}''),
       random_story = 0, shuffled_titles = []\<rparr> h1 ls1 (JStr (js ''Codex'')) 2) = JStr (js ''Page one'')\<close>
  by (rule fallback_not_permanent) (simp_all add: truthy_str_def, code_simp+)


theorem callAPI_absorbs_failures_witness:
  "callAPI (CONFIG\<lparr>useMockData := False\<rparr>)
      \<lparr>window_MOCK_DATA = False, confirm_answer = False, prompt_answer = None, clock_now = 0,
       clock_resumed = 1000, fetch_result = Response 429 [], random_story = 0, shuffled_titles = []\<rparr>
      new_APIHandler Map.empty (js ''x'') =
    (mock_response (js ''x''),
     new_APIHandler\<lparr>lastCallTime := clock_resumed
        \<lparr>window_MOCK_DATA = False, confirm_answer = False, prompt_answer = None, clock_now = 0,
         clock_resumed = 1000, fetch_result = Response 429 [], random_story = 0, shuffled_titles = []\<rparr>,
        api_useMockData := True\<rparr>,
     if True then Map.empty(mock_data_item \<mapsto> js ''true'') else Map.empty)"
  by (rule callAPI_absorbs_failures) (simp_all add: new_APIHandler_def backend_answer_def)

theorem callAPI_rate_limited_witness:
  "lastCallTime new_APIHandler + minTimeBetweenCalls new_APIHandler \<le>
   lastCallTime (fst (snd (callAPI (CONFIG\<lparr>useMockData := False\<rparr>)
      \<lparr>window_MOCK_DATA = False, confirm_answer = False, prompt_answer = None, clock_now = 500,
       clock_resumed = 1000, fetch_result = FetchRejects, random_story = 0, shuffled_titles = []\<rparr>
      new_APIHandler Map.empty (js ''x''))))"
  by (rule callAPI_rate_limited) (simp_all add: new_APIHandler_def env_ok_def rate_delay_def)

end
