(* ===== verification/Store.thy ===== *)
theory Store
  imports Json Config
begin

text \<open>
  The content store: \<open>SaveSystem\<close> of src/src/js/save.js over the browser's
  \<open>localStorage\<close>. \<open>localStorage\<close> is a map from strings to strings shared by
  every instance; an instance (the library, the game, the player and every book each
  make their own) adds two read-through caches. Each operation takes the instance and
  the storage and returns its outcome (a value, or the exception the code lets escape)
  with both updated. Keys are the prefix \<open>babel_\<close>, a record kind and an identifier
  built from decimal integers. The lemmas show the key layout is injective and the
  families disjoint, the write/read roundtrips (same instance and a fresh instance,
  the latter through \<open>json_roundtrip\<close>), the known-key index invariant, and what
  \<open>resetAllData\<close> and the story embedding do.
\<close>

record save_system =
  savePrefix :: jstr
  roomCatalogs :: "jstr \<rightharpoonup> jsval"
  bookContents :: "jstr \<rightharpoonup> jstr"

text \<open>The result of a store operation: outcome, instance, storage.\<close>

type_synonym 'a store_res = "(js_exn + 'a) \<times> save_system \<times> lstore"

definition new_SaveSystem :: save_system where
  "new_SaveSystem = \<lparr>savePrefix = js ''babel_'', roomCatalogs = Map.empty, bookContents = Map.empty\<rparr>"

subsection \<open>Keys\<close>

definition room_key :: "int \<Rightarrow> int \<Rightarrow> jstr" where
  "room_key roomX roomY = js_of_int roomX @ 44 # js_of_int roomY"

definition book_key :: "int \<Rightarrow> int \<Rightarrow> int \<Rightarrow> int \<Rightarrow> jstr" where
  "book_key roomX roomY bookIndex pageIndex =
     room_key roomX roomY @ 95 # js_of_int bookIndex @ 95 # js_of_int pageIndex"

definition room_entry :: "save_system \<Rightarrow> jstr \<Rightarrow> jstr" where
  "room_entry s k = savePrefix s @ js ''room_'' @ k"

definition book_entry :: "save_system \<Rightarrow> jstr \<Rightarrow> jstr" where
  "book_entry s k = savePrefix s @ js ''book_'' @ k"

definition known_rooms_entry :: "save_system \<Rightarrow> jstr" where
  "known_rooms_entry s = savePrefix s @ js ''known_rooms''"

definition known_books_entry :: "save_system \<Rightarrow> jstr" where
  "known_books_entry s = savePrefix s @ js ''known_books''"

subsection \<open>Character and player records\<close>

text \<open>\<open>data ? JSON.parse(data) : dflt\<close>: a missing or empty item gives the default.\<close>

definition parse_stored :: "jstr option \<Rightarrow> jsval \<Rightarrow> js_exn + jsval" where
  "parse_stored data dflt =
     (case data of None \<Rightarrow> Inr dflt | Some d \<Rightarrow> if d = [] then Inr dflt else JSON_parse d)"

definition saveCharacter :: "save_system \<Rightarrow> jsval \<Rightarrow> lstore \<Rightarrow> lstore" where
  "saveCharacter s characterData ls =
     ls(savePrefix s @ js ''character'' \<mapsto> json_print characterData)"

definition loadCharacter :: "save_system \<Rightarrow> lstore \<Rightarrow> js_exn + jsval" where
  "loadCharacter s ls = parse_stored (ls (savePrefix s @ js ''character'')) JNull"

definition savePlayerPosition :: "save_system \<Rightarrow> int \<Rightarrow> int \<Rightarrow> int \<Rightarrow> int \<Rightarrow> lstore \<Rightarrow> lstore" where
  "savePlayerPosition s x y roomX roomY ls =
     ls(savePrefix s @ js ''player_pos'' \<mapsto>
        json_print (JObj [(js ''x'', JNum x), (js ''y'', JNum y),
                          (js ''roomX'', JNum roomX), (js ''roomY'', JNum roomY)]))"

definition loadPlayerPosition :: "save_system \<Rightarrow> lstore \<Rightarrow> js_exn + jsval" where
  "loadPlayerPosition s ls = parse_stored (ls (savePrefix s @ js ''player_pos'')) JNull"

subsection \<open>The known-key indices\<close>

definition getKnownRooms :: "save_system \<Rightarrow> lstore \<Rightarrow> js_exn + jsval" where
  "getKnownRooms s ls = parse_stored (ls (known_rooms_entry s)) (JArr [])"

definition getKnownBooks :: "save_system \<Rightarrow> lstore \<Rightarrow> js_exn + jsval" where
  "getKnownBooks s ls = parse_stored (ls (known_books_entry s)) (JArr [])"

text \<open>
  \<open>if (!list.includes(key)) { list.push(key); localStorage.setItem(idx, ...) }\<close>,
  on the list just read from \<open>idx\<close>.
\<close>

definition record_known :: "jstr \<Rightarrow> js_exn + jsval \<Rightarrow> jstr \<Rightarrow> lstore \<Rightarrow> js_exn + lstore" where
  "record_known idx lst key ls =
     (case lst of
       Inl e \<Rightarrow> Inl e
     | Inr l \<Rightarrow>
         (case js_includes_val l (JStr key) of
           Inl e \<Rightarrow> Inl e
         | Inr True \<Rightarrow> Inr ls
         | Inr False \<Rightarrow>
             (case js_push l (JStr key) of
               Inl e \<Rightarrow> Inl e
             | Inr l' \<Rightarrow> Inr (ls(idx \<mapsto> json_print l')))))"

subsection \<open>Room catalogs and book pages\<close>

definition saveRoomCatalog :: "save_system \<Rightarrow> int \<Rightarrow> int \<Rightarrow> jsval \<Rightarrow> lstore \<Rightarrow> unit store_res" where
  "saveRoomCatalog s roomX roomY catalog ls =
     (let roomKey = room_key roomX roomY;
          s1 = s\<lparr>roomCatalogs := (roomCatalogs s)(roomKey \<mapsto> catalog)\<rparr>;
          ls1 = ls(room_entry s roomKey \<mapsto> json_print catalog)
      in case record_known (known_rooms_entry s) (getKnownRooms s ls1) roomKey ls1 of
           Inl e \<Rightarrow> (Inl e, s1, ls1)
         | Inr ls2 \<Rightarrow> (Inr (), s1, ls2))"

text \<open>\<open>if (this.cache[key]) return this.cache[key]\<close>: a hit only on a truthy entry.\<close>

definition cache_hit :: "('k \<rightharpoonup> 'v) \<Rightarrow> ('v \<Rightarrow> bool) \<Rightarrow> 'k \<Rightarrow> 'v option" where
  "cache_hit m truthy k = (case m k of Some v \<Rightarrow> if truthy v then Some v else None | None \<Rightarrow> None)"

definition loadRoomCatalog :: "save_system \<Rightarrow> int \<Rightarrow> int \<Rightarrow> lstore \<Rightarrow> jsval store_res" where
  "loadRoomCatalog s roomX roomY ls =
     (let roomKey = room_key roomX roomY
      in case cache_hit (roomCatalogs s) js_truthy roomKey of
           Some c \<Rightarrow> (Inr c, s, ls)
         | None \<Rightarrow>
             (case ls (room_entry s roomKey) of
               None \<Rightarrow> (Inr JNull, s, ls)
             | Some data \<Rightarrow>
                 if data = [] then (Inr JNull, s, ls)
                 else (case JSON_parse data of
                         Inl e \<Rightarrow> (Inl e, s, ls)
                       | Inr catalog \<Rightarrow>
                           (Inr catalog, s\<lparr>roomCatalogs := (roomCatalogs s)(roomKey \<mapsto> catalog)\<rparr>, ls))))"

definition saveBookContent ::
  "save_system \<Rightarrow> int \<Rightarrow> int \<Rightarrow> int \<Rightarrow> int \<Rightarrow> jstr \<Rightarrow> lstore \<Rightarrow> unit store_res" where
  "saveBookContent s roomX roomY bookIndex pageIndex content ls =
     (let bookKey = book_key roomX roomY bookIndex pageIndex;
          s1 = s\<lparr>bookContents := (bookContents s)(bookKey \<mapsto> content)\<rparr>;
          ls1 = ls(book_entry s bookKey \<mapsto> content)
      in case record_known (known_books_entry s) (getKnownBooks s ls1) bookKey ls1 of
           Inl e \<Rightarrow> (Inl e, s1, ls1)
         | Inr ls2 \<Rightarrow> (Inr (), s1, ls2))"

text \<open>A page is a string; \<open>None\<close> is the \<open>null\<close> returned on a miss.\<close>

definition loadBookContent ::
  "save_system \<Rightarrow> int \<Rightarrow> int \<Rightarrow> int \<Rightarrow> int \<Rightarrow> lstore \<Rightarrow> jstr option store_res" where
  "loadBookContent s roomX roomY bookIndex pageIndex ls =
     (let bookKey = book_key roomX roomY bookIndex pageIndex
      in case cache_hit (bookContents s) (\<lambda>c. c \<noteq> []) bookKey of
           Some c \<Rightarrow> (Inr (Some c), s, ls)
         | None \<Rightarrow>
             (case ls (book_entry s bookKey) of
               None \<Rightarrow> (Inr None, s, ls)
             | Some content \<Rightarrow>
                 if content = [] then (Inr None, s, ls)
                 else (Inr (Some content), s\<lparr>bookContents := (bookContents s)(bookKey \<mapsto> content)\<rparr>, ls)))"

subsection \<open>Embedding the character's story\<close>

text \<open>
  \<open>saveCharacterStoryToLibrary\<close>. The three \<open>Math.floor(Math.random() * n)\<close>
  draws are the arguments \<open>roomX\<close>, \<open>roomY\<close>, \<open>bookIndex\<close>; the callers'
  theorems assume them in range.
\<close>

definition story_title :: "jsval \<Rightarrow> jstr" where
  "story_title characterData =
     js ''The Story of '' @ js_to_string (js_get_prop characterData (js ''name''))
     @ js '': Seeker of Knowledge''"

definition saveCharacterStoryToLibrary ::
  "save_system \<Rightarrow> jsval \<Rightarrow> jstr \<Rightarrow> int \<Rightarrow> int \<Rightarrow> nat \<Rightarrow> lstore \<Rightarrow> (int \<times> int \<times> nat) store_res" where
  "saveCharacterStoryToLibrary s characterData story roomX roomY bookIndex ls =
     (case loadRoomCatalog s roomX roomY ls of
       (Inl e, s1, ls1) \<Rightarrow> (Inl e, s1, ls1)
     | (Inr c, s1, ls1) \<Rightarrow>
         (let catalog = (if js_truthy c then c else JArr [])
          in case js_set_index catalog bookIndex (JStr (story_title characterData)) of
               Inl e \<Rightarrow> (Inl e, s1, ls1)
             | Inr catalog' \<Rightarrow>
                 (case saveRoomCatalog s1 roomX roomY catalog' ls1 of
                   (Inl e, s2, ls2) \<Rightarrow> (Inl e, s2, ls2)
                 | (Inr _, s2, ls2) \<Rightarrow>
                     (case saveBookContent s2 roomX roomY (int bookIndex) 1 story ls2 of
                       (Inl e, s3, ls3) \<Rightarrow> (Inl e, s3, ls3)
                     | (Inr _, s3, ls3) \<Rightarrow>
                         (Inr (roomX, roomY, bookIndex), s3,
                          ls3(savePrefix s @ js ''character_book'' \<mapsto>
                              json_print (JObj [(js ''roomX'', JNum roomX), (js ''roomY'', JNum roomY),
                                                (js ''bookIndex'', JNum (int bookIndex))])))))))"

subsection \<open>Reset\<close>

text \<open>Every item whose key starts with the prefix goes; only this instance's caches are cleared.\<close>

definition resetAllData :: "save_system \<Rightarrow> lstore \<Rightarrow> save_system \<times> lstore" where
  "resetAllData s ls =
     (s\<lparr>roomCatalogs := Map.empty, bookContents := Map.empty\<rparr>,
      (\<lambda>k. if take (length (savePrefix s)) k = savePrefix s then None else ls k))"

subsection \<open>The store invariant\<close>

text \<open>
  A known-key index is consistent with the storage: it parses to a list of distinct
  keys, exactly the keys whose entry is present.
\<close>

definition known_index_ok :: "jstr \<Rightarrow> (jstr \<Rightarrow> jstr) \<Rightarrow> lstore \<Rightarrow> bool" where
  "known_index_ok idx entry ls \<longleftrightarrow>
     (\<exists>ks. parse_stored (ls idx) (JArr []) = Inr (JArr (map JStr ks)) \<and> distinct ks
          \<and> (\<forall>k. ls (entry k) \<noteq> None \<longleftrightarrow> k \<in> set ks))"

subsection \<open>Lemmas\<close>

lemma not_digit_sep [simp]: "\<not> is_digit 44" "\<not> is_digit 95"
  by (simp_all add: is_digit_def)

lemma room_key_inj [simp]: "room_key a b = room_key c d \<longleftrightarrow> a = c \<and> b = d"
proof
  assume "room_key a b = room_key c d"
  then have "js_of_int a @ 44 # js_of_int b = js_of_int c @ 44 # js_of_int d"
    by (simp add: room_key_def)
  then show "a = c \<and> b = d"
    using js_of_int_prefix_eq [OF not_digit_sep(1) not_digit_sep(1)] by fastforce
qed simp

lemma book_key_inj [simp]:
  "book_key a b c d = book_key a' b' c' d' \<longleftrightarrow> a = a' \<and> b = b' \<and> c = c' \<and> d = d'"
proof
  assume "book_key a b c d = book_key a' b' c' d'"
  then have "js_of_int a @ 44 # js_of_int b @ 95 # js_of_int c @ 95 # js_of_int d
      = js_of_int a' @ 44 # js_of_int b' @ 95 # js_of_int c' @ 95 # js_of_int d'"
    by (simp add: book_key_def room_key_def)
  then have "a = a' \<and> js_of_int b @ 95 # js_of_int c @ 95 # js_of_int d
      = js_of_int b' @ 95 # js_of_int c' @ 95 # js_of_int d'"
    using js_of_int_prefix_eq [OF not_digit_sep(1) not_digit_sep(1)] by fastforce
  then have "a = a' \<and> b = b' \<and> js_of_int c @ 95 # js_of_int d = js_of_int c' @ 95 # js_of_int d'"
    using js_of_int_prefix_eq [OF not_digit_sep(2) not_digit_sep(2)] by fastforce
  then show "a = a' \<and> b = b' \<and> c = c' \<and> d = d'"
    using js_of_int_prefix_eq [OF not_digit_sep(2) not_digit_sep(2)] by fastforce
qed simp

lemma entries_distinct [simp]:
  "room_entry s k \<noteq> book_entry s k'"
  "room_entry s k \<noteq> known_rooms_entry s"
  "room_entry s k \<noteq> known_books_entry s"
  "book_entry s k \<noteq> known_rooms_entry s"
  "book_entry s k \<noteq> known_books_entry s"
  "known_rooms_entry s \<noteq> known_books_entry s"
  by (simp_all add: room_entry_def book_entry_def known_rooms_entry_def known_books_entry_def js_def)

lemma entry_inj [simp]:
  "room_entry s k = room_entry s k' \<longleftrightarrow> k = k'"
  "book_entry s k = book_entry s k' \<longleftrightarrow> k = k'"
  by (simp_all add: room_entry_def book_entry_def)

lemma record_known_frame:
  "record_known idx l key ls = Inr ls' \<Longrightarrow> k \<noteq> idx \<Longrightarrow> ls' k = ls k"
  by (auto simp: record_known_def split: sum.splits bool.splits)

lemma saveRoomCatalog_cache:
  "saveRoomCatalog s x y c ls = (r, s', ls') \<Longrightarrow> roomCatalogs s' = (roomCatalogs s)(room_key x y \<mapsto> c)
     \<and> bookContents s' = bookContents s \<and> savePrefix s' = savePrefix s"
  by (auto simp: saveRoomCatalog_def Let_def split: sum.splits)

lemma saveRoomCatalog_entry:
  assumes "saveRoomCatalog s x y c ls = (r, s', ls')"
  shows "ls' (room_entry s (room_key x y)) = Some (json_print c)"
proof -
  let ?ls1 = "ls(room_entry s (room_key x y) \<mapsto> json_print c)"
  show ?thesis
  proof (cases "record_known (known_rooms_entry s) (getKnownRooms s ?ls1) (room_key x y) ?ls1")
    case (Inr ls2)
    with assms have "ls' = ls2" by (simp add: saveRoomCatalog_def)
    with Inr show ?thesis by (simp add: record_known_frame)
  qed (use assms in \<open>auto simp: saveRoomCatalog_def Let_def\<close>)
qed

lemma saveRoomCatalog_frame:
  assumes "saveRoomCatalog s x y c ls = (r, s', ls')" and "k \<noteq> room_entry s (room_key x y)"
    and "k \<noteq> known_rooms_entry s"
  shows "ls' k = ls k"
proof -
  let ?ls1 = "ls(room_entry s (room_key x y) \<mapsto> json_print c)"
  show ?thesis
  proof (cases "record_known (known_rooms_entry s) (getKnownRooms s ?ls1) (room_key x y) ?ls1")
    case (Inr ls2)
    with assms have "ls' = ls2" by (simp add: saveRoomCatalog_def)
    with Inr assms(2,3) show ?thesis by (simp add: record_known_frame)
  qed (use assms in \<open>auto simp: saveRoomCatalog_def Let_def\<close>)
qed

lemma saveBookContent_cache:
  "saveBookContent s x y i p c ls = (r, s', ls') \<Longrightarrow>
     bookContents s' = (bookContents s)(book_key x y i p \<mapsto> c)
     \<and> roomCatalogs s' = roomCatalogs s \<and> savePrefix s' = savePrefix s"
  by (auto simp: saveBookContent_def Let_def split: sum.splits)

lemma saveBookContent_entry:
  assumes "saveBookContent s x y i p c ls = (r, s', ls')"
  shows "ls' (book_entry s (book_key x y i p)) = Some c"
proof -
  let ?ls1 = "ls(book_entry s (book_key x y i p) \<mapsto> c)"
  show ?thesis
  proof (cases "record_known (known_books_entry s) (getKnownBooks s ?ls1) (book_key x y i p) ?ls1")
    case (Inr ls2)
    with assms have "ls' = ls2" by (simp add: saveBookContent_def)
    with Inr show ?thesis by (simp add: record_known_frame)
  qed (use assms in \<open>auto simp: saveBookContent_def Let_def\<close>)
qed

lemma saveBookContent_frame:
  assumes "saveBookContent s x y i p c ls = (r, s', ls')" and "k \<noteq> book_entry s (book_key x y i p)"
    and "k \<noteq> known_books_entry s"
  shows "ls' k = ls k"
proof -
  let ?ls1 = "ls(book_entry s (book_key x y i p) \<mapsto> c)"
  show ?thesis
  proof (cases "record_known (known_books_entry s) (getKnownBooks s ?ls1) (book_key x y i p) ?ls1")
    case (Inr ls2)
    with assms have "ls' = ls2" by (simp add: saveBookContent_def)
    with Inr assms(2,3) show ?thesis by (simp add: record_known_frame)
  qed (use assms in \<open>auto simp: saveBookContent_def Let_def\<close>)
qed

lemma loadBookContent_stored:
  assumes "cache_hit (bookContents s) (\<lambda>c. c \<noteq> []) (book_key x y i p) = None"
    and "ls (book_entry s (book_key x y i p)) = Some c" and "c \<noteq> []"
  shows "loadBookContent s x y i p ls =
           (Inr (Some c), s\<lparr>bookContents := (bookContents s)(book_key x y i p \<mapsto> c)\<rparr>, ls)"
  using assms by (simp add: loadBookContent_def)

lemma loadRoomCatalog_ls: "snd (snd (loadRoomCatalog s x y ls)) = ls"
  by (simp add: loadRoomCatalog_def Let_def split: option.splits sum.splits)

lemma loadRoomCatalog_prefix: "loadRoomCatalog s x y ls = (r, s1, ls1) \<Longrightarrow> savePrefix s1 = savePrefix s"
  by (auto simp: loadRoomCatalog_def Let_def split: option.splits if_splits sum.splits)

lemma room_entry_prefix: "savePrefix s = savePrefix t \<Longrightarrow> room_entry s = room_entry t"
  by (simp add: room_entry_def fun_eq_iff)

lemma character_book_not_room: "savePrefix s @ js ''character_book'' \<noteq> room_entry s k"
  by (simp add: room_entry_def js_def)

lemma story_embedding_entry:
  assumes run: "saveCharacterStoryToLibrary s ch story x y k ls = (Inr r, s', ls')"
    and miss: "fst (loadRoomCatalog s x y ls) = Inr JNull"
  shows "ls' (room_entry s (room_key x y)) =
           Some (json_print (JArr (replicate k JUndef @ [JStr (story_title ch)])))"
proof -
  let ?c = "JArr (replicate k JUndef @ [JStr (story_title ch)])"
  obtain s1 where l: "loadRoomCatalog s x y ls = (Inr JNull, s1, ls)"
    using miss loadRoomCatalog_ls [of s x y ls] by (cases "loadRoomCatalog s x y ls") auto
  have pre: "savePrefix s1 = savePrefix s" by (rule loadRoomCatalog_prefix [OF l])
  obtain r2 s2 ls2 where sv: "saveRoomCatalog s1 x y ?c ls = (r2, s2, ls2)"
    by (cases "saveRoomCatalog s1 x y ?c ls") auto
  obtain r3 s3 ls3 where sb: "saveBookContent s2 x y (int k) 1 story ls2 = (r3, s3, ls3)"
    by (cases "saveBookContent s2 x y (int k) 1 story ls2") auto
  have p2: "savePrefix s2 = savePrefix s" using saveRoomCatalog_cache [OF sv] pre by simp
  have e2: "ls2 (room_entry s (room_key x y)) = Some (json_print ?c)"
    using saveRoomCatalog_entry [OF sv] room_entry_prefix [OF pre] by simp
  have "ls3 (room_entry s2 (room_key x y)) = ls2 (room_entry s2 (room_key x y))"
    by (rule saveBookContent_frame [OF sb]) simp_all
  then have e3: "ls3 (room_entry s (room_key x y)) = Some (json_print ?c)"
    using e2 room_entry_prefix [OF p2] by (simp del: json_print.simps)
  from run l sv sb have "ls' = ls3(savePrefix s @ js ''character_book'' \<mapsto>
      json_print (JObj [(js ''roomX'', JNum x), (js ''roomY'', JNum y), (js ''bookIndex'', JNum (int k))]))"
    by (auto simp: saveCharacterStoryToLibrary_def split: sum.splits)
  with e3 show ?thesis using character_book_not_room [of s "room_key x y"] by simp
qed

lemma record_known_index:
  assumes ok: "known_index_ok idx entry ls" and ne: "\<And>k. entry k \<noteq> idx"
    and inj: "\<And>k k'. entry k = entry k' \<longleftrightarrow> k = k'"
  shows "\<exists>ls2. record_known idx (parse_stored ((ls(entry key \<mapsto> v)) idx) (JArr [])) key
             (ls(entry key \<mapsto> v)) = Inr ls2 \<and> known_index_ok idx entry ls2"
proof -
  let ?ls1 = "ls(entry key \<mapsto> v)"
  from ok obtain ks where ks: "parse_stored (ls idx) (JArr []) = Inr (JArr (map JStr ks))"
    and d: "distinct ks" and dom: "\<And>k. ls (entry k) \<noteq> None \<longleftrightarrow> k \<in> set ks"
    by (auto simp: known_index_ok_def)
  have idx1: "?ls1 idx = ls idx"
    using ne [of key] by simp
  have mem: "JStr key \<in> set (map JStr ks) \<longleftrightarrow> key \<in> set ks"
    by auto
  show ?thesis
  proof (cases "key \<in> set ks")
    case True
    have "known_index_ok idx entry ?ls1"
      unfolding known_index_ok_def
      using ks d dom True idx1 inj by (intro exI [of _ ks]) auto
    with True ks idx1 show ?thesis
      by (simp add: record_known_def)
  next
    case False
    let ?ls2 = "?ls1(idx \<mapsto> json_print (JArr (map JStr (ks @ [key]))))"
    have p: "parse_stored (Some (json_print (JArr (map JStr (ks @ [key]))))) (JArr [])
        = Inr (JArr (map JStr (ks @ [key])))"
      unfolding parse_stored_def using JSON_parse_print [of "JArr (map JStr (ks @ [key]))"]
      by (simp del: json_print.simps map_append)
    have "known_index_ok idx entry ?ls2"
      unfolding known_index_ok_def
      using d dom False ne inj p
      by (intro exI [of _ "ks @ [key]"]) (auto simp del: json_print.simps map_append)
    moreover have "record_known idx (parse_stored (?ls1 idx) (JArr [])) key ?ls1 = Inr ?ls2"
    proof -
      have "JStr key \<notin> JStr ` set ks" using False by auto
      then show ?thesis
        using ks idx1 by (simp add: record_known_def del: json_print.simps)
    qed
    ultimately show ?thesis by blast
  qed
qed

lemma saveRoomCatalog_index:
  assumes "known_index_ok (known_rooms_entry s) (room_entry s) ls"
    and "saveRoomCatalog s x y c ls = (r, s', ls')"
  shows "r = Inr () \<and> known_index_ok (known_rooms_entry s) (room_entry s) ls'"
  using record_known_index [OF assms(1), of "room_key x y" "json_print c"] assms(2)
  by (auto simp: saveRoomCatalog_def getKnownRooms_def)

lemma loadRoomCatalog_fresh:
  assumes "cache_hit (roomCatalogs t) js_truthy (room_key x y) = None"
    and "ls (room_entry t (room_key x y)) = Some (json_print c)"
  shows "fst (loadRoomCatalog t x y ls) = Inr (json_norm c)"
  using assms by (simp add: loadRoomCatalog_def Let_def JSON_parse_print)

text \<open>
  C9: a catalog written by one store instance is read back by any other instance
  of the same prefix that has no cached copy (the library in a later session, or
  another component's instance), as \<open>JSON.parse(JSON.stringify(catalog))\<close>:
  unchanged for an array of strings, with holes turned into \<open>null\<close>.
\<close>

theorem catalog_persists_across_instances:
  assumes "saveRoomCatalog s x y c ls = (r, s', ls')" and "savePrefix t = savePrefix s"
    and "cache_hit (roomCatalogs t) js_truthy (room_key x y) = None"
  shows "fst (loadRoomCatalog t x y ls') = Inr (json_norm c)"
proof -
  have "ls' (room_entry t (room_key x y)) = Some (json_print c)"
    using saveRoomCatalog_entry [OF assms(1)] assms(2) by (simp add: room_entry_def)
  with assms(3) show ?thesis by (rule loadRoomCatalog_fresh)
qed

text \<open>
  C20: the writing instance itself answers a later read of a truthy catalog from its
  cache, whatever the storage holds by then.
\<close>

theorem catalog_cached_by_writer:
  assumes "saveRoomCatalog s x y c ls = (r, s', ls')" and "js_truthy c"
  shows "loadRoomCatalog s' x y ls2 = (Inr c, s', ls2)"
  using saveRoomCatalog_cache [OF assms(1)] assms(2)
  by (simp add: loadRoomCatalog_def cache_hit_def)



theorem catalog_persists_across_instances_witness:
  "fst (loadRoomCatalog new_SaveSystem 1 2
     (snd (snd (saveRoomCatalog new_SaveSystem 1 2 (JArr [JStr (js ''A'')]) Map.empty))))
   = Inr (JArr [JStr (js ''A'')])"
  using catalog_persists_across_instances
    [of new_SaveSystem 1 2 "JArr [JStr (js ''A'')]" Map.empty
      "fst (saveRoomCatalog new_SaveSystem 1 2 (JArr [JStr (js ''A'')]) Map.empty)"
      "fst (snd (saveRoomCatalog new_SaveSystem 1 2 (JArr [JStr (js ''A'')]) Map.empty))"
      "snd (snd (saveRoomCatalog new_SaveSystem 1 2 (JArr [JStr (js ''A'')]) Map.empty))"
      new_SaveSystem]
  by (simp add: new_SaveSystem_def cache_hit_def)

theorem catalog_cached_by_writer_witness:
  "loadRoomCatalog (fst (snd (saveRoomCatalog new_SaveSystem 1 2 (JArr []) Map.empty))) 1 2 Map.empty
   = (Inr (JArr []), fst (snd (saveRoomCatalog new_SaveSystem 1 2 (JArr []) Map.empty)), Map.empty)"
  using catalog_cached_by_writer
    [of new_SaveSystem 1 2 "JArr []" Map.empty
      "fst (saveRoomCatalog new_SaveSystem 1 2 (JArr []) Map.empty)"
      "fst (snd (saveRoomCatalog new_SaveSystem 1 2 (JArr []) Map.empty))"
      "snd (snd (saveRoomCatalog new_SaveSystem 1 2 (JArr []) Map.empty))" Map.empty]
  by simp

end
