(* ===== verification/Book.thy ===== *)
theory Book
  imports Api Store
begin

text \<open>
  The book pager: class \<open>Book\<close> of src/src/js/book.js. A book is a record of the
  constructor's fields; each book owns its own \<open>APIHandler\<close> and \<open>SaveSystem\<close>
  instance, as the constructor creates them. \<open>cachedPages\<close> is keyed by the page
  number. A page's content is the value the generation client returned; the content store
  keeps the string \<open>localStorage.setItem\<close> makes of it, which is the value itself for
  the string contents the backend and the offline generator produce.
\<close>

record book =
  title :: jsval
  b_roomX :: int
  b_roomY :: int
  bookIndex :: int
  currentPage :: int
  cachedPages :: "int \<rightharpoonup> jsval"
  b_api :: api_handler
  b_save :: save_system

definition new_Book :: "jsval \<Rightarrow> int \<Rightarrow> int \<Rightarrow> int \<Rightarrow> book" where
  "new_Book t roomX roomY idx =
     \<lparr>title = t, b_roomX = roomX, b_roomY = roomY, bookIndex = idx, currentPage = 1,
      cachedPages = Map.empty, b_api = new_APIHandler, b_save = new_SaveSystem\<rparr>"

type_synonym 'a book_res = "(js_exn + 'a) \<times> book \<times> lstore"

text \<open>
  \<open>getPageContent\<close>: the store first; on a miss (\<open>null\<close>) the generation client,
  whose truthy answer is saved; the result is cached under the current page either way.
  An exception of the store (a corrupt \<open>known_books\<close> index) leaves the method before
  the page is cached.
\<close>

definition getPageContent :: "config \<Rightarrow> browser_env \<Rightarrow> book \<Rightarrow> lstore \<Rightarrow> jsval book_res" where
  "getPageContent cfg env b ls =
     (case loadBookContent (b_save b) (b_roomX b) (b_roomY b) (bookIndex b) (currentPage b) ls of
       (Inl e, s1, ls1) \<Rightarrow> (Inl e, b\<lparr>b_save := s1\<rparr>, ls1)
     | (Inr loaded, s1, ls1) \<Rightarrow>
         (let content = (case loaded of Some c \<Rightarrow> JStr c | None \<Rightarrow> JNull)
          in if js_truthy content
             then (Inr content, b\<lparr>b_save := s1, cachedPages := (cachedPages b)(currentPage b \<mapsto> content)\<rparr>, ls1)
             else
               (case generateBookContent cfg env (b_api b) ls1 (title b) (currentPage b) of
                 (content', h2, ls2) \<Rightarrow>
                   (let b2 = b\<lparr>b_save := s1, b_api := h2\<rparr>
                    in if js_truthy content'
                       then (case saveBookContent s1 (b_roomX b) (b_roomY b) (bookIndex b) (currentPage b)
                                    (js_to_string content') ls2 of
                               (Inl e, s3, ls3) \<Rightarrow> (Inl e, b2\<lparr>b_save := s3\<rparr>, ls3)
                             | (Inr _, s3, ls3) \<Rightarrow>
                                 (Inr content', b2\<lparr>b_save := s3,
                                    cachedPages := (cachedPages b)(currentPage b \<mapsto> content')\<rparr>, ls3))
                       else (Inr content', b2\<lparr>cachedPages := (cachedPages b)(currentPage b \<mapsto> content')\<rparr>, ls2)))))"

definition goToPage :: "config \<Rightarrow> browser_env \<Rightarrow> book \<Rightarrow> lstore \<Rightarrow> int \<Rightarrow> jsval book_res" where
  "goToPage cfg env b ls pageNum =
     (let p = (if pageNum < 1 then 1 else pageNum);
          b1 = b\<lparr>currentPage := p\<rparr>
      in case cache_hit (cachedPages b1) js_truthy p of
           Some c \<Rightarrow> (Inr c, b1, ls)
         | None \<Rightarrow> getPageContent cfg env b1 ls)"

definition nextPage :: "config \<Rightarrow> browser_env \<Rightarrow> book \<Rightarrow> lstore \<Rightarrow> jsval book_res" where
  "nextPage cfg env b ls = goToPage cfg env b ls (currentPage b + 1)"

definition prevPage :: "config \<Rightarrow> browser_env \<Rightarrow> book \<Rightarrow> lstore \<Rightarrow> jsval book_res" where
  "prevPage cfg env b ls = goToPage cfg env b ls (currentPage b - 1)"

subsection \<open>The page protocol on the event loop\<close>

text \<open>
  \<open>getPageContent\<close> split where it waits: up to the generation request, and the
  continuation that runs when the backend answers. The page asked for is the current page
  when the request is made; the continuation saves and caches the answer under
  \<open>this.currentPage\<close> as it is when the answer arrives (lines 31 to 41), on the book
  object as it is then.
\<close>

definition getPageContent_gen :: "config \<Rightarrow> browser_env \<Rightarrow> book \<Rightarrow> lstore \<Rightarrow> int \<Rightarrow> jsval book_res" where
  "getPageContent_gen cfg env b ls page =
     (case generateBookContent cfg env (b_api b) ls (title b) page of
       (content', h2, ls2) \<Rightarrow>
         (let b2 = b\<lparr>b_api := h2\<rparr>
          in if js_truthy content'
             then (case saveBookContent (b_save b) (b_roomX b) (b_roomY b) (bookIndex b) (currentPage b)
                          (js_to_string content') ls2 of
                     (Inl e, s3, ls3) \<Rightarrow> (Inl e, b2\<lparr>b_save := s3\<rparr>, ls3)
                   | (Inr _, s3, ls3) \<Rightarrow>
                       (Inr content', b2\<lparr>b_save := s3, cachedPages := (cachedPages b)(currentPage b \<mapsto> content')\<rparr>, ls3))
             else (Inr content', b2\<lparr>cachedPages := (cachedPages b)(currentPage b \<mapsto> content')\<rparr>, ls2)))"

definition getPageContent_begin ::
  "config \<Rightarrow> browser_env \<Rightarrow> book \<Rightarrow> lstore \<Rightarrow> (jsval book_res, book \<times> lstore \<times> int) async" where
  "getPageContent_begin cfg env b ls =
     (case loadBookContent (b_save b) (b_roomX b) (b_roomY b) (bookIndex b) (currentPage b) ls of
       (Inl e, s1, ls1) \<Rightarrow> Settled (Inl e, b\<lparr>b_save := s1\<rparr>, ls1)
     | (Inr loaded, s1, ls1) \<Rightarrow>
         (let content = (case loaded of Some c \<Rightarrow> JStr c | None \<Rightarrow> JNull)
          in if js_truthy content
             then Settled (Inr content, b\<lparr>b_save := s1, cachedPages := (cachedPages b)(currentPage b \<mapsto> content)\<rparr>, ls1)
             else if reaches_backend cfg env (b_api b) ls1 then Pending (b\<lparr>b_save := s1\<rparr>, ls1, currentPage b)
             else Settled (getPageContent_gen cfg env (b\<lparr>b_save := s1\<rparr>) ls1 (currentPage b))))"

definition goToPage_begin ::
  "config \<Rightarrow> browser_env \<Rightarrow> book \<Rightarrow> lstore \<Rightarrow> int \<Rightarrow> (jsval book_res, book \<times> lstore \<times> int) async" where
  "goToPage_begin cfg env b ls pageNum =
     (let p = (if pageNum < 1 then 1 else pageNum);
          b1 = b\<lparr>currentPage := p\<rparr>
      in case cache_hit (cachedPages b1) js_truthy p of
           Some c \<Rightarrow> Settled (Inr c, b1, ls)
         | None \<Rightarrow> getPageContent_begin cfg env b1 ls)"

text \<open>The outcome of a split call when nothing else runs before its continuation.\<close>

definition run_page :: "config \<Rightarrow> browser_env \<Rightarrow> (jsval book_res, book \<times> lstore \<times> int) async \<Rightarrow> jsval book_res" where
  "run_page cfg env a = (case a of Settled r \<Rightarrow> r | Pending (b, ls, p) \<Rightarrow> getPageContent_gen cfg env b ls p)"

text \<open>
  The instance cache of a save system agrees with the storage on one page key: a
  non-empty cached page is the stored one. A fresh instance agrees everywhere; another
  instance's \<open>resetAllData\<close> can break it.
\<close>

definition page_cache_agrees :: "save_system \<Rightarrow> lstore \<Rightarrow> jstr \<Rightarrow> bool" where
  "page_cache_agrees s ls k \<longleftrightarrow>
     (case bookContents s k of None \<Rightarrow> True | Some c \<Rightarrow> c = [] \<or> ls (book_entry s k) = Some c)"

text \<open>The storage key of the current page.\<close>

abbreviation page_key :: "book \<Rightarrow> jstr" where
  "page_key b \<equiv> book_key (b_roomX b) (b_roomY b) (bookIndex b) (currentPage b)"

subsection \<open>Lemmas\<close>

lemma getPageContent_stored:
  assumes "getPageContent cfg env b ls = (Inr (JStr c), b', ls')" and "c \<noteq> []"
    and "page_cache_agrees (b_save b) ls (page_key b)"
  shows "ls' (book_entry (b_save b) (page_key b)) = Some c"
  using assms
  by (auto simp: getPageContent_def loadBookContent_def page_cache_agrees_def cache_hit_def Let_def
           split: option.splits if_splits prod.splits sum.splits dest: saveBookContent_entry)

lemma getPageContent_currentPage:
  "currentPage (fst (snd (getPageContent cfg env b ls))) = currentPage b"
  by (auto simp: getPageContent_def Let_def split: option.splits prod.splits sum.splits)


lemma getPageContent_split: "getPageContent cfg env b ls = run_page cfg env (getPageContent_begin cfg env b ls)"
  by (simp add: getPageContent_def getPageContent_begin_def getPageContent_gen_def run_page_def Let_def
      split: prod.split sum.split)

subsection \<open>Properties of the pager\<close>


text \<open>
  C18: page numbers are clamped from below: after \<open>goToPage n\<close> the current page is
  \<open>max 1 n\<close>, whatever the cache, store or generation client do.
\<close>

theorem goToPage_current_page: "currentPage (fst (snd (goToPage cfg env b ls n))) = max 1 n"
  by (simp add: goToPage_def Let_def getPageContent_currentPage cache_hit_def split: option.split)

text \<open>
  C8: a page, once produced by a book, is stable: a fresh \<open>Book\<close> for the same room,
  index and page (as the next \<open>loadRoom\<close> creates) reads the same content from the
  store, without a generation request, leaving the storage unchanged.
\<close>

theorem page_persists_for_fresh_book:
  assumes "getPageContent cfg env b ls = (Inr (JStr c), b', ls')" and "c \<noteq> []"
    and "savePrefix (b_save b) = js ''babel_''" and "page_cache_agrees (b_save b) ls (page_key b)"
  shows "getPageContent cfg env2 ((new_Book t (b_roomX b) (b_roomY b) (bookIndex b))\<lparr>currentPage := currentPage b\<rparr>) ls' =
    (Inr (JStr c),
     (new_Book t (b_roomX b) (b_roomY b) (bookIndex b))\<lparr>currentPage := currentPage b,
        cachedPages := [currentPage b \<mapsto> JStr c],
        b_save := new_SaveSystem\<lparr>bookContents := [page_key b \<mapsto> c]\<rparr>\<rparr>,
     ls')"
proof -
  have "ls' (book_entry new_SaveSystem (page_key b)) = Some c"
    using getPageContent_stored [OF assms(1,2,4)] assms(3)
    by (simp add: book_entry_def new_SaveSystem_def)
  then show ?thesis using assms(2)
    by (simp add: getPageContent_def new_Book_def loadBookContent_stored cache_hit_def
                  new_SaveSystem_def Let_def)
qed

text \<open>
  C19: a truthy cached page is answered from \<open>cachedPages\<close> alone: neither the store
  nor the generation client is consulted, and only the current page changes.
\<close>

theorem goToPage_cached:
  "cachedPages b (max 1 n) = Some c \<Longrightarrow> js_truthy c \<Longrightarrow>
   goToPage cfg env b ls n = (Inr c, b\<lparr>currentPage := max 1 n\<rparr>, ls)"
  by (cases "n < 1") (simp_all add: goToPage_def cache_hit_def max_def Let_def)

theorem page_persists_for_fresh_book_witness:
  "getPageContent (CONFIG\<lparr>useMockData := False\<rparr>)
     \<lparr>window_MOCK_DATA = False, confirm_answer = False, prompt_answer = None, clock_now = 0,
      clock_resumed = 0, fetch_result = FetchRejects, random_story = 0, shuffled_titles = []\<rparr>
     ((new_Book (JStr (js ''Anything'')) (b_roomX (new_Book (JStr (js ''Codex'')) 3 4 5)) (b_roomY (new_Book (JStr (js ''Codex'')) 3 4 5)) (bookIndex (new_Book (JStr (js ''Codex'')) 3 4 5)))
        \<lparr>currentPage := currentPage (new_Book (JStr (js ''Codex'')) 3 4 5)\<rparr>)
     (snd (snd (getPageContent (CONFIG\<lparr>useMockData := False\<rparr>)
     \<lparr>window_MOCK_DATA = False, confirm_answer = False, prompt_answer = None, clock_now = 0,
      clock_resumed = 0, fetch_result = Response 200 (js ''{\"choices\":[{\"message\":{\"content\":\"Page one\"}}]}''),
      random_story = 0, shuffled_titles = []\<rparr>
     (new_Book (JStr (js ''Codex'')) 3 4 5) [api_key_item \<mapsto> js ''sk'']))) =
   (Inr (JStr (js ''Page one'')),
    (new_Book (JStr (js ''Anything'')) (b_roomX (new_Book (JStr (js ''Codex'')) 3 4 5)) (b_roomY (new_Book (JStr (js ''Codex'')) 3 4 5)) (bookIndex (new_Book (JStr (js ''Codex'')) 3 4 5)))
      \<lparr>currentPage := currentPage (new_Book (JStr (js ''Codex'')) 3 4 5),
       cachedPages := [currentPage (new_Book (JStr (js ''Codex'')) 3 4 5) \<mapsto> JStr (js ''Page one'')],
       b_save := new_SaveSystem\<lparr>bookContents := [page_key (new_Book (JStr (js ''Codex'')) 3 4 5) \<mapsto> js ''Page one'']\<rparr>\<rparr>,
    snd (snd (getPageContent (CONFIG\<lparr>useMockData := False\<rparr>)
     \<lparr>window_MOCK_DATA = False, confirm_answer = False, prompt_answer = None, clock_now = 0,
      clock_resumed = 0, fetch_result = Response 200 (js ''{\"choices\":[{\"message\":{\"content\":\"Page one\"}}]}''),
      random_story = 0, shuffled_titles = []\<rparr>
     (new_Book (JStr (js ''Codex'')) 3 4 5) [api_key_item \<mapsto> js ''sk''])))"
proof -
  have r: "fst (getPageContent (CONFIG\<lparr>useMockData := False\<rparr>)
     \<lparr>window_MOCK_DATA = False, confirm_answer = False, prompt_answer = None, clock_now = 0,
      clock_resumed = 0, fetch_result = Response 200 (js ''{\"choices\":[{\"message\":{\"content\":\"Page one\"}}]}''),
      random_story = 0, shuffled_titles = []\<rparr>
     (new_Book (JStr (js ''Codex'')) 3 4 5) [api_key_item \<mapsto> js ''sk'']) = Inr (JStr (js ''Page one''))"
    by code_simp
  have ne: "js ''Page one'' \<noteq> []" by (simp add: js_def)
  have "getPageContent (CONFIG\<lparr>useMockData := False\<rparr>)
     \<lparr>window_MOCK_DATA = False, confirm_answer = False, prompt_answer = None, clock_now = 0,
      clock_resumed = 0, fetch_result = Response 200 (js ''{\"choices\":[{\"message\":{\"content\":\"Page one\"}}]}''),
      random_story = 0, shuffled_titles = []\<rparr>
     (new_Book (JStr (js ''Codex'')) 3 4 5) [api_key_item \<mapsto> js ''sk''] =
          (Inr (JStr (js ''Page one'')), fst (snd (getPageContent (CONFIG\<lparr>useMockData := False\<rparr>)
     \<lparr>window_MOCK_DATA = False, confirm_answer = False, prompt_answer = None, clock_now = 0,
      clock_resumed = 0, fetch_result = Response 200 (js ''{\"choices\":[{\"message\":{\"content\":\"Page one\"}}]}''),
      random_story = 0, shuffled_titles = []\<rparr>
     (new_Book (JStr (js ''Codex'')) 3 4 5) [api_key_item \<mapsto> js ''sk''])), snd (snd (getPageContent (CONFIG\<lparr>useMockData := False\<rparr>)
     \<lparr>window_MOCK_DATA = False, confirm_answer = False, prompt_answer = None, clock_now = 0,
      clock_resumed = 0, fetch_result = Response 200 (js ''{\"choices\":[{\"message\":{\"content\":\"Page one\"}}]}''),
      random_story = 0, shuffled_titles = []\<rparr>
     (new_Book (JStr (js ''Codex'')) 3 4 5) [api_key_item \<mapsto> js ''sk''])))"
    using r by (metis prod.collapse)
  from page_persists_for_fresh_book [OF this ne] show ?thesis
    by (simp add: new_Book_def new_SaveSystem_def page_cache_agrees_def)
qed

theorem goToPage_cached_witness:
  "goToPage CONFIG
     \<lparr>window_MOCK_DATA = False, confirm_answer = False, prompt_answer = None, clock_now = 0,
      clock_resumed = 0, fetch_result = FetchRejects, random_story = 0, shuffled_titles = []\<rparr>
     ((new_Book (JStr (js ''Codex'')) 3 4 5)\<lparr>cachedPages := [1 \<mapsto> JStr (js ''p1'')]\<rparr>) Map.empty (-2) =
   (Inr (JStr (js ''p1'')),
    (new_Book (JStr (js ''Codex'')) 3 4 5)\<lparr>cachedPages := [1 \<mapsto> JStr (js ''p1'')], currentPage := max 1 (-2)\<rparr>,
    Map.empty)"
  by (rule goToPage_cached) (simp_all add: js_def)

end
