(* ===== verification/Library.thy ===== *)
theory Library
  imports Complex_Main Book
begin

text \<open>
  The room manager: class \<open>Library\<close> of src/src/js/library.js. Its state is the
  constructor's fields: the current room, the books of the room, the card catalog, and
  its own \<open>APIHandler\<close> and \<open>SaveSystem\<close> instances. \<open>loadRoom\<close> is the
  load-or-generate protocol: clamp, read the store, on a miss generate, normalise the
  length with the two \<open>while\<close> loops, persist, then build one \<open>Book\<close> per title.
\<close>

record library =
  currentRoomX :: int
  currentRoomY :: int
  books :: "book list"
  cardCatalog :: jsval
  lib_api :: api_handler
  lib_save :: save_system

definition new_Library :: library where
  "new_Library =
     \<lparr>currentRoomX = 0, currentRoomY = 0, books = [], cardCatalog = JArr [],
      lib_api = new_APIHandler, lib_save = new_SaveSystem\<rparr>"

type_synonym 'a lib_res = "(js_exn + 'a) \<times> library \<times> lstore"

text \<open>Lines 31 to 34, for one coordinate and the grid extent \<open>w\<close>.\<close>

definition clamp_coord :: "int \<Rightarrow> int \<Rightarrow> int" where
  "clamp_coord w v = (let v1 = (if v < 0 then 0 else v) in if w \<le> v1 then w - 1 else v1)"

text \<open>
  Lines 49 to 54: \<open>pop\<close> while too long, then \<open>push(`Unnamed Volume ${length + 1}`)\<close>
  while too short.
\<close>

definition unnamed_volume :: "nat \<Rightarrow> jsval" where
  "unnamed_volume len = JStr (js ''Unnamed Volume '' @ js_of_nat (len + 1))"

definition normalize_catalog :: "nat \<Rightarrow> jsval list \<Rightarrow> jsval list" where
  "normalize_catalog n vs = push_while n unnamed_volume (pop_while n vs)"

text \<open>
  The two loops of lines 49 to 54 as the \<open>while\<close> statements they are: \<open>None\<close> would
  be a loop that never ends.
\<close>

definition catalog_loops :: "nat \<Rightarrow> jsval list \<Rightarrow> jsval list option" where
  "catalog_loops n catalog =
     (case while_option (\<lambda>c. n < length c) butlast catalog of
       None \<Rightarrow> None
     | Some c \<Rightarrow> while_option (\<lambda>c. length c < n) (\<lambda>c. c @ [unnamed_volume (length c)]) c)"

text \<open>Line 60: \<open>`Book ${i+1} of Room (${roomX},${roomY})`\<close> for every index.\<close>

definition fallback_title :: "int \<Rightarrow> int \<Rightarrow> nat \<Rightarrow> jstr" where
  "fallback_title roomX roomY i =
     js ''Book '' @ js_of_nat (i + 1) @ js '' of Room ('' @ js_of_int roomX @ js '','' @ js_of_int roomY @ js '')''"

definition fallback_catalog :: "nat \<Rightarrow> int \<Rightarrow> int \<Rightarrow> jsval list" where
  "fallback_catalog n roomX roomY = map (\<lambda>i. JStr (fallback_title roomX roomY i)) [0..<n]"

text \<open>
  Lines 47 to 61: an array answer is normalised to the room size, anything else is
  replaced by the placeholder catalog.
\<close>

definition room_catalog_of :: "nat \<Rightarrow> int \<Rightarrow> int \<Rightarrow> jsval \<Rightarrow> jsval" where
  "room_catalog_of n roomX roomY g =
     (case g of
       JArr vs \<Rightarrow> JArr (normalize_catalog n vs)
     | _ \<Rightarrow> JArr (fallback_catalog n roomX roomY))"

text \<open>
  Line 69, \<open>catalog.map((title, index) => new Book(title, roomX, roomY, index))\<close>:
  a catalog that is not an array has no \<open>map\<close> method.
\<close>

definition catalog_books :: "jsval \<Rightarrow> int \<Rightarrow> int \<Rightarrow> js_exn + book list" where
  "catalog_books catalog roomX roomY =
     (case catalog of
       JArr vs \<Rightarrow> Inr (map (\<lambda>i. new_Book (vs ! i) roomX roomY (int i)) [0..<length vs])
     | _ \<Rightarrow> Inl TypeError)"

text \<open>
  Lines 66 to 74: set the card catalog, then build the books (which may throw) for the
  room \<open>loadRoom\<close> was called with (its local \<open>roomX\<close>, \<open>roomY\<close>, not the fields).
\<close>

definition enter_room :: "library \<Rightarrow> lstore \<Rightarrow> int \<Rightarrow> int \<Rightarrow> jsval \<Rightarrow> book list lib_res" where
  "enter_room L ls roomX roomY catalog =
     (case catalog_books catalog roomX roomY of
       Inl e \<Rightarrow> (Inl e, L\<lparr>cardCatalog := catalog\<rparr>, ls)
     | Inr bs \<Rightarrow> (Inr bs, L\<lparr>cardCatalog := catalog, books := bs\<rparr>, ls))"

definition loadRoom ::
  "config \<Rightarrow> browser_env \<Rightarrow> library \<Rightarrow> lstore \<Rightarrow> int \<Rightarrow> int \<Rightarrow> book list lib_res" where
  "loadRoom cfg env L ls roomX roomY =
     (let x = clamp_coord (width (librarySize cfg)) roomX;
          y = clamp_coord (height (librarySize cfg)) roomY;
          L1 = L\<lparr>currentRoomX := x, currentRoomY := y\<rparr>
      in case loadRoomCatalog (lib_save L) x y ls of
           (Inl e, s1, ls1) \<Rightarrow> (Inl e, L1\<lparr>lib_save := s1\<rparr>, ls1)
         | (Inr c, s1, ls1) \<Rightarrow>
             if js_truthy c then enter_room (L1\<lparr>lib_save := s1\<rparr>) ls1 x y c
             else
               (case generateRoomCatalog cfg env (lib_api L) ls1 x y of
                 (g, h2, ls2) \<Rightarrow>
                   (let L2 = L1\<lparr>lib_save := s1, lib_api := h2\<rparr>;
                        catalog = room_catalog_of (booksPerRoom cfg) x y g
                    in case saveRoomCatalog s1 x y catalog ls2 of
                         (Inl e, s3, ls3) \<Rightarrow> (Inl e, L2\<lparr>lib_save := s3\<rparr>, ls3)
                       | (Inr _, s3, ls3) \<Rightarrow> enter_room (L2\<lparr>lib_save := s3\<rparr>) ls3 x y catalog)))"

text \<open>
  \<open>moveToRoom\<close>: the direction is the string of the \<open>switch\<close>; any other string
  leaves the target at the current room, which is then reloaded.
\<close>

definition move_target :: "library \<Rightarrow> jstr \<Rightarrow> int \<times> int" where
  "move_target L direction =
     (if direction = js ''north'' then (currentRoomX L, currentRoomY L - 1)
      else if direction = js ''south'' then (currentRoomX L, currentRoomY L + 1)
      else if direction = js ''east'' then (currentRoomX L + 1, currentRoomY L)
      else if direction = js ''west'' then (currentRoomX L - 1, currentRoomY L)
      else (currentRoomX L, currentRoomY L))"

definition in_grid :: "config \<Rightarrow> int \<Rightarrow> int \<Rightarrow> bool" where
  "in_grid cfg x y \<longleftrightarrow>
     0 \<le> x \<and> x < width (librarySize cfg) \<and> 0 \<le> y \<and> y < height (librarySize cfg)"

definition moveToRoom :: "config \<Rightarrow> browser_env \<Rightarrow> library \<Rightarrow> lstore \<Rightarrow> jstr \<Rightarrow> bool lib_res" where
  "moveToRoom cfg env L ls direction =
     (case move_target L direction of
       (newRoomX, newRoomY) \<Rightarrow>
         if \<not> in_grid cfg newRoomX newRoomY then (Inr False, L, ls)
         else (case loadRoom cfg env L ls newRoomX newRoomY of
                 (Inl e, L', ls') \<Rightarrow> (Inl e, L', ls')
               | (Inr _, L', ls') \<Rightarrow> (Inr True, L', ls')))"

definition getBook :: "library \<Rightarrow> int \<Rightarrow> book option" where
  "getBook L index =
     (if 0 \<le> index \<and> index < int (length (books L)) then Some (books L ! nat index) else None)"

text \<open>
  \<open>Library.initialize\<close>: the saved position's room, or the two random draws
  \<open>startX\<close>, \<open>startY\<close>. A saved position whose room coordinates are not numbers is
  outside the model (\<open>None\<close>); \<open>savePlayerPosition\<close> only writes numbers.
\<close>

definition lib_initialize ::
  "config \<Rightarrow> browser_env \<Rightarrow> library \<Rightarrow> lstore \<Rightarrow> int \<Rightarrow> int \<Rightarrow> unit lib_res option" where
  "lib_initialize cfg env L ls startX startY =
     (let finish = (\<lambda>r. case r of (Inl e, L', ls') \<Rightarrow> (Inl e, L', ls') | (Inr _, L', ls') \<Rightarrow> (Inr (), L', ls'))
      in case loadPlayerPosition (lib_save L) ls of
           Inl e \<Rightarrow> Some (Inl e, L, ls)
         | Inr p \<Rightarrow>
             if js_truthy p then
               (case (js_get_prop p (js ''roomX''), js_get_prop p (js ''roomY'')) of
                 (JNum rx, JNum ry) \<Rightarrow> Some (finish (loadRoom cfg env L ls rx ry))
               | _ \<Rightarrow> None)
             else Some (finish (loadRoom cfg env L ls startX startY)))"

subsection \<open>The room protocol on the event loop\<close>

text \<open>
  \<open>loadRoom\<close> split where it waits. Up to its first \<open>await\<close> it clamps, sets the
  current room and reads the store (\<open>loadRoomCatalog\<close> has no \<open>await\<close> of its own);
  a stored catalog, or a generation that settles, completes it within the same event. A
  generation request that reaches the backend leaves the continuation pending: it
  normalises, saves with the library's save system and sets the catalog and the books of
  the room it was called for, on the library as it is when the answer arrives.
\<close>

definition loadRoom_gen :: "config \<Rightarrow> browser_env \<Rightarrow> library \<Rightarrow> lstore \<Rightarrow> int \<Rightarrow> int \<Rightarrow> book list lib_res" where
  "loadRoom_gen cfg env L ls x y =
     (case generateRoomCatalog cfg env (lib_api L) ls x y of
       (g, h2, ls2) \<Rightarrow>
         (let L2 = L\<lparr>lib_api := h2\<rparr>;
              catalog = room_catalog_of (booksPerRoom cfg) x y g
          in case saveRoomCatalog (lib_save L) x y catalog ls2 of
               (Inl e, s3, ls3) \<Rightarrow> (Inl e, L2\<lparr>lib_save := s3\<rparr>, ls3)
             | (Inr _, s3, ls3) \<Rightarrow> enter_room (L2\<lparr>lib_save := s3\<rparr>) ls3 x y catalog))"

definition loadRoom_begin ::
  "config \<Rightarrow> browser_env \<Rightarrow> library \<Rightarrow> lstore \<Rightarrow> int \<Rightarrow> int \<Rightarrow>
   (book list lib_res, library \<times> lstore \<times> int \<times> int) async" where
  "loadRoom_begin cfg env L ls roomX roomY =
     (let x = clamp_coord (width (librarySize cfg)) roomX;
          y = clamp_coord (height (librarySize cfg)) roomY;
          L1 = L\<lparr>currentRoomX := x, currentRoomY := y\<rparr>
      in case loadRoomCatalog (lib_save L) x y ls of
           (Inl e, s1, ls1) \<Rightarrow> Settled (Inl e, L1\<lparr>lib_save := s1\<rparr>, ls1)
         | (Inr c, s1, ls1) \<Rightarrow>
             if js_truthy c then Settled (enter_room (L1\<lparr>lib_save := s1\<rparr>) ls1 x y c)
             else if reaches_backend cfg env (lib_api L) ls1 then Pending (L1\<lparr>lib_save := s1\<rparr>, ls1, x, y)
             else Settled (loadRoom_gen cfg env (L1\<lparr>lib_save := s1\<rparr>) ls1 x y))"

definition run_room :: "config \<Rightarrow> browser_env \<Rightarrow> (book list lib_res, library \<times> lstore \<times> int \<times> int) async \<Rightarrow> book list lib_res" where
  "run_room cfg env a = (case a of Settled r \<Rightarrow> r | Pending (L, ls, x, y) \<Rightarrow> loadRoom_gen cfg env L ls x y)"

text \<open>\<open>moveToRoom\<close> split the same way: the bounds check and \<open>loadRoom\<close>'s first part.\<close>

definition moved :: "book list lib_res \<Rightarrow> bool lib_res" where
  "moved r = (case r of (Inl e, L', ls') \<Rightarrow> (Inl e, L', ls') | (Inr _, L', ls') \<Rightarrow> (Inr True, L', ls'))"

definition moveToRoom_begin ::
  "config \<Rightarrow> browser_env \<Rightarrow> library \<Rightarrow> lstore \<Rightarrow> jstr \<Rightarrow> (bool lib_res, library \<times> lstore \<times> int \<times> int) async" where
  "moveToRoom_begin cfg env L ls direction =
     (case move_target L direction of
       (newRoomX, newRoomY) \<Rightarrow>
         if \<not> in_grid cfg newRoomX newRoomY then Settled (Inr False, L, ls)
         else (case loadRoom_begin cfg env L ls newRoomX newRoomY of
                 Settled r \<Rightarrow> Settled (moved r)
               | Pending w \<Rightarrow> Pending w))"

definition moveToRoom_resume :: "config \<Rightarrow> browser_env \<Rightarrow> library \<Rightarrow> lstore \<Rightarrow> int \<Rightarrow> int \<Rightarrow> bool lib_res" where
  "moveToRoom_resume cfg env L ls x y = moved (loadRoom_gen cfg env L ls x y)"

subsection \<open>Shelf layout\<close>

text \<open>
  \<open>getBookPositions\<close>, over the rationals (the source's divisions are exact for the
  shipped configuration). The inner loops run while \<open>i < booksPerAisle / 2\<close>, that is
  for \<open>(booksPerAisle + 1) div 2\<close> values of \<open>i\<close>; a position whose index is not
  below the number of books is skipped (\<open>continue\<close>).
\<close>

record book_position =
  pos_index :: rat
  pos_x :: rat
  pos_y :: rat
  side :: jstr

definition shelf_y :: "nat \<Rightarrow> rat" where
  "shelf_y i = of_nat (i div 4) * 120 + 100 + of_nat (i mod 4) * (40 + 5)"

definition aisle_positions :: "config \<Rightarrow> nat \<Rightarrow> nat \<Rightarrow> book_position list" where
  "aisle_positions cfg nbooks aisle =
     (let aisleWidth = of_int (width (roomSize cfg)) / of_nat (aislesPerRoom cfg);
          aisleX = of_nat aisle * aisleWidth + aisleWidth / 2;
          bpa = booksPerAisle cfg;
          is = [0..<(bpa + 1) div 2];
          left = map (\<lambda>i. \<lparr>pos_index = of_nat (aisle * bpa + i), pos_x = aisleX - aisleWidth / 4,
                             pos_y = shelf_y i, side = js ''left''\<rparr>) is;
          right = map (\<lambda>i. \<lparr>pos_index = of_nat (aisle * bpa + i) + of_nat bpa / 2,
                              pos_x = aisleX + aisleWidth / 4, pos_y = shelf_y i, side = js ''right''\<rparr>) is
      in filter (\<lambda>p. pos_index p < of_nat nbooks) left @ filter (\<lambda>p. pos_index p < of_nat nbooks) right)"

definition getBookPositions :: "config \<Rightarrow> library \<Rightarrow> book_position list" where
  "getBookPositions cfg L = concat (map (aisle_positions cfg (length (books L))) [0..<aislesPerRoom cfg])"

record room_info =
  ri_roomX :: int
  ri_roomY :: int
  totalRooms :: int
  ri_cardCatalog :: jsval
  bookPositions :: "book_position list"

definition getRoomInfo :: "config \<Rightarrow> library \<Rightarrow> room_info" where
  "getRoomInfo cfg L =
     \<lparr>ri_roomX = currentRoomX L, ri_roomY = currentRoomY L,
      totalRooms = width (librarySize cfg) * height (librarySize cfg),
      ri_cardCatalog = cardCatalog L, bookPositions = getBookPositions cfg L\<rparr>"

subsection \<open>Cache agreement\<close>

text \<open>
  The catalog cache of a save system agrees with the storage on one room key: a truthy
  cached catalog is what the stored text parses to.
\<close>

definition room_cache_agrees :: "save_system \<Rightarrow> lstore \<Rightarrow> jstr \<Rightarrow> bool" where
  "room_cache_agrees s ls k \<longleftrightarrow>
     (case roomCatalogs s k of
       None \<Rightarrow> True
     | Some c \<Rightarrow> \<not> js_truthy c \<or>
         (case ls (room_entry s k) of None \<Rightarrow> False | Some d \<Rightarrow> d \<noteq> [] \<and> JSON_parse d = Inr c))"

subsection \<open>Sample inputs\<close>

text \<open>
  Inputs the witnesses below run the room manager on: the shipped configuration with the
  backend enabled and five books per room, a stored API key, a backend answering three titles, and a user who
  dismisses the key prompt with an empty key.
\<close>

definition sample_cfg :: config where
  "sample_cfg = CONFIG\<lparr>useMockData := False, booksPerRoom := 5\<rparr>"

definition sample_store :: lstore where
  "sample_store = [api_key_item \<mapsto> js ''sk'']"

definition completion_body :: "jsval \<Rightarrow> jstr" where
  "completion_body content =
     json_print (JObj [(js ''choices'', JArr [JObj [(js ''message'', JObj [(js ''content'', content)])]])])"

definition three_titles :: "jsval list" where
  "three_titles = [JStr (js ''A''), JStr (js ''B''), JStr (js ''C'')]"

definition env_titles :: browser_env where
  "env_titles =
     \<lparr>window_MOCK_DATA = False, confirm_answer = False, prompt_answer = None, clock_now = 0,
      clock_resumed = 0, fetch_result = Response 200 (completion_body (JStr (json_print (JArr three_titles)))),
      random_story = 0, shuffled_titles = []\<rparr>"

definition env_no_key :: browser_env where
  "env_no_key =
     \<lparr>window_MOCK_DATA = False, confirm_answer = True, prompt_answer = Some [], clock_now = 0,
      clock_resumed = 0, fetch_result = FetchRejects, random_story = 0, shuffled_titles = []\<rparr>"

subsection \<open>Lemmas\<close>

lemma clamp_coord_bounds: "1 \<le> w \<Longrightarrow> 0 \<le> clamp_coord w v \<and> clamp_coord w v < w"
  by (simp add: clamp_coord_def Let_def)

lemma clamp_coord_id: "0 \<le> v \<Longrightarrow> v < w \<Longrightarrow> clamp_coord w v = v"
  by (simp add: clamp_coord_def Let_def)

lemma normalize_catalog_eq:
  "normalize_catalog n vs = take n vs @ map unnamed_volume [length vs..<n]"
  by (simp add: normalize_catalog_def pop_while_eq_take push_while_eq min_def)

lemma length_normalize_catalog [simp]: "length (normalize_catalog n vs) = n"
  by (simp add: normalize_catalog_eq)

lemma enter_room_JArr:
  "enter_room L ls x y (JArr ts) =
     (Inr (map (\<lambda>i. new_Book (ts ! i) x y (int i)) [0..<length ts]),
      L\<lparr>cardCatalog := JArr ts, books := map (\<lambda>i. new_Book (ts ! i) x y (int i)) [0..<length ts]\<rparr>, ls)"
  by (simp add: enter_room_def catalog_books_def)

lemma enter_room_Inr:
  "enter_room L ls x y c = (Inr bs, L', ls') \<Longrightarrow>
     \<exists>ts. c = JArr ts \<and> catalog_books c x y = Inr bs \<and> cardCatalog L' = c \<and> books L' = bs \<and> map title bs = ts \<and> ls' = ls
          \<and> lib_api L' = lib_api L \<and> lib_save L' = lib_save L
          \<and> currentRoomX L' = currentRoomX L \<and> currentRoomY L' = currentRoomY L"
  by (cases c) (auto simp: enter_room_def catalog_books_def new_Book_def comp_def map_nth)

lemma room_catalog_of_JArr: "\<exists>ts. room_catalog_of n x y g = JArr ts \<and> length ts = n"
  by (cases g) (simp_all add: room_catalog_of_def fallback_catalog_def)

lemma loadRoom_error:
  "loadRoomCatalog (lib_save L) (clamp_coord (width (librarySize cfg)) x)
     (clamp_coord (height (librarySize cfg)) y) ls = (Inl e, s1, ls1) \<Longrightarrow>
   loadRoom cfg env L ls x y =
     (Inl e, L\<lparr>currentRoomX := clamp_coord (width (librarySize cfg)) x,
               currentRoomY := clamp_coord (height (librarySize cfg)) y, lib_save := s1\<rparr>, ls1)"
  by (simp add: loadRoom_def Let_def)

lemma loadRoom_hit:
  "loadRoomCatalog (lib_save L) (clamp_coord (width (librarySize cfg)) x)
     (clamp_coord (height (librarySize cfg)) y) ls = (Inr c, s1, ls1) \<Longrightarrow> js_truthy c \<Longrightarrow>
   loadRoom cfg env L ls x y =
     enter_room (L\<lparr>currentRoomX := clamp_coord (width (librarySize cfg)) x,
                   currentRoomY := clamp_coord (height (librarySize cfg)) y, lib_save := s1\<rparr>) ls1
       (clamp_coord (width (librarySize cfg)) x) (clamp_coord (height (librarySize cfg)) y) c"
  by (simp add: loadRoom_def Let_def)

lemma loadRoom_generate:
  assumes "loadRoomCatalog (lib_save L) (clamp_coord (width (librarySize cfg)) x)
     (clamp_coord (height (librarySize cfg)) y) ls = (Inr c, s1, ls1)" and "\<not> js_truthy c"
    and "generateRoomCatalog cfg env (lib_api L) ls1 (clamp_coord (width (librarySize cfg)) x)
     (clamp_coord (height (librarySize cfg)) y) = (g, h2, ls2)"
  shows "loadRoom cfg env L ls x y =
    (let x' = clamp_coord (width (librarySize cfg)) x; y' = clamp_coord (height (librarySize cfg)) y;
         catalog = room_catalog_of (booksPerRoom cfg) x' y' g;
         L2 = L\<lparr>currentRoomX := x', currentRoomY := y', lib_save := s1, lib_api := h2\<rparr>
     in case saveRoomCatalog s1 x' y' catalog ls2 of
          (Inl e, s3, ls3) \<Rightarrow> (Inl e, L2\<lparr>lib_save := s3\<rparr>, ls3)
        | (Inr _, s3, ls3) \<Rightarrow> enter_room (L2\<lparr>lib_save := s3\<rparr>) ls3 x' y' catalog)"
  using assms by (simp add: loadRoom_def Let_def)

lemma extract_catalog_normal: "json_norm (extract_catalog n r) = extract_catalog n r"
  by (auto simp: extract_catalog_def Let_def comp_def JSON_parse_normal split: jsval.splits sum.splits)

lemma generateRoomCatalog_normal:
  "json_norm (fst (generateRoomCatalog cfg env h ls x y)) = fst (generateRoomCatalog cfg env h ls x y)"
  by (auto simp: generateRoomCatalog_def extract_catalog_normal comp_def split: prod.splits bool.splits)

lemma room_catalog_of_normal:
  "json_norm g = g \<Longrightarrow> json_norm (room_catalog_of n x y g) = room_catalog_of n x y g"
  by (cases g) (auto simp: room_catalog_of_def normalize_catalog_eq fallback_catalog_def unnamed_volume_def
                     comp_def intro: map_idI, metis take_map)

lemma loadRoomCatalog_truthy_stored:
  "room_cache_agrees s ls (room_key x y) \<Longrightarrow> loadRoomCatalog s x y ls = (Inr c, s1, ls1) \<Longrightarrow> js_truthy c \<Longrightarrow>
   \<exists>d. ls (room_entry s (room_key x y)) = Some d \<and> d \<noteq> [] \<and> JSON_parse d = Inr c"
  by (auto simp: loadRoomCatalog_def room_cache_agrees_def cache_hit_def Let_def
           split: option.splits if_splits sum.splits)

lemma loadRoom_InrE:
  assumes "loadRoom cfg env L ls x y = (Inr bs, L', ls')"
  obtains (hit) c s1 where
      "loadRoomCatalog (lib_save L) (clamp_coord (width (librarySize cfg)) x)
         (clamp_coord (height (librarySize cfg)) y) ls = (Inr c, s1, ls)" "js_truthy c"
      "enter_room (L\<lparr>currentRoomX := clamp_coord (width (librarySize cfg)) x,
                     currentRoomY := clamp_coord (height (librarySize cfg)) y, lib_save := s1\<rparr>) ls
         (clamp_coord (width (librarySize cfg)) x) (clamp_coord (height (librarySize cfg)) y) c = (Inr bs, L', ls')"
  | (gen) c s1 g h2 ls2 s3 ls3 where
      "loadRoomCatalog (lib_save L) (clamp_coord (width (librarySize cfg)) x)
         (clamp_coord (height (librarySize cfg)) y) ls = (Inr c, s1, ls)" "\<not> js_truthy c"
      "generateRoomCatalog cfg env (lib_api L) ls (clamp_coord (width (librarySize cfg)) x)
         (clamp_coord (height (librarySize cfg)) y) = (g, h2, ls2)"
      "saveRoomCatalog s1 (clamp_coord (width (librarySize cfg)) x) (clamp_coord (height (librarySize cfg)) y)
         (room_catalog_of (booksPerRoom cfg) (clamp_coord (width (librarySize cfg)) x)
            (clamp_coord (height (librarySize cfg)) y) g) ls2 = (Inr (), s3, ls3)"
      "enter_room (L\<lparr>currentRoomX := clamp_coord (width (librarySize cfg)) x,
                     currentRoomY := clamp_coord (height (librarySize cfg)) y, lib_api := h2, lib_save := s3\<rparr>)
         ls3 (clamp_coord (width (librarySize cfg)) x) (clamp_coord (height (librarySize cfg)) y)
         (room_catalog_of (booksPerRoom cfg) (clamp_coord (width (librarySize cfg)) x)
                (clamp_coord (height (librarySize cfg)) y) g) = (Inr bs, L', ls')"
proof -
  let ?x = "clamp_coord (width (librarySize cfg)) x" and ?y = "clamp_coord (height (librarySize cfg)) y"
  obtain r s1 where l: "loadRoomCatalog (lib_save L) ?x ?y ls = (r, s1, ls)"
    using loadRoomCatalog_ls [of "lib_save L" ?x ?y ls] by (cases "loadRoomCatalog (lib_save L) ?x ?y ls") auto
  show ?thesis
  proof (cases r)
    case (Inl e)
    with assms l show ?thesis by (simp add: loadRoom_error)
  next
    case (Inr c)
    show ?thesis
    proof (cases "js_truthy c")
      case True
      with assms l Inr show ?thesis by (intro hit) (simp_all add: loadRoom_hit)
    next
      case False
      obtain g h2 ls2 where g: "generateRoomCatalog cfg env (lib_api L) ls ?x ?y = (g, h2, ls2)"
        by (cases "generateRoomCatalog cfg env (lib_api L) ls ?x ?y") auto
      let ?c = "room_catalog_of (booksPerRoom cfg) ?x ?y g"
      obtain rr s3 ls3 where sv: "saveRoomCatalog s1 ?x ?y ?c ls2 = (rr, s3, ls3)"
        by (cases "saveRoomCatalog s1 ?x ?y ?c ls2") auto
      from assms sv have "rr = Inr () \<and>
          enter_room (L\<lparr>currentRoomX := ?x, currentRoomY := ?y, lib_api := h2, lib_save := s3\<rparr>) ls3 ?x ?y ?c
            = (Inr bs, L', ls')"
        by (auto simp: loadRoom_generate [OF l [unfolded Inr] False g] Let_def split: sum.splits)
      with l Inr False g sv show ?thesis by (intro gen) auto
    qed
  qed
qed

lemma loadRoom_stored:
  assumes run: "loadRoom cfg env L ls x y = (Inr bs, L', ls')"
    and agree: "room_cache_agrees (lib_save L) ls
                  (room_key (clamp_coord (width (librarySize cfg)) x) (clamp_coord (height (librarySize cfg)) y))"
  shows "\<exists>d. ls' (room_entry (lib_save L)
                  (room_key (clamp_coord (width (librarySize cfg)) x) (clamp_coord (height (librarySize cfg)) y))) = Some d
           \<and> d \<noteq> [] \<and> JSON_parse d = Inr (cardCatalog L')
           \<and> catalog_books (cardCatalog L') (clamp_coord (width (librarySize cfg)) x)
                (clamp_coord (height (librarySize cfg)) y) = Inr bs"
  using run
proof (cases rule: loadRoom_InrE)
  case (hit c s1)
  then show ?thesis
    using loadRoomCatalog_truthy_stored [OF agree hit(1,2)] by (auto dest!: enter_room_Inr)
next
  case (gen c s1 g h2 ls2 s3 ls3)
  let ?x = "clamp_coord (width (librarySize cfg)) x" and ?y = "clamp_coord (height (librarySize cfg)) y"
  let ?c = "room_catalog_of (booksPerRoom cfg) ?x ?y g"
  have pre: "room_entry s1 = room_entry (lib_save L)"
    by (rule room_entry_prefix) (rule loadRoomCatalog_prefix [OF gen(1)])
  have "json_norm ?c = ?c"
    using generateRoomCatalog_normal [of cfg env "lib_api L" ls ?x ?y] gen(3)
    by (simp add: room_catalog_of_normal)
  then have "JSON_parse (json_print ?c) = Inr ?c" by (simp only: JSON_parse_print)
  then show ?thesis
    using saveRoomCatalog_entry [OF gen(4)] pre gen(5)
    by (auto dest!: enter_room_Inr simp del: json_print.simps)
qed

lemma loadRoom_generated:
  assumes run: "loadRoom cfg env L ls x y = (Inr bs, L', ls')"
    and miss: "fst (loadRoomCatalog (lib_save L) (clamp_coord (width (librarySize cfg)) x)
               (clamp_coord (height (librarySize cfg)) y) ls) = Inr c" "\<not> js_truthy c"
  shows "cardCatalog L' = room_catalog_of (booksPerRoom cfg) (clamp_coord (width (librarySize cfg)) x)
            (clamp_coord (height (librarySize cfg)) y)
            (fst (generateRoomCatalog cfg env (lib_api L) ls (clamp_coord (width (librarySize cfg)) x)
               (clamp_coord (height (librarySize cfg)) y)))
         \<and> cardCatalog L' = JArr (map title bs)"
proof -
  let ?x = "clamp_coord (width (librarySize cfg)) x" and ?y = "clamp_coord (height (librarySize cfg)) y"
  obtain s1 where l: "loadRoomCatalog (lib_save L) ?x ?y ls = (Inr c, s1, ls)"
    using miss(1) loadRoomCatalog_ls [of "lib_save L" ?x ?y ls]
    by (cases "loadRoomCatalog (lib_save L) ?x ?y ls") auto
  obtain g h2 ls2 where g: "generateRoomCatalog cfg env (lib_api L) ls ?x ?y = (g, h2, ls2)"
    by (cases "generateRoomCatalog cfg env (lib_api L) ls ?x ?y") auto
  from run obtain L2 ls3 where "enter_room L2 ls3 ?x ?y (room_catalog_of (booksPerRoom cfg) ?x ?y g) = (Inr bs, L', ls')"
    by (auto simp: loadRoom_generate [OF l miss(2) g] Let_def split: prod.splits sum.splits)
  with g show ?thesis by (auto dest!: enter_room_Inr)
qed

lemma enter_room_current:
  "currentRoomX (fst (snd (enter_room L ls x y c))) = currentRoomX L \<and>
   currentRoomY (fst (snd (enter_room L ls x y c))) = currentRoomY L"
  by (simp add: enter_room_def split: sum.split)

lemma loadRoom_current:
  "currentRoomX (fst (snd (loadRoom cfg env L ls x y))) = clamp_coord (width (librarySize cfg)) x \<and>
   currentRoomY (fst (snd (loadRoom cfg env L ls x y))) = clamp_coord (height (librarySize cfg)) y"
  by (auto simp: loadRoom_def Let_def enter_room_current split: prod.split sum.split)

lemma map_filter_below:
  "map g (filter (\<lambda>p. g p < c) xs) = filter (\<lambda>q. q < c) (map g xs)"
  by (induction xs) auto

lemma filter_of_nat_below:
  "filter (\<lambda>q. q < (of_nat n :: rat)) (map of_nat xs) = map of_nat (filter (\<lambda>k. k < n) xs)"
  by (induction xs) auto

lemma aisle_positions_index:
  assumes "even (booksPerAisle cfg)"
  shows "map pos_index (aisle_positions cfg n a) =
           map of_nat (filter (\<lambda>k. k < n) [a * booksPerAisle cfg..<a * booksPerAisle cfg + booksPerAisle cfg])"
proof -
  let ?b = "booksPerAisle cfg"
  let ?h = "?b div 2"
  have h: "(?b + 1) div 2 = ?h" "?b = 2 * ?h" using assms by auto
  have r: "(\<lambda>i. (of_nat (a * ?b + i) :: rat) + of_nat ?b / 2) = (\<lambda>i. of_nat (a * ?b + ?h + i))"
    using h(2) by (auto simp: field_simps)
  have "map pos_index (aisle_positions cfg n a) =
          filter (\<lambda>q. q < of_nat n) (map (\<lambda>i. of_nat (a * ?b + i)) [0..<?h]) @
          filter (\<lambda>q. q < of_nat n) (map (\<lambda>i. of_nat (a * ?b + i) + of_nat ?b / 2) [0..<?h])"
    by (simp only: aisle_positions_def Let_def h(1) map_append map_filter_below map_map comp_def
                   book_position.select_convs)
  also have "\<dots> = map of_nat (filter (\<lambda>k. k < n) ([a * ?b..<a * ?b + ?h] @ [a * ?b + ?h..<a * ?b + ?h + ?h]))"
    by (simp only: r map_shift filter_of_nat_below filter_append map_append)
  also have "[a * ?b..<a * ?b + ?h] @ [a * ?b + ?h..<a * ?b + ?h + ?h] = [a * ?b..<a * ?b + ?b]"
    using upt_split_half [of "a * ?b" ?h] h(2) by simp
  finally show ?thesis .
qed

lemma upt_aisles:
  "concat (map (\<lambda>a. [a * b..<a * b + b]) [0..<A]) = [0..<A * b]"
proof (induction A)
  case (Suc A)
  have "[0..<A * b] @ [A * b..<A * b + b] = [0..<A * b + b]"
    by (rule upt_add_eq_append [symmetric]) simp
  with Suc show ?case by (simp add: add.commute)
qed simp

lemma clamp_coord_idem: "clamp_coord w (clamp_coord w v) = clamp_coord w v"
  by (simp add: clamp_coord_def Let_def)

lemma loadRoom_caches:
  assumes "loadRoom cfg env L ls x y = (Inr bs, L', ls')"
  shows "cache_hit (roomCatalogs (lib_save L')) js_truthy
           (room_key (currentRoomX L') (currentRoomY L')) = Some (cardCatalog L')
         \<and> catalog_books (cardCatalog L') (currentRoomX L') (currentRoomY L') = Inr bs"
  using assms
proof (cases rule: loadRoom_InrE)
  case (hit c s1)
  have "cache_hit (roomCatalogs s1) js_truthy
          (room_key (clamp_coord (width (librarySize cfg)) x) (clamp_coord (height (librarySize cfg)) y)) = Some c"
    using hit(1,2)
    by (auto simp: loadRoomCatalog_def cache_hit_def Let_def split: option.splits if_splits sum.splits)
  with hit(3) show ?thesis by (auto dest!: enter_room_Inr)
next
  case (gen c s1 g h2 ls2 s3 ls3)
  obtain ts where "room_catalog_of (booksPerRoom cfg) (clamp_coord (width (librarySize cfg)) x)
                     (clamp_coord (height (librarySize cfg)) y) g = JArr ts"
    using room_catalog_of_JArr by blast
  with saveRoomCatalog_cache [OF gen(4)] gen(5) show ?thesis
    by (auto simp: cache_hit_def dest!: enter_room_Inr)
qed

lemma loadRoom_cached:
  assumes "cache_hit (roomCatalogs (lib_save L)) js_truthy (room_key x y) = Some c"
    and "x = clamp_coord (width (librarySize cfg)) x" and "y = clamp_coord (height (librarySize cfg)) y"
  shows "fst (loadRoom cfg env L ls x y) = catalog_books c x y"
proof -
  have "loadRoomCatalog (lib_save L) x y ls = (Inr c, lib_save L, ls)" and "js_truthy c"
    using assms(1) by (auto simp: loadRoomCatalog_def cache_hit_def split: option.splits if_splits)
  then show ?thesis
    using loadRoom_hit [of L cfg x y ls c "lib_save L" ls env] assms(2,3)
    by (simp add: enter_room_def split: sum.split)
qed

lemma lib_initialize_Inr:
  "lib_initialize cfg env L ls sx sy = Some (Inr u, L', ls') \<Longrightarrow>
   \<exists>x y bs. loadRoom cfg env L ls x y = (Inr bs, L', ls')"
  by (auto simp: lib_initialize_def Let_def split: sum.splits if_splits jsval.splits prod.splits)

lemma moveToRoom_inside:
  "move_target L d = (nx, ny) \<Longrightarrow> in_grid cfg nx ny \<Longrightarrow>
   moveToRoom cfg env L ls d =
     (case loadRoom cfg env L ls nx ny of (Inl e, L', ls') \<Rightarrow> (Inl e, L', ls') | (Inr _, L', ls') \<Rightarrow> (Inr True, L', ls'))"
  by (simp add: moveToRoom_def)

lemma loadRoom_split: "loadRoom cfg env L ls x y = run_room cfg env (loadRoom_begin cfg env L ls x y)"
  by (simp add: loadRoom_def loadRoom_begin_def loadRoom_gen_def run_room_def Let_def
      split: prod.split sum.split)

lemma moveToRoom_split:
  "moveToRoom cfg env L ls d =
     (case moveToRoom_begin cfg env L ls d of
       Settled r \<Rightarrow> r
     | Pending (L1, ls1, x, y) \<Rightarrow> moveToRoom_resume cfg env L1 ls1 x y)"
  by (auto simp: moveToRoom_def moveToRoom_begin_def moveToRoom_resume_def loadRoom_split run_room_def moved_def
      split: prod.split async.split)

lemma loadRoom_begin_current:
  "loadRoom_begin cfg env L ls x y = Settled r \<Longrightarrow>
     currentRoomX (fst (snd r)) = clamp_coord (width (librarySize cfg)) x \<and>
     currentRoomY (fst (snd r)) = clamp_coord (height (librarySize cfg)) y"
  "loadRoom_begin cfg env L ls x y = Pending (L1, ls1, x1, y1) \<Longrightarrow>
     currentRoomX L1 = clamp_coord (width (librarySize cfg)) x \<and> currentRoomY L1 = clamp_coord (height (librarySize cfg)) y
     \<and> x1 = clamp_coord (width (librarySize cfg)) x \<and> y1 = clamp_coord (height (librarySize cfg)) y"
  by (auto simp: loadRoom_begin_def Let_def loadRoom_gen_def enter_room_current
      split: prod.splits sum.splits if_splits)

lemma moveToRoom_begin_current:
  assumes "move_target L d = (nx, ny)" and "in_grid cfg nx ny"
  shows "moveToRoom_begin cfg env L ls d = Settled r \<Longrightarrow> currentRoomX (fst (snd r)) = nx \<and> currentRoomY (fst (snd r)) = ny"
    and "moveToRoom_begin cfg env L ls d = Pending (L1, ls1, x, y) \<Longrightarrow>
           currentRoomX L1 = nx \<and> currentRoomY L1 = ny \<and> x = nx \<and> y = ny"
proof -
  have c: "clamp_coord (width (librarySize cfg)) nx = nx" "clamp_coord (height (librarySize cfg)) ny = ny"
    using assms(2) by (simp_all add: in_grid_def clamp_coord_id)
  show "moveToRoom_begin cfg env L ls d = Settled r \<Longrightarrow> currentRoomX (fst (snd r)) = nx \<and> currentRoomY (fst (snd r)) = ny"
    using assms loadRoom_begin_current(1) [of cfg env L ls nx ny] c
    by (auto simp: moveToRoom_begin_def moved_def split: async.splits prod.splits sum.splits)
  show "moveToRoom_begin cfg env L ls d = Pending (L1, ls1, x, y) \<Longrightarrow>
          currentRoomX L1 = nx \<and> currentRoomY L1 = ny \<and> x = nx \<and> y = ny"
    using assms loadRoom_begin_current(2) [of cfg env L ls nx ny L1 ls1 x y] c
    by (auto simp: moveToRoom_begin_def split: async.splits)
qed

lemma move_target_cong:
  "currentRoomX L = currentRoomX L' \<Longrightarrow> currentRoomY L = currentRoomY L' \<Longrightarrow> move_target L d = move_target L' d"
  by (simp add: move_target_def)

lemma loadRoom_gen_Inr:
  "loadRoom_gen cfg env L ls x y = (Inr bs, L', ls') \<Longrightarrow>
     currentRoomX L' = currentRoomX L \<and> currentRoomY L' = currentRoomY L \<and> books L' = bs
     \<and> (\<forall>b\<in>set bs. b_roomX b = x \<and> b_roomY b = y)"
  by (auto simp: loadRoom_gen_def Let_def enter_room_def catalog_books_def new_Book_def
      split: prod.splits sum.splits jsval.splits)

subsection \<open>Properties of the room manager\<close>

text \<open>
  C1: when the store has no catalog for the room, a successful \<open>loadRoom\<close> yields exactly
  \<open>booksPerRoom\<close> books and sets the card catalog to their titles, whatever the generation
  client answered (too few titles, too many, or no array at all).
\<close>

theorem loadRoom_full_catalog:
  assumes "loadRoom cfg env L ls x y = (Inr bs, L', ls')"
    and "fst (loadRoomCatalog (lib_save L) (clamp_coord (width (librarySize cfg)) x)
               (clamp_coord (height (librarySize cfg)) y) ls) = Inr c"
    and "\<not> js_truthy c"
  shows "length bs = booksPerRoom cfg \<and> cardCatalog L' = JArr (map title bs)"
proof -
  let ?x = "clamp_coord (width (librarySize cfg)) x" and ?y = "clamp_coord (height (librarySize cfg)) y"
  obtain s1 ls1 where l: "loadRoomCatalog (lib_save L) ?x ?y ls = (Inr c, s1, ls1)"
    using assms(2) by (metis prod.collapse)
  obtain g h2 ls2 where g: "generateRoomCatalog cfg env (lib_api L) ls1 ?x ?y = (g, h2, ls2)"
    by (metis prod.collapse)
  obtain ts where ts: "room_catalog_of (booksPerRoom cfg) ?x ?y g = JArr ts" "length ts = booksPerRoom cfg"
    using room_catalog_of_JArr by blast
  from assms(1) obtain L2 ls3 where "enter_room L2 ls3 ?x ?y (JArr ts) = (Inr bs, L', ls')"
    by (auto simp: loadRoom_generate [OF l assms(3) g] ts Let_def split: prod.splits sum.splits)
  with ts show ?thesis by (auto dest: enter_room_Inr)
qed

text \<open>
  C6: a generated array is truncated to \<open>booksPerRoom\<close> and padded with
  \<open>Unnamed Volume k\<close> for the missing positions \<open>k = length + 1, ...\<close> (the scenario
  of the specification: three titles give the three titles and 97 placeholders).
\<close>

theorem loadRoom_pads_generated:
  assumes "loadRoom cfg env L ls x y = (Inr bs, L', ls')"
    and "fst (loadRoomCatalog (lib_save L) (clamp_coord (width (librarySize cfg)) x)
               (clamp_coord (height (librarySize cfg)) y) ls) = Inr c" and "\<not> js_truthy c"
    and "fst (generateRoomCatalog cfg env (lib_api L) ls (clamp_coord (width (librarySize cfg)) x)
               (clamp_coord (height (librarySize cfg)) y)) = JArr vs"
  shows "map title bs = take (booksPerRoom cfg) vs @ map unnamed_volume [length vs..<booksPerRoom cfg]"
  using loadRoom_generated [OF assms(1-3)] assms(4)
  by (auto simp: room_catalog_of_def normalize_catalog_eq)


text \<open>
  C7: when the generation client gives no array (\<open>null\<close>, an unparsable answer), the
  room gets the deterministic placeholder titles \<open>Book i of Room (x,y)\<close>.
\<close>

theorem loadRoom_placeholder_catalog:
  assumes "loadRoom cfg env L ls x y = (Inr bs, L', ls')"
    and "fst (loadRoomCatalog (lib_save L) (clamp_coord (width (librarySize cfg)) x)
               (clamp_coord (height (librarySize cfg)) y) ls) = Inr c" and "\<not> js_truthy c"
    and "\<not> js_is_array (fst (generateRoomCatalog cfg env (lib_api L) ls (clamp_coord (width (librarySize cfg)) x)
               (clamp_coord (height (librarySize cfg)) y)))"
  shows "map title bs = fallback_catalog (booksPerRoom cfg) (clamp_coord (width (librarySize cfg)) x)
                          (clamp_coord (height (librarySize cfg)) y)"
  using loadRoom_generated [OF assms(1-3)] assms(4)
  by (auto simp: room_catalog_of_def split: jsval.splits)

text \<open>
  C2: repeat visits are deterministic: after a successful \<open>loadRoom\<close>, a fresh
  \<open>Library\<close> (a new session) loading the same room gets the same books and catalog from
  the store, without a generation request and without writing the storage.
\<close>

theorem second_visit_same_catalog:
  assumes "loadRoom cfg env L ls x y = (Inr bs, L', ls')" and "savePrefix (lib_save L) = js ''babel_''"
    and "room_cache_agrees (lib_save L) ls
           (room_key (clamp_coord (width (librarySize cfg)) x) (clamp_coord (height (librarySize cfg)) y))"
  shows "\<exists>L2. loadRoom cfg env2 new_Library ls' x y = (Inr bs, L2, ls')
              \<and> cardCatalog L2 = cardCatalog L' \<and> lib_api L2 = new_APIHandler"
proof -
  let ?x = "clamp_coord (width (librarySize cfg)) x" and ?y = "clamp_coord (height (librarySize cfg)) y"
  obtain d where d: "ls' (room_entry (lib_save L) (room_key ?x ?y)) = Some d" "d \<noteq> []"
      "JSON_parse d = Inr (cardCatalog L')" and b: "catalog_books (cardCatalog L') ?x ?y = Inr bs"
    using loadRoom_stored [OF assms(1,3)] by blast
  have t: "js_truthy (cardCatalog L')"
    using b by (cases "cardCatalog L'") (simp_all add: catalog_books_def)
  have "room_entry new_SaveSystem = room_entry (lib_save L)"
    by (rule room_entry_prefix) (simp add: assms(2) new_SaveSystem_def)
  with d have "loadRoomCatalog new_SaveSystem ?x ?y ls' =
      (Inr (cardCatalog L'), new_SaveSystem\<lparr>roomCatalogs := [room_key ?x ?y \<mapsto> cardCatalog L']\<rparr>, ls')"
    by (simp add: loadRoomCatalog_def cache_hit_def new_SaveSystem_def)
  then show ?thesis
    using t b by (simp add: new_Library_def loadRoom_hit enter_room_def)
qed

text \<open>
  C15: \<open>loadRoom\<close> clamps: whatever coordinates it is given, the current room it
  sets lies in the grid.
\<close>

theorem loadRoom_in_grid:
  assumes "1 \<le> width (librarySize cfg)" and "1 \<le> height (librarySize cfg)"
  shows "in_grid cfg (currentRoomX (fst (snd (loadRoom cfg env L ls x y))))
                     (currentRoomY (fst (snd (loadRoom cfg env L ls x y))))"
  using assms by (simp add: in_grid_def loadRoom_current clamp_coord_bounds)

text \<open>
  C16: a move off the edge of the grid is refused: \<open>moveToRoom\<close> answers \<open>false\<close>
  and changes neither the library nor the storage.
\<close>

theorem moveToRoom_edge:
  "\<not> in_grid cfg (fst (move_target L d)) (snd (move_target L d)) \<Longrightarrow>
   moveToRoom cfg env L ls d = (Inr False, L, ls)"
  by (cases "move_target L d") (simp add: moveToRoom_def)

text \<open>
  C17: a move to a room inside the grid makes that room the current one, whether or not
  loading it succeeds.
\<close>

theorem moveToRoom_enters:
  assumes "move_target L d = (nx, ny)" and "in_grid cfg nx ny"
  shows "currentRoomX (fst (snd (moveToRoom cfg env L ls d))) = nx \<and>
         currentRoomY (fst (snd (moveToRoom cfg env L ls d))) = ny"
proof -
  have "clamp_coord (width (librarySize cfg)) nx = nx" "clamp_coord (height (librarySize cfg)) ny = ny"
    using assms(2) by (simp_all add: in_grid_def clamp_coord_id)
  then show ?thesis
    using assms loadRoom_current [of cfg env L ls nx ny]
    by (auto simp: moveToRoom_def split: prod.split sum.split)
qed

text \<open>
  C21: with an even \<open>booksPerAisle\<close>, the shelf layout gives every book of the room
  exactly one position, in index order, and no position to a missing book.
\<close>

theorem getBookPositions_indices:
  assumes "even (booksPerAisle cfg)"
  shows "map pos_index (getBookPositions cfg L) =
           map of_nat (filter (\<lambda>k. k < length (books L)) [0..<aislesPerRoom cfg * booksPerAisle cfg])"
proof -
  have "map pos_index (getBookPositions cfg L) =
          concat (map (\<lambda>a. map of_nat (filter (\<lambda>k. k < length (books L))
                     [a * booksPerAisle cfg..<a * booksPerAisle cfg + booksPerAisle cfg])) [0..<aislesPerRoom cfg])"
    by (simp add: getBookPositions_def map_concat aisle_positions_index [OF assms] comp_def)
  also have "\<dots> = map of_nat (filter (\<lambda>k. k < length (books L))
                     (concat (map (\<lambda>a. [a * booksPerAisle cfg..<a * booksPerAisle cfg + booksPerAisle cfg])
                                 [0..<aislesPerRoom cfg])))"
    by (simp add: map_concat filter_concat comp_def)
  finally show ?thesis by (simp only: upt_aisles)
qed


theorem loadRoom_full_catalog_witness:
  "length (projr (fst (loadRoom sample_cfg env_titles new_Library sample_store 10 10))) = booksPerRoom sample_cfg \<and>
   cardCatalog (fst (snd (loadRoom sample_cfg env_titles new_Library sample_store 10 10))) = JArr (map title (projr (fst (loadRoom sample_cfg env_titles new_Library sample_store 10 10))))"
proof -
  have "\<not> isl (fst (loadRoom sample_cfg env_titles new_Library sample_store 10 10))" by code_simp
  then have run: "loadRoom sample_cfg env_titles new_Library sample_store 10 10 = (Inr (projr (fst (loadRoom sample_cfg env_titles new_Library sample_store 10 10))), fst (snd (loadRoom sample_cfg env_titles new_Library sample_store 10 10)), snd (snd (loadRoom sample_cfg env_titles new_Library sample_store 10 10)))"
    by (rule Inr_collapse)
  have miss: "fst (loadRoomCatalog (lib_save new_Library) (clamp_coord (width (librarySize sample_cfg)) 10) (clamp_coord (height (librarySize sample_cfg)) 10) sample_store) = Inr JNull" by code_simp
  show ?thesis using loadRoom_full_catalog [OF run miss] by simp
qed

theorem loadRoom_pads_generated_witness:
  "map title (projr (fst (loadRoom sample_cfg env_titles new_Library sample_store 10 10))) =
     take (booksPerRoom sample_cfg) three_titles @ map unnamed_volume [length three_titles..<booksPerRoom sample_cfg]"
proof -
  have "\<not> isl (fst (loadRoom sample_cfg env_titles new_Library sample_store 10 10))" by code_simp
  then have run: "loadRoom sample_cfg env_titles new_Library sample_store 10 10 = (Inr (projr (fst (loadRoom sample_cfg env_titles new_Library sample_store 10 10))), fst (snd (loadRoom sample_cfg env_titles new_Library sample_store 10 10)), snd (snd (loadRoom sample_cfg env_titles new_Library sample_store 10 10)))"
    by (rule Inr_collapse)
  have miss: "fst (loadRoomCatalog (lib_save new_Library) (clamp_coord (width (librarySize sample_cfg)) 10) (clamp_coord (height (librarySize sample_cfg)) 10) sample_store) = Inr JNull" by code_simp
  have gen: "fst (generateRoomCatalog sample_cfg env_titles (lib_api new_Library) sample_store (clamp_coord (width (librarySize sample_cfg)) 10) (clamp_coord (height (librarySize sample_cfg)) 10)) = JArr three_titles"
    by code_simp
  show ?thesis using loadRoom_pads_generated [OF run miss _ gen] by simp
qed

theorem loadRoom_placeholder_catalog_witness:
  "map title (projr (fst (loadRoom sample_cfg env_no_key new_Library Map.empty 10 10))) = fallback_catalog (booksPerRoom sample_cfg) (clamp_coord (width (librarySize sample_cfg)) 10) (clamp_coord (height (librarySize sample_cfg)) 10)"
proof -
  have "\<not> isl (fst (loadRoom sample_cfg env_no_key new_Library Map.empty 10 10))" by code_simp
  then have run: "loadRoom sample_cfg env_no_key new_Library Map.empty 10 10 = (Inr (projr (fst (loadRoom sample_cfg env_no_key new_Library Map.empty 10 10))), fst (snd (loadRoom sample_cfg env_no_key new_Library Map.empty 10 10)), snd (snd (loadRoom sample_cfg env_no_key new_Library Map.empty 10 10)))"
    by (rule Inr_collapse)
  have miss: "fst (loadRoomCatalog (lib_save new_Library) (clamp_coord (width (librarySize sample_cfg)) 10) (clamp_coord (height (librarySize sample_cfg)) 10) Map.empty) = Inr JNull" by code_simp
  have gen: "\<not> js_is_array (fst (generateRoomCatalog sample_cfg env_no_key (lib_api new_Library) Map.empty (clamp_coord (width (librarySize sample_cfg)) 10) (clamp_coord (height (librarySize sample_cfg)) 10)))"
    by code_simp
  show ?thesis using loadRoom_placeholder_catalog [OF run miss _ gen] by simp
qed

theorem second_visit_same_catalog_witness:
  "\<exists>L2. loadRoom sample_cfg env_no_key new_Library (snd (snd (loadRoom sample_cfg env_titles new_Library sample_store 10 10))) 10 10 =
          (Inr (projr (fst (loadRoom sample_cfg env_titles new_Library sample_store 10 10))), L2, snd (snd (loadRoom sample_cfg env_titles new_Library sample_store 10 10)))
        \<and> cardCatalog L2 = cardCatalog (fst (snd (loadRoom sample_cfg env_titles new_Library sample_store 10 10))) \<and> lib_api L2 = new_APIHandler"
proof -
  have "\<not> isl (fst (loadRoom sample_cfg env_titles new_Library sample_store 10 10))" by code_simp
  then have run: "loadRoom sample_cfg env_titles new_Library sample_store 10 10 = (Inr (projr (fst (loadRoom sample_cfg env_titles new_Library sample_store 10 10))), fst (snd (loadRoom sample_cfg env_titles new_Library sample_store 10 10)), snd (snd (loadRoom sample_cfg env_titles new_Library sample_store 10 10)))"
    by (rule Inr_collapse)
  have pre: "savePrefix (lib_save new_Library) = js ''babel_''"
    by (simp add: new_Library_def new_SaveSystem_def)
  have agree: "room_cache_agrees (lib_save new_Library) sample_store (room_key (clamp_coord (width (librarySize sample_cfg)) 10) (clamp_coord (height (librarySize sample_cfg)) 10))"
    by (simp add: room_cache_agrees_def new_Library_def new_SaveSystem_def)
  show ?thesis by (rule second_visit_same_catalog [OF run pre agree])
qed

theorem loadRoom_in_grid_witness:
  "in_grid CONFIG (currentRoomX (fst (snd (loadRoom CONFIG env_no_key new_Library Map.empty 300 (-5)))))
                  (currentRoomY (fst (snd (loadRoom CONFIG env_no_key new_Library Map.empty 300 (-5)))))"
  by (rule loadRoom_in_grid) (simp_all add: CONFIG_def)

theorem moveToRoom_edge_witness:
  "moveToRoom CONFIG env_no_key new_Library Map.empty (js ''north'') = (Inr False, new_Library, Map.empty)"
  by (rule moveToRoom_edge) (simp add: move_target_def new_Library_def in_grid_def)

theorem moveToRoom_enters_witness:
  "currentRoomX (fst (snd (moveToRoom CONFIG env_no_key new_Library Map.empty (js ''east'')))) = 1 \<and>
   currentRoomY (fst (snd (moveToRoom CONFIG env_no_key new_Library Map.empty (js ''east'')))) = 0"
  by (rule moveToRoom_enters) (simp_all add: move_target_def new_Library_def in_grid_def CONFIG_def js_def)

theorem getBookPositions_indices_witness:
  "map pos_index (getBookPositions CONFIG (new_Library\<lparr>books := replicate 100 (new_Book JNull 0 0 0)\<rparr>)) =
     map of_nat (filter (\<lambda>k. k < length (books (new_Library\<lparr>books := replicate 100 (new_Book JNull 0 0 0)\<rparr>)))
       [0..<aislesPerRoom CONFIG * booksPerAisle CONFIG])"
  by (rule getBookPositions_indices) (simp add: CONFIG_def)

end
