(* ===== verification/Player.thy ===== *)
theory Player
  imports Library
begin

text \<open>
  The player: class \<open>Player\<close> of src/src/js/player.js. Its state is the record of
  the constructor's fields. Positions are rationals: the room size is halved and the
  shelf positions are quarters of an aisle. \<open>update\<close> moves the player inside the
  padded room, recomputes the exit, nearby-book and card-catalog flags, and writes the
  position to the store. The nearest-book search compares squared distances; the
  source's comparison of square roots is the reference \<open>checkForNearbyBooks_ref\<close>,
  over the reals, and the two agree (\<open>nearby_equiv\<close> below).
\<close>

record player =
  p_name :: jsval
  p_description :: jsval
  px :: rat
  py :: rat
  speed :: int
  psize :: int
  moveUp :: bool
  moveDown :: bool
  moveLeft :: bool
  moveRight :: bool
  nearbyBookIndex :: rat
  isAtCardCatalog :: bool
  isAtExit :: "jstr option"
  p_save :: save_system

definition room_w :: "config \<Rightarrow> rat" where
  "room_w cfg = of_int (width (roomSize cfg))"

definition room_h :: "config \<Rightarrow> rat" where
  "room_h cfg = of_int (height (roomSize cfg))"

definition new_Player :: "config \<Rightarrow> jsval \<Rightarrow> jsval \<Rightarrow> player" where
  "new_Player cfg name description =
     \<lparr>p_name = name, p_description = description, px = room_w cfg / 2, py = room_h cfg / 2,
      speed = playerSpeed cfg, psize = playerSize cfg,
      moveUp = False, moveDown = False, moveLeft = False, moveRight = False,
      nearbyBookIndex = -1, isAtCardCatalog = False, isAtExit = None, p_save = new_SaveSystem\<rparr>"

text \<open>
  \<open>initialize\<close>: a truthy saved position replaces \<open>x\<close> and \<open>y\<close>. A saved position
  whose coordinates are not numbers is outside the model (\<open>None\<close>).
\<close>

definition player_initialize :: "player \<Rightarrow> lstore \<Rightarrow> (js_exn + player) option" where
  "player_initialize p ls =
     (case loadPlayerPosition (p_save p) ls of
       Inl e \<Rightarrow> Some (Inl e)
     | Inr pos \<Rightarrow>
         if js_truthy pos then
           (case (js_get_prop pos (js ''x''), js_get_prop pos (js ''y'')) of
             (JNum a, JNum b) \<Rightarrow> Some (Inr (p\<lparr>px := of_int a, py := of_int b\<rparr>))
           | _ \<Rightarrow> None)
         else Some (Inr p))"

text \<open>\<open>checkForRoomExits\<close>: the first of north, south, east, west within 40 of its wall.\<close>

definition checkForRoomExits :: "config \<Rightarrow> player \<Rightarrow> player" where
  "checkForRoomExits cfg p =
     p\<lparr>isAtExit :=
        (if py p < 40 then Some (js ''north'')
         else if py p > room_h cfg - 40 then Some (js ''south'')
         else if px p > room_w cfg - 40 then Some (js ''east'')
         else if px p < 40 then Some (js ''west'')
         else None)\<rparr>"

text \<open>
  \<open>checkForNearbyBooks\<close> as the source writes it: the \<open>forEach\<close> keeps the closest
  book whose Euclidean distance is below the running minimum, which starts at 40.
\<close>

definition dist2 :: "player \<Rightarrow> book_position \<Rightarrow> rat" where
  "dist2 p b = (px p - pos_x b)\<^sup>2 + (py p - pos_y b)\<^sup>2"

definition nearby_step_ref :: "player \<Rightarrow> real \<times> rat \<Rightarrow> book_position \<Rightarrow> real \<times> rat" where
  "nearby_step_ref p acc b =
     (let distance = sqrt (of_rat (dist2 p b))
      in if distance < fst acc then (distance, pos_index b) else acc)"

definition checkForNearbyBooks_ref :: "player \<Rightarrow> book_position list \<Rightarrow> rat" where
  "checkForNearbyBooks_ref p bs = snd (foldl (nearby_step_ref p) (40, -1) bs)"

text \<open>The executable search: the same fold over squared distances.\<close>

definition nearby_step :: "player \<Rightarrow> rat \<times> rat \<Rightarrow> book_position \<Rightarrow> rat \<times> rat" where
  "nearby_step p acc b = (if dist2 p b < fst acc then (dist2 p b, pos_index b) else acc)"

definition checkForNearbyBooks :: "player \<Rightarrow> book_position list \<Rightarrow> player" where
  "checkForNearbyBooks p bs = p\<lparr>nearbyBookIndex := snd (foldl (nearby_step p) (1600, -1) bs)\<rparr>"

text \<open>A rational that is an integer, as \<open>JSON.stringify\<close> of the model prints it.\<close>

definition rat_int :: "rat \<Rightarrow> int option" where
  "rat_int r = (if of_int (floor r) = r then Some (floor r) else None)"

text \<open>
  \<open>update\<close>: the moves of the pressed keys, each axis applied only inside the padded
  room, then the three checks and \<open>savePlayerPosition\<close>. A position that is not an
  integer is outside the model of numbers (\<open>None\<close>); with the shipped room size and
  speed it never arises.
\<close>

definition move_delta :: "bool \<Rightarrow> bool \<Rightarrow> int \<Rightarrow> int" where
  "move_delta neg pos s = (if neg then - s else 0) + (if pos then s else 0)"

definition step_axis :: "rat \<Rightarrow> rat \<Rightarrow> rat \<Rightarrow> rat \<Rightarrow> rat" where
  "step_axis v d padding extent =
     (let nv = v + d in if nv \<ge> padding \<and> nv \<le> extent - padding then nv else v)"

definition player_update :: "config \<Rightarrow> player \<Rightarrow> room_info \<Rightarrow> lstore \<Rightarrow> (player \<times> lstore) option" where
  "player_update cfg p ri ls =
     (let dx = move_delta (moveLeft p) (moveRight p) (speed p);
          dy = move_delta (moveUp p) (moveDown p) (speed p);
          padding = of_int (psize p) / 2;
          p1 = p\<lparr>px := step_axis (px p) (of_int dx) padding (room_w cfg),
                 py := step_axis (py p) (of_int dy) padding (room_h cfg)\<rparr>;
          p2 = checkForRoomExits cfg p1;
          p3 = checkForNearbyBooks p2 (bookPositions ri);
          p4 = p3\<lparr>isAtCardCatalog := (py p3 < 80 \<and> \<bar>px p3 - room_w cfg / 2\<bar> < 50)\<rparr>
      in case (rat_int (px p4), rat_int (py p4)) of
           (Some x, Some y) \<Rightarrow> Some (p4, savePlayerPosition (p_save p) x y (ri_roomX ri) (ri_roomY ri) ls)
         | _ \<Rightarrow> None)"

text \<open>\<open>event.key.toLowerCase()\<close> on the ASCII letters (other keys are left as they are).\<close>

definition js_lower :: "jstr \<Rightarrow> jstr" where
  "js_lower s = map (\<lambda>c. if 65 \<le> c \<and> c \<le> 90 then c + 32 else c) s"

definition handleKeyDown :: "player \<Rightarrow> jstr \<Rightarrow> player" where
  "handleKeyDown p key =
     (let k = js_lower key
      in if k = js ''w'' then p\<lparr>moveUp := True\<rparr>
         else if k = js ''s'' then p\<lparr>moveDown := True\<rparr>
         else if k = js ''a'' then p\<lparr>moveLeft := True\<rparr>
         else if k = js ''d'' then p\<lparr>moveRight := True\<rparr>
         else p)"

definition handleKeyUp :: "player \<Rightarrow> jstr \<Rightarrow> player" where
  "handleKeyUp p key =
     (let k = js_lower key
      in if k = js ''w'' then p\<lparr>moveUp := False\<rparr>
         else if k = js ''s'' then p\<lparr>moveDown := False\<rparr>
         else if k = js ''a'' then p\<lparr>moveLeft := False\<rparr>
         else if k = js ''d'' then p\<lparr>moveRight := False\<rparr>
         else p)"

subsection \<open>The player's state machine\<close>

text \<open>
  The events that change a player during play, in any order: a key pressed, a key
  released, a frame's \<open>update\<close> in some room (its layout \<open>ri\<close>, the storage \<open>ls\<close>).
\<close>

datatype player_event = KeyDown jstr | KeyUp jstr | Update room_info lstore

inductive player_step :: "config \<Rightarrow> player \<Rightarrow> player_event \<Rightarrow> player \<Rightarrow> bool" where
  down: "player_step cfg p (KeyDown k) (handleKeyDown p k)"
| up: "player_step cfg p (KeyUp k) (handleKeyUp p k)"
| upd: "player_update cfg p ri ls = Some (p', ls') \<Longrightarrow> player_step cfg p (Update ri ls) p'"

inductive player_reachable :: "config \<Rightarrow> player \<Rightarrow> player \<Rightarrow> bool" where
  start: "player_reachable cfg p0 p0"
| step: "player_reachable cfg p0 p \<Longrightarrow> player_step cfg p e p' \<Longrightarrow> player_reachable cfg p0 p'"

text \<open>The player is inside the room, \<open>size / 2\<close> away from every wall.\<close>

definition in_room :: "config \<Rightarrow> player \<Rightarrow> bool" where
  "in_room cfg p \<longleftrightarrow>
     of_int (psize p) / 2 \<le> px p \<and> px p \<le> room_w cfg - of_int (psize p) / 2 \<and>
     of_int (psize p) / 2 \<le> py p \<and> py p \<le> room_h cfg - of_int (psize p) / 2"

subsection \<open>Lemmas\<close>

lemma dist2_nonneg: "0 \<le> dist2 p b"
  by (simp add: dist2_def)

lemma foldl_nearby:
  "0 \<le> c \<Longrightarrow> foldl (nearby_step_ref p) (sqrt (of_rat c), i) bs =
     (sqrt (of_rat (fst (foldl (nearby_step p) (c, i) bs))), snd (foldl (nearby_step p) (c, i) bs))"
proof (induction bs arbitrary: c i)
  case (Cons b bs)
  show ?case
  proof (cases "dist2 p b < c")
    case True
    then show ?thesis using Cons.IH [OF dist2_nonneg [of p b]] Cons.prems
      by (simp add: nearby_step_ref_def nearby_step_def of_rat_less dist2_nonneg)
  next
    case False
    then show ?thesis using Cons.IH [OF Cons.prems] Cons.prems
      by (simp add: nearby_step_ref_def nearby_step_def of_rat_less dist2_nonneg)
  qed
qed simp

lemma step_axis_bounds:
  "pad \<le> v \<Longrightarrow> v \<le> e - pad \<Longrightarrow> pad \<le> step_axis v d pad e \<and> step_axis v d pad e \<le> e - pad"
  by (simp add: step_axis_def Let_def)

lemma handleKey_pos [simp]:
  "px (handleKeyDown p k) = px p" "py (handleKeyDown p k) = py p" "psize (handleKeyDown p k) = psize p"
  "px (handleKeyUp p k) = px p" "py (handleKeyUp p k) = py p" "psize (handleKeyUp p k) = psize p"
  by (simp_all add: handleKeyDown_def handleKeyUp_def Let_def)

lemma player_update_pos:
  "player_update cfg p ri ls = Some (p', ls') \<Longrightarrow>
     px p' = step_axis (px p) (of_int (move_delta (moveLeft p) (moveRight p) (speed p))) (of_int (psize p) / 2) (room_w cfg)
   \<and> py p' = step_axis (py p) (of_int (move_delta (moveUp p) (moveDown p) (speed p))) (of_int (psize p) / 2) (room_h cfg)
   \<and> psize p' = psize p"
  by (auto simp: player_update_def Let_def checkForRoomExits_def checkForNearbyBooks_def split: option.splits)

lemma player_update_in_room:
  assumes "player_update cfg p ri ls = Some (p', ls')" and "in_room cfg p"
  shows "in_room cfg p'"
proof -
  let ?pad = "of_int (psize p) / 2 :: rat"
  have "?pad \<le> px p \<and> px p \<le> room_w cfg - ?pad" "?pad \<le> py p \<and> py p \<le> room_h cfg - ?pad"
    using assms(2) by (simp_all add: in_room_def)
  then show ?thesis
    using player_update_pos [OF assms(1)]
      step_axis_bounds [of ?pad "px p" "room_w cfg" "of_int (move_delta (moveLeft p) (moveRight p) (speed p))"]
      step_axis_bounds [of ?pad "py p" "room_h cfg" "of_int (move_delta (moveUp p) (moveDown p) (speed p))"]
    by (simp add: in_room_def)
qed

lemma loadPlayerPosition_saved:
  "loadPlayerPosition s (savePlayerPosition s x y rx ry ls) =
     Inr (JObj [(js ''x'', JNum x), (js ''y'', JNum y), (js ''roomX'', JNum rx), (js ''roomY'', JNum ry)])"
  by (simp add: loadPlayerPosition_def savePlayerPosition_def parse_stored_def JSON_parse_print json_members_id js_def del: json_print.simps)

lemma player_update_saves:
  assumes "player_update cfg p ri ls = Some (p', ls')"
  shows "ls' = savePlayerPosition (p_save p) (floor (px p')) (floor (py p')) (ri_roomX ri) (ri_roomY ri) ls
         \<and> of_int (floor (px p')) = px p' \<and> of_int (floor (py p')) = py p' \<and> p_save p' = p_save p"
  using assms
  by (auto simp: player_update_def Let_def checkForRoomExits_def checkForNearbyBooks_def rat_int_def
           split: option.splits if_splits)

subsection \<open>Properties of the player\<close>


text \<open>
  C23: Whatever keys are pressed or released and however many frames run, a player that
  starts inside the padded room (half its size from every wall) stays inside it.
\<close>

theorem player_stays_in_room:
  assumes "player_reachable cfg p0 p" and "in_room cfg p0"
  shows "in_room cfg p"
  using assms
proof (induction rule: player_reachable.induct)
  case (step cfg p0 p e p')
  from step.hyps(2) step.IH [OF step.prems] show ?case
    by (cases rule: player_step.cases) (auto simp: in_room_def dest: player_update_in_room)
qed simp

text \<open>
  Releasing a key undoes pressing it: the movement flags after a press and a release
  of the same key are those after the release alone.
\<close>

theorem key_release_after_press: "handleKeyUp (handleKeyDown p k) k = handleKeyUp p k"
  by (simp add: handleKeyDown_def handleKeyUp_def Let_def)

text \<open>
  C25: The position a frame's \<open>update\<close> saves is the position a new player restores
  in \<open>initialize\<close>: reloading the page puts the player where it was.
\<close>

theorem position_restored:
  assumes "player_update cfg p ri ls = Some (p', ls')" and "p_save p = new_SaveSystem"
  shows "player_initialize (new_Player cfg n d) ls' = Some (Inr ((new_Player cfg n d)\<lparr>px := px p', py := py p'\<rparr>))"
proof -
  have s: "p_save (new_Player cfg n d) = p_save p" using assms(2) by (simp add: new_Player_def)
  from player_update_saves [OF assms(1)] show ?thesis
    by (auto simp: player_initialize_def s loadPlayerPosition_saved js_def)
qed

lemma sample_update:
  "player_update sample_cfg (handleKeyDown (new_Player sample_cfg JNull JNull) (js ''w''))
      (getRoomInfo sample_cfg new_Library) Map.empty \<noteq> None"
  by (simp add: player_update_def new_Player_def handleKeyDown_def Let_def js_def sample_cfg_def CONFIG_def
      room_w_def room_h_def move_delta_def step_axis_def checkForRoomExits_def checkForNearbyBooks_def
      rat_int_def js_lower_def)

theorem player_stays_in_room_witness:
  "in_room sample_cfg (fst (the (player_update sample_cfg (handleKeyDown (new_Player sample_cfg JNull JNull) (js ''w''))
      (getRoomInfo sample_cfg new_Library) Map.empty)))"
proof -
  obtain p' ls' where u: "player_update sample_cfg (handleKeyDown (new_Player sample_cfg JNull JNull) (js ''w''))
      (getRoomInfo sample_cfg new_Library) Map.empty = Some (p', ls')"
    using sample_update by auto
  have r: "player_reachable sample_cfg (new_Player sample_cfg JNull JNull) p'"
    by (rule player_reachable.step [OF player_reachable.step [OF player_reachable.start player_step.down]
          player_step.upd [OF u]])
  have "in_room sample_cfg (new_Player sample_cfg JNull JNull)"
    by (simp add: in_room_def new_Player_def sample_cfg_def CONFIG_def room_w_def room_h_def)
  with player_stays_in_room [OF r] u show ?thesis by simp
qed

theorem position_restored_witness:
  "\<exists>p' ls'. player_update sample_cfg (handleKeyDown (new_Player sample_cfg JNull JNull) (js ''w''))
      (getRoomInfo sample_cfg new_Library) Map.empty = Some (p', ls')
    \<and> player_initialize (new_Player sample_cfg JNull JNull) ls' =
        Some (Inr ((new_Player sample_cfg JNull JNull)\<lparr>px := px p', py := py p'\<rparr>))"
proof -
  obtain p' ls' where u: "player_update sample_cfg (handleKeyDown (new_Player sample_cfg JNull JNull) (js ''w''))
      (getRoomInfo sample_cfg new_Library) Map.empty = Some (p', ls')"
    using sample_update by auto
  have "p_save (handleKeyDown (new_Player sample_cfg JNull JNull) (js ''w'')) = new_SaveSystem"
    by (simp add: handleKeyDown_def new_Player_def Let_def)
  with position_restored [OF u] u show ?thesis by blast
qed

end
