(* ===== verification/Game.thy ===== *)
theory Game
  imports Player
begin

text \<open>
  The game controller: class \<open>Game\<close> of src/src/js/game.js; its canvas and rendering
  code are theory \<open>Render\<close>. The state is the record of the fields the logic uses: the library, the
  player (\<open>null\<close> until a character exists), and the controller's own \<open>APIHandler\<close>
  and \<open>SaveSystem\<close>. What the controller asks the user interface to show is returned as
  a list of events, in the order of the calls; the HTML of the dialogs is reduced to the
  data it displays.

  \<open>startGame\<close> starts \<open>library.initialize()\<close> without awaiting it, requests the story,
  then awaits the library. The model runs the library's initialization to its end and
  then the story request, each with its own browser environment. The two tasks use
  different \<open>APIHandler\<close> and \<open>SaveSystem\<close> instances; in the storage they share only
  \<open>babel_api_key\<close> and \<open>babel_use_mock_data\<close>.
\<close>

record game =
  g_library :: library
  g_player :: "player option"
  g_api :: api_handler
  g_save :: save_system
  isRunning :: bool
  lastTimestamp :: rat

definition new_Game :: game where
  "new_Game =
     \<lparr>g_library = new_Library, g_player = None, g_api = new_APIHandler, g_save = new_SaveSystem,
      isRunning = False, lastTimestamp = 0\<rparr>"

datatype ui_event =
    ShowCharacterCreation
  | ShowStoryDialog jsval
  | ShowFallbackStory jstr
  | ShowWaiting
  | OpenBook book
  | ShowCardCatalog jsval
  | ShowNotification jstr

type_synonym 'a game_res = "(js_exn + 'a) \<times> game \<times> lstore \<times> ui_event list"

text \<open>
  \<open>initialize\<close>: continue a saved character (the library, then the player, then the
  game loop), or ask for a new one. \<open>None\<close> where a component's initialisation leaves
  the model.
\<close>

definition game_initialize ::
  "config \<Rightarrow> browser_env \<Rightarrow> game \<Rightarrow> lstore \<Rightarrow> int \<Rightarrow> int \<Rightarrow> rat \<Rightarrow> unit game_res option" where
  "game_initialize cfg env G ls startX startY now =
     (case loadCharacter (g_save G) ls of
       Inl e \<Rightarrow> Some (Inl e, G, ls, [])
     | Inr c \<Rightarrow>
         if js_truthy c then
           (let p = new_Player cfg (js_get_prop c (js ''name'')) (js_get_prop c (js ''description''))
            in case lib_initialize cfg env (g_library G) ls startX startY of
                 None \<Rightarrow> None
               | Some (Inl e, L', ls') \<Rightarrow> Some (Inl e, G\<lparr>g_library := L', g_player := Some p\<rparr>, ls', [])
               | Some (Inr _, L', ls') \<Rightarrow>
                   (case player_initialize p ls' of
                     None \<Rightarrow> None
                   | Some (Inl e) \<Rightarrow> Some (Inl e, G\<lparr>g_library := L', g_player := Some p\<rparr>, ls', [])
                   | Some (Inr p') \<Rightarrow>
                       Some (Inr (), G\<lparr>g_library := L', g_player := Some p', isRunning := True,
                                        lastTimestamp := now\<rparr>, ls', [])))
         else Some (Inr (), G, ls, [ShowCharacterCreation]))"

text \<open>
  \<open>startGame\<close>. \<open>creationDate\<close> is the ISO string of the clock; the three random
  draws of \<open>saveCharacterStoryToLibrary\<close> are \<open>roomX\<close>, \<open>roomY\<close>, \<open>drawnIndex\<close>.
\<close>

definition character_data :: "jstr \<Rightarrow> jstr \<Rightarrow> jstr \<Rightarrow> jsval" where
  "character_data name description creationDate =
     JObj [(js ''name'', JStr name), (js ''description'', JStr description),
           (js ''creationDate'', JStr creationDate)]"

definition startGame ::
  "config \<Rightarrow> browser_env \<Rightarrow> browser_env \<Rightarrow> game \<Rightarrow> lstore \<Rightarrow> jstr \<Rightarrow> jstr \<Rightarrow> jstr \<Rightarrow>
   int \<Rightarrow> int \<Rightarrow> int \<Rightarrow> int \<Rightarrow> nat \<Rightarrow> unit game_res option" where
  "startGame cfg env_lib env_story G ls name description creationDate startX startY roomX roomY drawnIndex =
     (let p = new_Player cfg (JStr name) (JStr description);
          characterData = character_data name description creationDate;
          ls1 = saveCharacter (g_save G) characterData ls
      in case lib_initialize cfg env_lib (g_library G) ls1 startX startY of
           None \<Rightarrow> None
         | Some (lib_r, L', ls2) \<Rightarrow>
             (case generateCharacterStory cfg env_story (g_api G) ls2 name description of
               (story, h, ls3) \<Rightarrow>
                 (let G1 = G\<lparr>g_library := L', g_player := Some p, g_api := h\<rparr>
                  in case lib_r of
                       Inl e \<Rightarrow> Some (Inl e, G1, ls3, [ShowWaiting])
                     | Inr _ \<Rightarrow>
                         (case player_initialize p ls3 of
                           None \<Rightarrow> None
                         | Some (Inl e) \<Rightarrow> Some (Inl e, G1, ls3, [ShowWaiting])
                         | Some (Inr p') \<Rightarrow>
                             (let G2 = G1\<lparr>g_player := Some p'\<rparr>
                              in if js_truthy story then
                                   (case saveCharacterStoryToLibrary (g_save G) characterData (js_to_string story)
                                           roomX roomY drawnIndex ls3 of
                                     (r, s', ls4) \<Rightarrow>
                                       Some (case r of Inl e \<Rightarrow> Inl e | Inr _ \<Rightarrow> Inr (),
                                             G2\<lparr>g_save := s'\<rparr>, ls4, [ShowWaiting, ShowStoryDialog story]))
                                 else Some (Inr (), G2, ls3, [ShowWaiting, ShowFallbackStory name]))))))"

definition startGameLoop :: "game \<Rightarrow> rat \<Rightarrow> game" where
  "startGameLoop G now = G\<lparr>isRunning := True, lastTimestamp := now\<rparr>"

text \<open>\<open>update\<close> and one frame of \<open>gameLoop\<close>; its drawing is \<open>frame\<close> of theory \<open>Render\<close>.\<close>

definition game_update :: "config \<Rightarrow> game \<Rightarrow> lstore \<Rightarrow> (game \<times> lstore) option" where
  "game_update cfg G ls =
     (case g_player G of
       None \<Rightarrow> Some (G, ls)
     | Some p \<Rightarrow>
         (case player_update cfg p (getRoomInfo cfg (g_library G)) ls of
           None \<Rightarrow> None
         | Some (p', ls') \<Rightarrow> Some (G\<lparr>g_player := Some p'\<rparr>, ls')))"

definition gameLoop :: "config \<Rightarrow> game \<Rightarrow> lstore \<Rightarrow> rat \<Rightarrow> (game \<times> lstore) option" where
  "gameLoop cfg G ls timestamp =
     (let G1 = G\<lparr>lastTimestamp := timestamp\<rparr>
      in if isRunning G1 then game_update cfg G1 ls else Some (G1, ls))"

text \<open>\<open>useExit\<close>: the entrance opposite the exit taken, and the notification.\<close>

definition entrance :: "config \<Rightarrow> jstr \<Rightarrow> (rat \<times> rat) option" where
  "entrance cfg direction =
     (if direction = js ''north'' then Some (room_w cfg / 2, room_h cfg - 40)
      else if direction = js ''south'' then Some (room_w cfg / 2, 40)
      else if direction = js ''east'' then Some (40, room_h cfg / 2)
      else if direction = js ''west'' then Some (room_w cfg - 40, room_h cfg / 2)
      else None)"

definition entered_message :: "library \<Rightarrow> jstr" where
  "entered_message L =
     js ''Entered room ('' @ js_of_int (currentRoomX L) @ js '', '' @ js_of_int (currentRoomY L) @ js '')''"

text \<open>
  What \<open>useExit\<close> does once \<open>moveToRoom\<close> has answered (lines 362 to 387): it reads the
  player and the current room as they are then.
\<close>

definition exit_arrival :: "config \<Rightarrow> game \<Rightarrow> jstr \<Rightarrow> bool lib_res \<Rightarrow> unit game_res" where
  "exit_arrival cfg G direction r =
     (case r of
       (Inl e, L', ls') \<Rightarrow> (Inl e, G\<lparr>g_library := L'\<rparr>, ls', [])
     | (Inr False, L', ls') \<Rightarrow>
         (Inr (), G\<lparr>g_library := L'\<rparr>, ls', [ShowNotification (js ''You cannot go further in that direction.'')])
     | (Inr True, L', ls') \<Rightarrow>
         (let G1 = G\<lparr>g_library := L'\<rparr>
          in case entrance cfg direction of
               None \<Rightarrow> (Inr (), G1, ls', [ShowNotification (entered_message L')])
             | Some (x, y) \<Rightarrow>
                 (case g_player G of
                   None \<Rightarrow> (Inl TypeError, G1, ls', [])
                 | Some p \<Rightarrow>
                     (Inr (), G1\<lparr>g_player := Some (p\<lparr>px := x, py := y\<rparr>)\<rparr>, ls',
                      [ShowNotification (entered_message L')]))))"

definition useExit :: "config \<Rightarrow> browser_env \<Rightarrow> game \<Rightarrow> lstore \<Rightarrow> jstr \<Rightarrow> unit game_res" where
  "useExit cfg env G ls direction = exit_arrival cfg G direction (moveToRoom cfg env (g_library G) ls direction)"

text \<open>
  \<open>handleInteraction\<close>: a nearby book first, then the card catalog, then an exit.
  \<open>books[i]\<close> at a non-integral index is \<open>undefined\<close>, hence no book. \<open>useExit\<close> is
  awaited by nobody; the model runs it to its end.
\<close>

datatype interaction = Interact_Book int book | Interact_Catalog jsval | Interact_Exit jstr | Interact_None

definition interaction_target :: "game \<Rightarrow> interaction" where
  "interaction_target G =
     (case g_player G of
       None \<Rightarrow> Interact_None
     | Some p \<Rightarrow>
         (let bookSel = (if nearbyBookIndex p \<ge> 0 then
                           (case rat_int (nearbyBookIndex p) of
                             Some i \<Rightarrow> map_option (Pair i) (getBook (g_library G) i)
                           | None \<Rightarrow> None)
                         else None)
          in case bookSel of
               Some (i, b) \<Rightarrow> Interact_Book i b
             | None \<Rightarrow>
                 if isAtCardCatalog p then Interact_Catalog (cardCatalog (g_library G))
                 else (case isAtExit p of Some d \<Rightarrow> Interact_Exit d | None \<Rightarrow> Interact_None)))"

definition handleInteraction :: "config \<Rightarrow> browser_env \<Rightarrow> game \<Rightarrow> lstore \<Rightarrow> unit game_res" where
  "handleInteraction cfg env G ls =
     (case interaction_target G of
       Interact_Book i b \<Rightarrow> (Inr (), G, ls, [OpenBook b])
     | Interact_Catalog c \<Rightarrow> (Inr (), G, ls, [ShowCardCatalog c])
     | Interact_Exit d \<Rightarrow> useExit cfg env G ls d
     | Interact_None \<Rightarrow> (Inr (), G, ls, []))"

definition game_handleKeyDown :: "config \<Rightarrow> browser_env \<Rightarrow> game \<Rightarrow> lstore \<Rightarrow> jstr \<Rightarrow> unit game_res" where
  "game_handleKeyDown cfg env G ls key =
     (case g_player G of
       None \<Rightarrow> (Inr (), G, ls, [])
     | Some p \<Rightarrow>
         (let G1 = G\<lparr>g_player := Some (handleKeyDown p key)\<rparr>
          in if js_lower key = js ''e'' then handleInteraction cfg env G1 ls else (Inr (), G1, ls, [])))"

definition game_handleKeyUp :: "game \<Rightarrow> jstr \<Rightarrow> game" where
  "game_handleKeyUp G key =
     (case g_player G of None \<Rightarrow> G | Some p \<Rightarrow> G\<lparr>g_player := Some (handleKeyUp p key)\<rparr>)"

text \<open>A sample game: a new controller whose player has been created.\<close>

definition sample_game :: game where
  "sample_game = new_Game\<lparr>g_player := Some (new_Player sample_cfg JNull JNull)\<rparr>"

subsection \<open>Lemmas\<close>

lemma game_res_Inr:
  "\<not> isl (fst R) \<Longrightarrow> \<exists>G' ls' evs. R = (Inr (), G', ls', evs)"
  by (cases R, rename_tac r G' ls' evs, case_tac r) auto

lemma startGame_library:
  "startGame cfg env_lib env_story G ls name description date sx sy rx ry k = Some (Inr u, G', ls', evs) \<Longrightarrow>
   \<exists>ls1 ls2. lib_initialize cfg env_lib (g_library G) ls1 sx sy = Some (Inr (), g_library G', ls2)"
  by (auto simp: startGame_def Let_def split: option.splits prod.splits sum.splits if_splits) blast+

lemma game_update_player:
  assumes "game_update cfg G ls = Some (G', ls')" and "g_player G = Some p"
  shows "\<exists>p'. player_update cfg p (getRoomInfo cfg (g_library G)) ls = Some (p', ls') \<and> g_player G' = Some p'"
  using assms by (auto simp: game_update_def split: option.splits)

lemma handleKeyDown_e: "handleKeyDown p (js ''E'') = p"
  by (simp add: handleKeyDown_def js_lower_def js_def)

subsection \<open>Properties of the controller\<close>

text \<open>
  C26: After \<open>startGame\<close> succeeds, the session's library answers every later visit to the
  starting room from its own cache, with the catalog it loaded at the start, whatever the
  storage holds then: a catalog written to the store later (by the story embedding of
  another instance, or by a reset) is not seen by this session.
\<close>

theorem session_keeps_old_catalog:
  assumes "startGame cfg env_lib env_story G ls name description date sx sy rx ry k = Some (Inr (), G', ls', evs)"
  shows "fst (loadRoom cfg env (g_library G') ls2 (currentRoomX (g_library G')) (currentRoomY (g_library G'))) =
           catalog_books (cardCatalog (g_library G')) (currentRoomX (g_library G')) (currentRoomY (g_library G'))"
proof -
  obtain ls1 ls3 where "lib_initialize cfg env_lib (g_library G) ls1 sx sy = Some (Inr (), g_library G', ls3)"
    using startGame_library [OF assms] by blast
  then obtain x y bs where run: "loadRoom cfg env_lib (g_library G) ls1 x y = (Inr bs, g_library G', ls3)"
    using lib_initialize_Inr by blast
  have cur: "currentRoomX (g_library G') = clamp_coord (width (librarySize cfg)) x"
            "currentRoomY (g_library G') = clamp_coord (height (librarySize cfg)) y"
    using loadRoom_current [of cfg env_lib "g_library G" ls1 x y] run by simp_all
  show ?thesis
    using loadRoom_caches [OF run] cur
    by (intro loadRoom_cached) (simp_all add: clamp_coord_idem)
qed

text \<open>
  C27: Taking an exit into a room of the grid moves the library to the neighbouring room,
  puts the player at the entrance opposite the exit taken, and shows one notification.
\<close>

theorem useExit_enters_opposite:
  assumes "g_player G = Some p" and "move_target (g_library G) d = (nx, ny)" and "in_grid cfg nx ny"
    and "entrance cfg d = Some (ex, ey)" and "useExit cfg env G ls d = (Inr (), G', ls', evs)"
  shows "currentRoomX (g_library G') = nx \<and> currentRoomY (g_library G') = ny
         \<and> g_player G' = Some (p\<lparr>px := ex, py := ey\<rparr>)
         \<and> evs = [ShowNotification (entered_message (g_library G'))]"
proof -
  have c: "clamp_coord (width (librarySize cfg)) nx = nx" "clamp_coord (height (librarySize cfg)) ny = ny"
    using assms(3) by (simp_all add: in_grid_def clamp_coord_id)
  obtain r L' ls2 where l: "loadRoom cfg env (g_library G) ls nx ny = (r, L', ls2)"
    by (cases "loadRoom cfg env (g_library G) ls nx ny") auto
  have cur: "currentRoomX L' = nx" "currentRoomY L' = ny"
    using loadRoom_current [of cfg env "g_library G" ls nx ny] l c by simp_all
  show ?thesis
    using assms(5) cur
    by (cases r) (auto simp: useExit_def exit_arrival_def moveToRoom_inside [OF assms(2,3)] l assms(1,4))
qed


text \<open>
  C29: Pressing E with no book in reach and away from the card catalog, at an exit, takes
  that exit: the key handler's whole effect is \<open>useExit\<close> in the exit's direction.
\<close>

theorem interaction_takes_exit:
  assumes "g_player G = Some p" and "nearbyBookIndex p < 0" and "\<not> isAtCardCatalog p"
    and "isAtExit p = Some d"
  shows "game_handleKeyDown cfg env G ls (js ''E'') = useExit cfg env G ls d"
proof -
  have g: "G\<lparr>g_player := Some p\<rparr> = G" using assms(1) by simp
  have e: "js_lower (js ''E'') = js ''e''" by (simp add: js_lower_def js_def)
  show ?thesis
    using assms by (simp add: game_handleKeyDown_def handleInteraction_def interaction_target_def handleKeyDown_e g e)
qed

theorem session_keeps_old_catalog_witness:
  "\<exists>G' ls' evs.
     startGame sample_cfg env_titles env_titles new_Game sample_store (js ''Ann'') (js ''scribe'') (js ''2024'')
       0 0 3 4 2 = Some (Inr (), G', ls', evs)
   \<and> fst (loadRoom sample_cfg env_no_key (g_library G') Map.empty (currentRoomX (g_library G')) (currentRoomY (g_library G')))
       = catalog_books (cardCatalog (g_library G')) (currentRoomX (g_library G')) (currentRoomY (g_library G'))"
proof -
  have "startGame sample_cfg env_titles env_titles new_Game sample_store (js ''Ann'') (js ''scribe'') (js ''2024'')
          0 0 3 4 2 \<noteq> None"
    by code_simp
  moreover have "\<not> isl (fst (the (startGame sample_cfg env_titles env_titles new_Game sample_store (js ''Ann'')
          (js ''scribe'') (js ''2024'') 0 0 3 4 2)))"
    by code_simp
  ultimately obtain G' ls' evs where run:
    "startGame sample_cfg env_titles env_titles new_Game sample_store (js ''Ann'') (js ''scribe'') (js ''2024'')
       0 0 3 4 2 = Some (Inr (), G', ls', evs)"
    using game_res_Inr by fastforce
  show ?thesis using session_keeps_old_catalog [OF run] run by blast
qed

theorem useExit_enters_opposite_witness:
  "\<exists>G' ls' evs. useExit sample_cfg env_titles sample_game sample_store (js ''east'') = (Inr (), G', ls', evs)
     \<and> currentRoomX (g_library G') = 1 \<and> currentRoomY (g_library G') = 0
     \<and> g_player G' = Some ((new_Player sample_cfg JNull JNull)\<lparr>px := 40, py := 300\<rparr>)
     \<and> evs = [ShowNotification (entered_message (g_library G'))]"
proof -
  have "\<not> isl (fst (useExit sample_cfg env_titles sample_game sample_store (js ''east'')))"
    by code_simp
  then obtain G' ls' evs where run: "useExit sample_cfg env_titles sample_game sample_store (js ''east'') = (Inr (), G', ls', evs)"
    using game_res_Inr by blast
  have p: "g_player sample_game = Some (new_Player sample_cfg JNull JNull)"
    by (simp add: sample_game_def)
  have m: "move_target (g_library sample_game) (js ''east'') = (1, 0)"
    by (simp add: move_target_def sample_game_def new_Game_def new_Library_def js_def)
  have g: "in_grid sample_cfg 1 0" by (simp add: in_grid_def sample_cfg_def CONFIG_def)
  have e: "entrance sample_cfg (js ''east'') = Some (40, 300)"
    by (simp add: entrance_def sample_cfg_def CONFIG_def room_h_def js_def)
  show ?thesis using useExit_enters_opposite [OF p m g e run] run by blast
qed


theorem interaction_takes_exit_witness:
  "game_handleKeyDown sample_cfg env_titles
     (sample_game\<lparr>g_player := Some ((new_Player sample_cfg JNull JNull)\<lparr>isAtExit := Some (js ''east'')\<rparr>)\<rparr>)
     sample_store (js ''E'')
   = useExit sample_cfg env_titles
       (sample_game\<lparr>g_player := Some ((new_Player sample_cfg JNull JNull)\<lparr>isAtExit := Some (js ''east'')\<rparr>)\<rparr>)
       sample_store (js ''east'')"
proof (rule interaction_takes_exit)
  show "g_player (sample_game\<lparr>g_player := Some ((new_Player sample_cfg JNull JNull)\<lparr>isAtExit := Some (js ''east'')\<rparr>)\<rparr>)
      = Some ((new_Player sample_cfg JNull JNull)\<lparr>isAtExit := Some (js ''east'')\<rparr>)" by simp
qed (simp_all add: new_Player_def)

end
