(* ===== verification/Ui.thy ===== *)
theory Ui
  imports Game
begin

text \<open>
  The user interface: class \<open>UIHandler\<close> of src/src/js/ui.js, reduced to the state its
  methods change. The DOM elements are the fields they set: which containers are hidden,
  what the dialog and the book page show, the page number, the last notification,
  whether it shows and the timers set to hide it, the messages of \<open>alert\<close>. HTML is reduced to the data it displays. The book on display is
  a reference to a \<open>Book\<close> object, which lives in the heap of the session model
  (theory \<open>Session\<close>): the library's \<open>books\<close> array and \<open>currentBook\<close> share those
  objects. The initial classes of the containers come from the page's markup, which is
  not part of the sources; the model starts with every container hidden.
\<close>

datatype dialog_view =
    NoDialog
  | WaitingView
  | StoryView jsval
  | FallbackView jstr
  | CatalogView int int jsval

datatype page_view = PageLoading | PageTurning | PageBlank | PageShown jsval

record ui =
  currentBook :: "nat option"
  bookHidden :: bool
  dialogHidden :: bool
  storyDialogShowing :: bool
  creationShown :: bool
  dialog :: dialog_view
  bookView :: page_view
  pageNumber :: int
  notification :: "jstr option"
  notificationShown :: bool
  notificationTimers :: nat
  alerts :: "jstr list"

definition new_UIHandler :: ui where
  "new_UIHandler =
     \<lparr>currentBook = None, bookHidden = True, dialogHidden = True, storyDialogShowing = False,
      creationShown = False, dialog = NoDialog, bookView = PageBlank, pageNumber = 1,
      notification = None, notificationShown = False, notificationTimers = 0, alerts = []\<rparr>"

definition showCharacterCreation :: "ui \<Rightarrow> ui" where
  "showCharacterCreation U = U\<lparr>creationShown := True\<rparr>"

definition hideCharacterCreation :: "ui \<Rightarrow> ui" where
  "hideCharacterCreation U = U\<lparr>creationShown := False\<rparr>"

text \<open>\<open>submitCharacterInfo\<close>, lines 84 to 97: the trimmed inputs, or the alert shown.\<close>

definition character_inputs :: "jstr \<Rightarrow> jstr \<Rightarrow> jstr + jstr \<times> jstr" where
  "character_inputs nameInput descInput =
     (let name = js_trim nameInput; description = js_trim descInput
      in if name = [] then Inl (js ''Please enter your name.'')
         else if description = [] then Inl (js ''Please enter a character description.'')
         else Inr (name, description))"

definition showStoryDialog :: "ui \<Rightarrow> dialog_view \<Rightarrow> ui" where
  "showStoryDialog U content = U\<lparr>storyDialogShowing := True, dialog := content, dialogHidden := False\<rparr>"

definition hideDialog :: "ui \<Rightarrow> ui" where
  "hideDialog U = U\<lparr>dialogHidden := True\<rparr>"

text \<open>
  \<open>openBook\<close>, lines 126 to 139: the synchronous part, before the page is asked for;
  \<open>page\<close> is the book's \<open>currentPage\<close>.
\<close>

definition ui_openBook :: "ui \<Rightarrow> nat \<Rightarrow> int \<Rightarrow> ui" where
  "ui_openBook U r page =
     U\<lparr>currentBook := Some r, pageNumber := page, bookHidden := False, bookView := PageLoading\<rparr>"

text \<open>\<open>content || '<p>This page appears to be blank.</p>'\<close>\<close>

definition page_shown :: "jsval \<Rightarrow> page_view" where
  "page_shown c = (if js_truthy c then PageShown c else PageBlank)"

definition closeBook :: "ui \<Rightarrow> ui" where
  "closeBook U = U\<lparr>bookHidden := True, currentBook := None\<rparr>"

text \<open>\<open>showCardCatalog\<close>: the catalog of the current room, shown with \<open>showStoryDialog\<close>.\<close>

definition showCardCatalog :: "ui \<Rightarrow> library \<Rightarrow> jsval \<Rightarrow> ui" where
  "showCardCatalog U L catalog = showStoryDialog U (CatalogView (currentRoomX L) (currentRoomY L) catalog)"

text \<open>
  \<open>showNotification\<close>, lines 207 to 231: one notification element, created on the first
  call, shows the message, and a timer of \<open>duration\<close> (3000 ms at every call) is set
  to hide it. The timers have the same delay and fire in the order they were set, so
  the pending ones are a count.
\<close>

definition showNotification :: "ui \<Rightarrow> jstr \<Rightarrow> ui" where
  "showNotification U message =
     U\<lparr>notification := Some message, notificationShown := True,
       notificationTimers := Suc (notificationTimers U)\<rparr>"

text \<open>
  The callback of the oldest pending timer (lines 228 to 230): it hides the element,
  whatever message the element shows by then.
\<close>

definition notification_timeout :: "ui \<Rightarrow> ui" where
  "notification_timeout U = U\<lparr>notificationShown := False, notificationTimers := notificationTimers U - 1\<rparr>"

text \<open>
  What the game asks the interface to show, as the calls of game.js do it. Books are
  opened by the session model, which knows the objects; the event \<open>OpenBook\<close> of the
  sequential model of \<open>handleInteraction\<close> is not sent to the interface.
\<close>

primrec show_event :: "library \<Rightarrow> ui \<Rightarrow> ui_event \<Rightarrow> ui" where
  "show_event L U ShowCharacterCreation = showCharacterCreation U"
| "show_event L U (ShowStoryDialog story) = showStoryDialog U (StoryView story)"
| "show_event L U (ShowFallbackStory name) = showStoryDialog U (FallbackView name)"
| "show_event L U ShowWaiting = showStoryDialog U WaitingView"
| "show_event L U (OpenBook b) = U"
| "show_event L U (ShowCardCatalog c) = showCardCatalog U L c"
| "show_event L U (ShowNotification m) = showNotification U m"

definition show_events :: "library \<Rightarrow> ui \<Rightarrow> ui_event list \<Rightarrow> ui" where
  "show_events L U evs = foldl (show_event L) U evs"

subsection \<open>Notifications\<close>

text \<open>
  Two notifications within three seconds: the timer of the first fires while the second
  message shows and hides it, its own timer still pending; the second message is shown for
  less than its three seconds.
\<close>

lemma earlier_timer_hides_later:
  "notification (notification_timeout (showNotification (showNotification U m1) m2)) = Some m2
   \<and> \<not> notificationShown (notification_timeout (showNotification (showNotification U m1) m2))
   \<and> notificationTimers (notification_timeout (showNotification (showNotification U m1) m2))
       = Suc (notificationTimers U)"
  by (simp add: showNotification_def notification_timeout_def)

end
