(* ===== verification/Render.thy ===== *)
theory Render
  imports Game
begin

text \<open>
  The canvas: \<open>resizeCanvas\<close> and the render methods of src/src/js/game.js
  (\<open>render\<close>, \<open>renderBookshelves\<close>, \<open>renderExits\<close>, \<open>renderCardCatalog\<close>,
  \<open>renderRoomInfo\<close>), \<open>Player.render\<close> of src/src/js/player.js, and the frame of
  \<open>gameLoop\<close> with its drawing and its request for the next frame.

  The 2D context is a record of the style state the code sets (\<open>fillStyle\<close>,
  \<open>strokeStyle\<close>, \<open>lineWidth\<close>, \<open>font\<close>, \<open>textAlign\<close>), the canvas size, and the
  shapes painted so far, in order. A \<open>beginPath\<close>, \<open>moveTo\<close>, \<open>lineTo\<close>,
  \<open>stroke\<close> sequence is one \<open>Line\<close>, a \<open>beginPath\<close>, \<open>arc\<close> over the full circle,
  \<open>fill\<close> sequence one \<open>Disc\<close>; each shape records the style it was drawn with.
  Coordinates are rationals, as the player's position. Setting the canvas size resets the
  context to its defaults and clears the bitmap, as the HTML canvas does.

  Indexing the card catalog with a book index that is not an integer on an object catalog
  would need the decimal printing of the rational; that case is outside the model
  (\<open>None\<close>), as is \<open>title.length > 25\<close> where \<open>length\<close> is not a number.
\<close>

datatype paint =
    Rect jstr rat rat rat rat
  | Line jstr int rat rat rat rat
  | Disc jstr rat rat rat
  | Text jstr jstr jstr jstr rat rat

record canvas =
  canvasWidth :: int
  canvasHeight :: int
  fillStyle :: jstr
  strokeStyle :: jstr
  lineWidth :: int
  font :: jstr
  textAlign :: jstr
  painted :: "paint list"

text \<open>A context of the given size in its initial state, with an empty bitmap.\<close>

definition new_canvas :: "int \<Rightarrow> int \<Rightarrow> canvas" where
  "new_canvas w h =
     \<lparr>canvasWidth = w, canvasHeight = h, fillStyle = js ''#000000'', strokeStyle = js ''#000000'',
      lineWidth = 1, font = js ''10px sans-serif'', textAlign = js ''start'', painted = []\<rparr>"

definition fillRect :: "canvas \<Rightarrow> rat \<Rightarrow> rat \<Rightarrow> rat \<Rightarrow> rat \<Rightarrow> canvas" where
  "fillRect c x y w h = c\<lparr>painted := painted c @ [Rect (fillStyle c) x y w h]\<rparr>"

definition strokeLine :: "canvas \<Rightarrow> rat \<Rightarrow> rat \<Rightarrow> rat \<Rightarrow> rat \<Rightarrow> canvas" where
  "strokeLine c x0 y0 x1 y1 = c\<lparr>painted := painted c @ [Line (strokeStyle c) (lineWidth c) x0 y0 x1 y1]\<rparr>"

definition fillCircle :: "canvas \<Rightarrow> rat \<Rightarrow> rat \<Rightarrow> rat \<Rightarrow> canvas" where
  "fillCircle c x y r = c\<lparr>painted := painted c @ [Disc (fillStyle c) x y r]\<rparr>"

definition fillText :: "canvas \<Rightarrow> jstr \<Rightarrow> rat \<Rightarrow> rat \<Rightarrow> canvas" where
  "fillText c t x y = c\<lparr>painted := painted c @ [Text (fillStyle c) (font c) (textAlign c) t x y]\<rparr>"

definition text_style :: "canvas \<Rightarrow> jstr \<Rightarrow> jstr \<Rightarrow> jstr \<Rightarrow> canvas" where
  "text_style c colour f align = c\<lparr>fillStyle := colour, font := f, textAlign := align\<rparr>"

text \<open>
  \<open>resizeCanvas\<close>: the canvas takes the container's size, and \<open>CONFIG.roomSize\<close> is
  overwritten with it; every later use of the room size (the player's walls, exits,
  entrances and the shelf layout) sees the new value.
\<close>

definition resizeCanvas :: "config \<Rightarrow> int \<Rightarrow> int \<Rightarrow> config \<times> canvas" where
  "resizeCanvas cfg clientWidth clientHeight =
     (cfg\<lparr>roomSize := \<lparr>width = clientWidth, height = clientHeight\<rparr>\<rparr>, new_canvas clientWidth clientHeight)"

subsection \<open>The book under the player\<close>

text \<open>
  \<open>roomInfo.cardCatalog[book.index]\<close>: an array or a string answers an integer index
  inside it, an object the member named by the index; other keys are \<open>undefined\<close>, and
  indexing \<open>null\<close> or \<open>undefined\<close> throws.
\<close>

fun js_index :: "jsval \<Rightarrow> rat \<Rightarrow> (js_exn + jsval) option" where
  "js_index JUndef i = Some (Inl TypeError)"
| "js_index JNull i = Some (Inl TypeError)"
| "js_index (JArr vs) i =
     Some (Inr (case rat_int i of
                  Some k \<Rightarrow> if 0 \<le> k \<and> k < int (length vs) then vs ! nat k else JUndef
                | None \<Rightarrow> JUndef))"
| "js_index (JStr s) i =
     Some (Inr (case rat_int i of
                  Some k \<Rightarrow> if 0 \<le> k \<and> k < int (length s) then JStr [s ! nat k] else JUndef
                | None \<Rightarrow> JUndef))"
| "js_index (JObj kvs) i =
     (case rat_int i of Some k \<Rightarrow> Some (Inr (js_get_prop (JObj kvs) (js_of_int k))) | None \<Rightarrow> None)"
| "js_index (JBool b) i = Some (Inr JUndef)"
| "js_index (JNum n) i = Some (Inr JUndef)"

text \<open>\<open>title.length\<close>: strings and arrays have one, an object may have a member of that name.\<close>

fun title_length :: "jsval \<Rightarrow> js_exn + jsval" where
  "title_length JUndef = Inl TypeError"
| "title_length JNull = Inl TypeError"
| "title_length (JStr s) = Inr (JNum (int (length s)))"
| "title_length (JArr vs) = Inr (JNum (int (length vs)))"
| "title_length (JObj kvs) = Inr (js_get_prop (JObj kvs) (js ''length''))"
| "title_length _ = Inr JUndef"

text \<open>\<open>v > k\<close> for a number \<open>k\<close>; a string or an object on the left is not modelled.\<close>

fun js_gt :: "jsval \<Rightarrow> int \<Rightarrow> bool option" where
  "js_gt (JNum n) k = Some (k < n)"
| "js_gt JUndef k = Some False"
| "js_gt JNull k = Some (k < 0)"
| "js_gt (JBool b) k = Some (k < (if b then 1 else 0))"
| "js_gt _ k = None"

text \<open>
  Lines 228 to 239: the label of the highlighted book, shortened to 22 units and
  \<open>...\<close> when longer than 25; \<open>fillText\<close> prints it with \<open>String(title)\<close>. Only a
  string has \<open>substring\<close>: a long array or an object with a large \<open>length\<close> throws.
\<close>

definition book_title :: "jsval \<Rightarrow> (js_exn + jstr) option" where
  "book_title t =
     (case title_length t of
       Inl e \<Rightarrow> Some (Inl e)
     | Inr l \<Rightarrow>
         (case js_gt l 25 of
           None \<Rightarrow> None
         | Some False \<Rightarrow> Some (Inr (js_to_string t))
         | Some True \<Rightarrow>
             (case t of
               JStr s \<Rightarrow> Some (Inr (js_substring s 0 22 @ js ''...''))
             | _ \<Rightarrow> Some (Inl TypeError))))"

text \<open>One turn of \<open>bookPositions.forEach\<close>, lines 212 to 241.\<close>

definition draw_book :: "room_info \<Rightarrow> player \<Rightarrow> canvas \<Rightarrow> book_position \<Rightarrow> ((js_exn + unit) \<times> canvas) option" where
  "draw_book ri p c b =
     (let isHighlighted = (pos_index b = nearbyBookIndex p);
          c1 = fillRect (c\<lparr>fillStyle := if isHighlighted then js ''#d4af37'' else js ''#3a6ea5''\<rparr>)
                 (pos_x b - 10) (pos_y b - 20) 20 40
      in if \<not> isHighlighted then Some (Inr (), c1)
         else (case js_index (ri_cardCatalog ri) (pos_index b) of
                 None \<Rightarrow> None
               | Some (Inl e) \<Rightarrow> Some (Inl e, c1)
               | Some (Inr t) \<Rightarrow>
                   if \<not> js_truthy t then Some (Inr (), c1)
                   else (let c2 = text_style c1 (js ''#ffffff'') (js ''12px Arial'') (js ''center'')
                         in case book_title t of
                              None \<Rightarrow> None
                            | Some (Inl e) \<Rightarrow> Some (Inl e, c2)
                            | Some (Inr label) \<Rightarrow> Some (Inr (), fillText c2 label (pos_x b) (pos_y b + 30)))))"

text \<open>The \<open>forEach\<close>: an exception leaves the callback and the loop.\<close>

fun draw_books :: "room_info \<Rightarrow> player \<Rightarrow> canvas \<Rightarrow> book_position list \<Rightarrow> ((js_exn + unit) \<times> canvas) option" where
  "draw_books ri p c [] = Some (Inr (), c)"
| "draw_books ri p c (b # bs) =
     (case draw_book ri p c b of
       None \<Rightarrow> None
     | Some (Inl e, c') \<Rightarrow> Some (Inl e, c')
     | Some (Inr u, c') \<Rightarrow> draw_books ri p c' bs)"

subsection \<open>The room\<close>

text \<open>\<open>renderBookshelves\<close>, lines 167 to 242: the aisle lines, five shelf pairs per aisle, the books.\<close>

definition aisle_lines :: "config \<Rightarrow> rat \<Rightarrow> canvas \<Rightarrow> canvas" where
  "aisle_lines cfg aisleWidth c =
     foldl (\<lambda>c i. strokeLine c (of_nat i * aisleWidth) 0 (of_nat i * aisleWidth) (room_h cfg))
       c [0..<Suc (aislesPerRoom cfg)]"

definition shelf_pair :: "rat \<Rightarrow> nat \<Rightarrow> canvas \<Rightarrow> nat \<Rightarrow> canvas" where
  "shelf_pair aisleWidth aisle c shelf =
     (let aisleX = of_nat aisle * aisleWidth; shelfY = of_nat shelf * 120 + 100
      in fillRect (fillRect c (aisleX + 10) shelfY (aisleWidth / 2 - 20) 10)
           (aisleX + aisleWidth / 2 + 10) shelfY (aisleWidth / 2 - 20) 10)"

definition shelves :: "config \<Rightarrow> rat \<Rightarrow> canvas \<Rightarrow> canvas" where
  "shelves cfg aisleWidth c =
     foldl (\<lambda>c aisle. foldl (shelf_pair aisleWidth aisle) c [0..<5]) c [0..<aislesPerRoom cfg]"

definition renderBookshelves ::
  "config \<Rightarrow> room_info \<Rightarrow> player \<Rightarrow> canvas \<Rightarrow> ((js_exn + unit) \<times> canvas) option" where
  "renderBookshelves cfg ri p c =
     (let aisleWidth = room_w cfg / of_nat (aislesPerRoom cfg);
          c1 = aisle_lines cfg aisleWidth (c\<lparr>strokeStyle := js ''#6b5b3d'', lineWidth := 2\<rparr>);
          c2 = shelves cfg aisleWidth (c1\<lparr>fillStyle := js ''#8b4513''\<rparr>)
      in draw_books ri p c2 (bookPositions ri))"

text \<open>\<open>renderExits\<close>, lines 245 to 279: the four doors.\<close>

definition renderExits :: "config \<Rightarrow> canvas \<Rightarrow> canvas" where
  "renderExits cfg c =
     (let c1 = c\<lparr>fillStyle := js ''#444444''\<rparr>;
          c2 = fillRect c1 (room_w cfg / 2 - 30) 0 60 20;
          c3 = fillRect c2 (room_w cfg / 2 - 30) (room_h cfg - 20) 60 20;
          c4 = fillRect c3 (room_w cfg - 20) (room_h cfg / 2 - 30) 20 60
      in fillRect c4 0 (room_h cfg / 2 - 30) 20 60)"

text \<open>\<open>renderCardCatalog\<close>, lines 282 to 298.\<close>

definition renderCardCatalog :: "config \<Rightarrow> canvas \<Rightarrow> canvas" where
  "renderCardCatalog cfg c =
     (let c1 = fillRect (c\<lparr>fillStyle := js ''#d4af37''\<rparr>) (room_w cfg / 2 - 50) 40 100 30;
          c2 = text_style c1 (js ''#ffffff'') (js ''14px Arial'') (js ''center'')
      in fillText c2 (js ''Card Catalog'') (room_w cfg / 2) 30)"

text \<open>\<open>renderRoomInfo\<close>, lines 301 to 310.\<close>

definition room_label :: "room_info \<Rightarrow> jstr" where
  "room_label ri = js ''Room: ('' @ js_of_int (ri_roomX ri) @ js '', '' @ js_of_int (ri_roomY ri) @ js '')''"

definition renderRoomInfo :: "room_info \<Rightarrow> canvas \<Rightarrow> canvas" where
  "renderRoomInfo ri c = fillText (text_style c (js ''#ffffff'') (js ''12px Arial'') (js ''left'')) (room_label ri) 10 20"

text \<open>
  \<open>Player.render\<close>, player.js lines 153 to 177: the player's disc, and the hint for
  the first thing in reach: a book, the card catalog, an exit (\<open>isAtExit\<close> is truthy
  when it names a direction).
\<close>

definition exit_truthy :: "jstr option \<Rightarrow> bool" where
  "exit_truthy e = (case e of None \<Rightarrow> False | Some d \<Rightarrow> d \<noteq> [])"

definition hint_message :: "player \<Rightarrow> jstr" where
  "hint_message p =
     (if nearbyBookIndex p \<ge> 0 then js ''Press E to read book''
      else if isAtCardCatalog p then js ''Press E to view card catalog''
      else case isAtExit p of Some d \<Rightarrow> if d \<noteq> [] then js ''Press E to go '' @ d else [] | None \<Rightarrow> [])"

definition player_render :: "player \<Rightarrow> canvas \<Rightarrow> canvas" where
  "player_render p c =
     (let c1 = fillCircle (c\<lparr>fillStyle := js ''#d4af37''\<rparr>) (px p) (py p) (of_int (psize p) / 2)
      in if nearbyBookIndex p \<ge> 0 \<or> isAtCardCatalog p \<or> exit_truthy (isAtExit p)
         then fillText (text_style c1 (js ''#ffffff'') (js ''12px Arial'') (js ''center'')) (hint_message p)
                (px p) (py p - 20)
         else c1)"

text \<open>
  \<open>render\<close>, lines 140 to 164: clear the canvas, then, with a player, the room on top.
  The library is never \<open>null\<close>.
\<close>

definition render :: "config \<Rightarrow> game \<Rightarrow> canvas \<Rightarrow> ((js_exn + unit) \<times> canvas) option" where
  "render cfg G c =
     (let c1 = fillRect (c\<lparr>fillStyle := js ''#1a1a1a''\<rparr>) 0 0 (of_int (canvasWidth c)) (of_int (canvasHeight c))
      in case g_player G of
           None \<Rightarrow> Some (Inr (), c1)
         | Some p \<Rightarrow>
             (let ri = getRoomInfo cfg (g_library G)
              in case renderBookshelves cfg ri p c1 of
                   None \<Rightarrow> None
                 | Some (Inl e, c2) \<Rightarrow> Some (Inl e, c2)
                 | Some (Inr u, c2) \<Rightarrow>
                     Some (Inr u, renderRoomInfo ri (player_render p (renderCardCatalog cfg (renderExits cfg c2))))))"

text \<open>
  One animation frame, lines 118 to 128: \<open>gameLoop\<close> updates and renders a running game
  and only then calls \<open>requestAnimationFrame\<close>. The result is the game, the storage, the
  canvas, the exception that left the callback if any, and whether a next frame is
  requested. An exception in \<open>render\<close> leaves the callback before the request.
\<close>

definition frame ::
  "config \<Rightarrow> game \<Rightarrow> lstore \<Rightarrow> canvas \<Rightarrow> rat \<Rightarrow> (game \<times> lstore \<times> canvas \<times> js_exn option \<times> bool) option" where
  "frame cfg G ls c timestamp =
     (case gameLoop cfg G ls timestamp of
       None \<Rightarrow> None
     | Some (G', ls') \<Rightarrow>
         if isRunning G' then
           (case render cfg G' c of
             None \<Rightarrow> None
           | Some (Inl e, c') \<Rightarrow> Some (G', ls', c', Some e, False)
           | Some (Inr u, c') \<Rightarrow> Some (G', ls', c', None, True))
         else Some (G', ls', c, None, False))"

subsection \<open>Sample frames\<close>

text \<open>
  A running game whose player stands at book 0 of a room whose catalog entry 0 is an
  array of 26 entries, as a backend answer may give it; and a player at \<open>x = 700\<close>.
\<close>

definition long_title_game :: game where
  "long_title_game =
     sample_game\<lparr>isRunning := True,
       g_player := Some ((new_Player sample_cfg JNull JNull)\<lparr>px := 40, py := 100\<rparr>),
       g_library := new_Library\<lparr>books := [new_Book (JStr (js ''A'')) 0 0 0],
                                 cardCatalog := JArr [JArr (replicate 26 JNull)]\<rparr>\<rparr>"

definition trapped_player :: player where
  "trapped_player = (new_Player sample_cfg JNull JNull)\<lparr>px := 700\<rparr>"

subsection \<open>Lemmas\<close>

lemma book_title_string:
  "book_title (JStr s) = Some (Inr (if 25 < length s then take 22 s @ js ''...'' else s))"
  by (simp add: book_title_def js_substring_def min_def)

lemma book_title_string_bound: "book_title (JStr s) = Some (Inr t) \<Longrightarrow> length t \<le> 25"
  by (auto simp: book_title_string split: if_splits)

lemma book_title_long_array: "25 < length ws \<Longrightarrow> book_title (JArr ws) = Some (Inl TypeError)"
  by (simp add: book_title_def)

lemma draw_book_throws:
  assumes "pos_index b = nearbyBookIndex p"
    and "js_index (ri_cardCatalog ri) (nearbyBookIndex p) = Some (Inr (JArr ws))" and "25 < length ws"
  shows "\<exists>c'. draw_book ri p c b = Some (Inl TypeError, c')"
  using assms by (simp add: draw_book_def Let_def book_title_long_array)

lemma draw_book_other:
  "pos_index b \<noteq> nearbyBookIndex p \<Longrightarrow> \<exists>c'. draw_book ri p c b = Some (Inr (), c')"
  by (simp add: draw_book_def Let_def)

lemma draw_books_throws:
  assumes "b \<in> set bs" and "pos_index b = nearbyBookIndex p"
    and "js_index (ri_cardCatalog ri) (nearbyBookIndex p) = Some (Inr (JArr ws))" and "25 < length ws"
  shows "\<exists>c'. draw_books ri p c bs = Some (Inl TypeError, c')"
  using assms(1)
proof (induction bs arbitrary: c)
  case (Cons b' bs)
  show ?case
  proof (cases "pos_index b' = nearbyBookIndex p")
    case True
    then show ?thesis using draw_book_throws [OF True assms(3,4), of c] by auto
  next
    case False
    then obtain c' where "draw_book ri p c b' = Some (Inr (), c')" using draw_book_other by blast
    moreover have "b \<in> set bs" using Cons.prems False assms(2) by auto
    ultimately show ?thesis using Cons.IH by simp
  qed
qed simp

lemma render_throws:
  assumes "g_player G = Some p" and "b \<in> set (getBookPositions cfg (g_library G))"
    and "pos_index b = nearbyBookIndex p"
    and "js_index (cardCatalog (g_library G)) (nearbyBookIndex p) = Some (Inr (JArr ws))" and "25 < length ws"
  shows "\<exists>c'. render cfg G c = Some (Inl TypeError, c')"
proof -
  let ?ri = "getRoomInfo cfg (g_library G)"
    and ?c1 = "fillRect (c\<lparr>fillStyle := js ''#1a1a1a''\<rparr>) 0 0 (of_int (canvasWidth c)) (of_int (canvasHeight c))"
  obtain c' where "renderBookshelves cfg ?ri p ?c1 = Some (Inl TypeError, c')"
    using draw_books_throws [of b "bookPositions ?ri" p ?ri ws] assms(2-5)
    by (auto simp: renderBookshelves_def Let_def getRoomInfo_def)
  then show ?thesis using assms(1) by (simp add: render_def Let_def)
qed

lemma frame_gameLoop:
  "frame cfg G ls c t = Some (G', ls', c', e, n) \<Longrightarrow> gameLoop cfg G ls t = Some (G', ls')"
  by (auto simp: frame_def split: option.splits if_splits sum.splits prod.splits)

lemma gameLoop_running: "gameLoop cfg G ls t = Some (G', ls') \<Longrightarrow> isRunning G' = isRunning G"
  by (auto simp: gameLoop_def game_update_def Let_def split: if_splits option.splits)

lemma frame_error:
  "frame cfg G ls c t = Some (G', ls', c', Some e, n) \<Longrightarrow> \<not> n \<and> isRunning G' = isRunning G"
  by (auto simp: frame_def dest: gameLoop_running split: option.splits if_splits sum.splits prod.splits)

lemma player_step_keeps:
  "player_step cfg p e q \<Longrightarrow> speed q = speed p \<and> psize q = psize p
     \<and> px q = step_axis (px p) (case e of Update _ _ \<Rightarrow> of_int (move_delta (moveLeft p) (moveRight p) (speed p)) | _ \<Rightarrow> 0)
                (of_int (psize p) / 2) (room_w cfg)"
  by (induction rule: player_step.induct)
     (auto simp: handleKeyDown_def handleKeyUp_def step_axis_def Let_def player_update_def
        checkForRoomExits_def checkForNearbyBooks_def split: option.splits)

lemma step_axis_stuck: "e - pad < v + d \<Longrightarrow> step_axis v d pad e = v"
  by (simp add: step_axis_def Let_def)

lemma move_delta_ge: "0 \<le> s \<Longrightarrow> - s \<le> move_delta a b s"
  by (simp add: move_delta_def)

text \<open>
  The exits of the player are bands 40 wide along the whole walls; the doors drawn are
  60 wide. In the shipped room a player near the top left corner is at the north exit,
  outside every door painted.
\<close>

lemma exit_band_outside_doors:
  "isAtExit (checkForRoomExits sample_cfg ((new_Player sample_cfg JNull JNull)\<lparr>px := 100, py := 20\<rparr>))
     = Some (js ''north'')
   \<and> list_all (\<lambda>r. case r of Rect _ x y w h \<Rightarrow> \<not> (x \<le> 100 \<and> 100 \<le> x + w \<and> y \<le> 20 \<and> 20 \<le> y + h) | _ \<Rightarrow> True)
       (painted (renderExits sample_cfg (new_canvas 800 600)))"
  by code_simp

subsection \<open>Properties of the canvas\<close>

text \<open>
  C24: A catalog entry under the player that is an array of more than 25 titles makes
  \<open>render\<close> throw (\<open>title.substring\<close> is not a function) before \<open>gameLoop\<close> requests
  the next frame: the game stops drawing and updating for good.
\<close>

theorem frame_stops_on_long_array_title:
  assumes "isRunning G" and "gameLoop cfg G ls t = Some (G', ls')" and "g_player G' = Some p"
    and "b \<in> set (getBookPositions cfg (g_library G'))" and "pos_index b = nearbyBookIndex p"
    and "js_index (cardCatalog (g_library G')) (nearbyBookIndex p) = Some (Inr (JArr ws))"
    and "25 < length ws"
  shows "\<exists>c'. frame cfg G ls c t = Some (G', ls', c', Some TypeError, False)"
proof -
  obtain c' where "render cfg G' c = Some (Inl TypeError, c')"
    using render_throws [OF assms(3-7)] by blast
  then show ?thesis using assms(1,2) gameLoop_running [OF assms(2)] by (simp add: frame_def)
qed


theorem frame_stops_on_long_array_title_witness:
  "\<exists>G' ls' c'. frame sample_cfg long_title_game Map.empty (new_canvas 800 600) 16 = Some (G', ls', c', Some TypeError, False)"
proof -
  let ?r = "the (gameLoop sample_cfg long_title_game Map.empty 16)"
  have "gameLoop sample_cfg long_title_game Map.empty 16 \<noteq> None" by code_simp
  then have g: "gameLoop sample_cfg long_title_game Map.empty 16 = Some (fst ?r, snd ?r)" by auto
  have "g_player (fst ?r) \<noteq> None" by code_simp
  then have p: "g_player (fst ?r) = Some (the (g_player (fst ?r)))" by auto
  have h: "isRunning long_title_game" "getBookPositions sample_cfg (g_library (fst ?r)) \<noteq> []"
    "pos_index (hd (getBookPositions sample_cfg (g_library (fst ?r)))) = nearbyBookIndex (the (g_player (fst ?r)))"
    "js_index (cardCatalog (g_library (fst ?r))) (nearbyBookIndex (the (g_player (fst ?r))))
       = Some (Inr (JArr (replicate 26 JNull)))"
    by code_simp+
  show ?thesis
    using frame_stops_on_long_array_title [OF h(1) g p hd_in_set [OF h(2)] h(3) h(4), of "new_canvas 800 600"]
    by auto
qed


end
