(* ===== verification/Session.thy ===== *)
theory Session
  imports Ui Render
begin

text \<open>
  The running page: the \<open>Game\<close>, its \<open>UIHandler\<close>, the heap of \<open>Book\<close> objects, the
  storage, and the requests waiting for the backend. One step is one event of the browser:
  a key, an animation frame, a click, or the answer to one waiting request, in any order.
  Each step runs the handlers it triggers and the microtasks they queue to the end, so an
  \<open>await\<close> lets other events in only where it waits for the backend (\<open>Pending\<close>).

  \<^item> The library's \<open>books\<close> array and \<open>ui.currentBook\<close> refer to the same objects:
    \<open>lib_refs\<close> gives the heap address of each book of the current room, and each
    \<open>loadRoom\<close> that sets new books allocates new objects (\<open>alloc_books\<close>).
  \<^item> Document listeners run in the order they were added: the \<open>UIHandler\<close>, created in
    \<open>Game\<close>'s constructor (game.js line 9), adds its \<open>keydown\<close> listener (ui.js line 61)
    before \<open>Game\<close> adds its own (game.js line 21).
  \<^item> An exception that escapes an asynchronous handler is an unhandled rejection: the
    handler's effects so far stay, and the exception is recorded in \<open>s_errors\<close>.
  \<^item> \<open>Game.initialize\<close> and \<open>Game.startGame\<close> run to their end within the event that
    starts them (the model of theory \<open>Game\<close>).
  \<^item> An animation frame runs only when one was requested: \<open>initialize\<close> with a saved
    character and the start of the loop at the dialog's close request the first, and
    each frame requests the next unless its drawing throws (\<open>frame\<close> of theory
    \<open>Render\<close>, on the page's canvas \<open>s_canvas\<close>).
  \<^item> Notification timers are events of their own (\<open>EvTimeout\<close>), fired oldest first.
\<close>

datatype view_cont = OpenCont | TurnCont

datatype request =
    ExitReq browser_env jstr int int
  | PageReq browser_env nat int view_cont

record session =
  s_game :: game
  s_ui :: ui
  heap :: "book list"
  lib_refs :: "nat list"
  s_ls :: lstore
  waiting :: "request list"
  s_errors :: "js_exn list"
  s_canvas :: canvas
  framePending :: bool

text \<open>
  A page before its load: the canvas element at the HTML default size, and no animation
  frame requested (\<open>framePending\<close>).
\<close>

definition new_session :: "lstore \<Rightarrow> session" where
  "new_session ls =
     \<lparr>s_game = new_Game, s_ui = new_UIHandler, heap = [], lib_refs = [], s_ls = ls, waiting = [], s_errors = [],
      s_canvas = new_canvas 300 150, framePending = False\<rparr>"

text \<open>\<open>catalog.map(... => new Book(...))\<close>: the books of the room are new objects.\<close>

definition alloc_books :: "session \<Rightarrow> session" where
  "alloc_books S =
     (let bs = books (g_library (s_game S)); n = length (heap S)
      in S\<lparr>heap := heap S @ bs, lib_refs := [n..<n + length bs]\<rparr>)"

definition report :: "js_exn + 'a \<Rightarrow> session \<Rightarrow> session" where
  "report r S = (case r of Inl e \<Rightarrow> S\<lparr>s_errors := s_errors S @ [e]\<rparr> | Inr _ \<Rightarrow> S)"

subsection \<open>Exits\<close>

text \<open>The end of \<open>useExit\<close> once \<open>moveToRoom\<close> has answered \<open>r\<close>.\<close>

definition finish_exit :: "config \<Rightarrow> session \<Rightarrow> jstr \<Rightarrow> bool lib_res \<Rightarrow> session" where
  "finish_exit cfg S direction r =
     (case exit_arrival cfg (s_game S) direction r of
       (res, G', ls', evs) \<Rightarrow>
         (let S1 = report res (S\<lparr>s_game := G', s_ls := ls', s_ui := show_events (g_library G') (s_ui S) evs\<rparr>)
          in if fst r = Inr True then alloc_books S1 else S1))"

definition exit_begin :: "config \<Rightarrow> browser_env \<Rightarrow> session \<Rightarrow> jstr \<Rightarrow> session" where
  "exit_begin cfg env S direction =
     (case moveToRoom_begin cfg env (g_library (s_game S)) (s_ls S) direction of
       Settled r \<Rightarrow> finish_exit cfg S direction r
     | Pending (L1, ls1, x, y) \<Rightarrow>
         S\<lparr>s_game := (s_game S)\<lparr>g_library := L1\<rparr>, s_ls := ls1,
           waiting := waiting S @ [ExitReq env direction x y]\<rparr>)"

subsection \<open>Pages\<close>

text \<open>
  The \<open>.then\<close> of \<open>openBook\<close> (ui.js lines 141 to 143) and of \<open>turnPage\<close> (lines 169 to
  172), once the book's promise is fulfilled; the latter reads \<open>this.currentBook\<close> as it
  is then, which throws when the book has been closed.
\<close>

definition page_done :: "session \<Rightarrow> nat \<Rightarrow> view_cont \<Rightarrow> jsval book_res \<Rightarrow> session" where
  "page_done S r k res =
     (case res of
       (out, b', ls') \<Rightarrow>
         (let S1 = S\<lparr>heap := (heap S)[r := b'], s_ls := ls'\<rparr>
          in case out of
               Inl e \<Rightarrow> S1\<lparr>s_errors := s_errors S1 @ [e]\<rparr>
             | Inr c \<Rightarrow>
                 (case k of
                   OpenCont \<Rightarrow> S1\<lparr>s_ui := (s_ui S1)\<lparr>bookView := page_shown c\<rparr>\<rparr>
                 | TurnCont \<Rightarrow>
                     (case currentBook (s_ui S1) of
                       None \<Rightarrow> S1\<lparr>s_errors := s_errors S1 @ [TypeError]\<rparr>
                     | Some r' \<Rightarrow>
                         S1\<lparr>s_ui := (s_ui S1)\<lparr>pageNumber := currentPage (heap S1 ! r'),
                                               bookView := page_shown c\<rparr>\<rparr>))))"

definition page_start ::
  "session \<Rightarrow> browser_env \<Rightarrow> nat \<Rightarrow> view_cont \<Rightarrow> (jsval book_res, book \<times> lstore \<times> int) async \<Rightarrow> session" where
  "page_start S env r k a =
     (case a of
       Settled res \<Rightarrow> page_done S r k res
     | Pending (b1, ls1, p) \<Rightarrow>
         S\<lparr>heap := (heap S)[r := b1], s_ls := ls1, waiting := waiting S @ [PageReq env r p k]\<rparr>)"

text \<open>\<open>openBook(book)\<close> for the object at address \<open>r\<close>.\<close>

definition open_book :: "config \<Rightarrow> browser_env \<Rightarrow> session \<Rightarrow> nat \<Rightarrow> session" where
  "open_book cfg env S r =
     (let b = heap S ! r
      in page_start (S\<lparr>s_ui := ui_openBook (s_ui S) r (currentPage b)\<rparr>) env r OpenCont
           (getPageContent_begin cfg env b (s_ls S)))"

text \<open>\<open>turnPage\<close> (ui.js lines 158 to 173) with \<open>prevPage\<close> or \<open>nextPage\<close> of the book.\<close>

definition turnPage :: "config \<Rightarrow> browser_env \<Rightarrow> session \<Rightarrow> jstr \<Rightarrow> session" where
  "turnPage cfg env S direction =
     (case currentBook (s_ui S) of
       None \<Rightarrow> S
     | Some r \<Rightarrow>
         (let b = heap S ! r;
              n = (if direction = js ''prev'' then currentPage b - 1 else currentPage b + 1)
          in page_start (S\<lparr>s_ui := (s_ui S)\<lparr>bookView := PageTurning\<rparr>\<rparr>) env r TurnCont
               (goToPage_begin cfg env b (s_ls S) n)))"

subsection \<open>Interaction and the document's listeners\<close>

text \<open>\<open>Game.handleInteraction\<close> on the page: the book, the catalog, or the exit.\<close>

definition session_interaction :: "config \<Rightarrow> browser_env \<Rightarrow> session \<Rightarrow> session" where
  "session_interaction cfg env S =
     (case interaction_target (s_game S) of
       Interact_Book i b \<Rightarrow> open_book cfg env S (lib_refs S ! nat i)
     | Interact_Catalog c \<Rightarrow> S\<lparr>s_ui := showCardCatalog (s_ui S) (g_library (s_game S)) c\<rparr>
     | Interact_Exit d \<Rightarrow> exit_begin cfg env S d
     | Interact_None \<Rightarrow> S)"

text \<open>The \<open>keydown\<close> listener of the \<open>UIHandler\<close> (ui.js lines 61 to 70).\<close>

definition ui_keydown :: "config \<Rightarrow> browser_env \<Rightarrow> session \<Rightarrow> jstr \<Rightarrow> session" where
  "ui_keydown cfg env S key =
     (if js_lower key = js ''e'' then
        (if bookHidden (s_ui S) then session_interaction cfg env S else S\<lparr>s_ui := closeBook (s_ui S)\<rparr>)
      else S)"

text \<open>\<open>Game.handleKeyDown\<close> (game.js lines 313 to 323) on the page.\<close>

definition game_keydown :: "config \<Rightarrow> browser_env \<Rightarrow> session \<Rightarrow> jstr \<Rightarrow> session" where
  "game_keydown cfg env S key =
     (case g_player (s_game S) of
       None \<Rightarrow> S
     | Some p \<Rightarrow>
         (let S1 = S\<lparr>s_game := (s_game S)\<lparr>g_player := Some (handleKeyDown p key)\<rparr>\<rparr>
          in if js_lower key = js ''e'' then session_interaction cfg env S1 else S1))"

definition document_keydown :: "config \<Rightarrow> browser_env \<Rightarrow> session \<Rightarrow> jstr \<Rightarrow> session" where
  "document_keydown cfg env S key = game_keydown cfg env (ui_keydown cfg env S key) key"

text \<open>The click on the dialog's close button (ui.js lines 30 to 39).\<close>

definition dialog_close :: "session \<Rightarrow> rat \<Rightarrow> session" where
  "dialog_close S now =
     (let U1 = hideDialog (s_ui S)
      in if storyDialogShowing U1 \<and> \<not> isRunning (s_game S)
         then S\<lparr>s_ui := U1\<lparr>storyDialogShowing := False\<rparr>, s_game := startGameLoop (s_game S) now,
                framePending := True\<rparr>
         else S\<lparr>s_ui := U1\<rparr>)"

text \<open>A click on an entry of the card catalog (ui.js lines 192 to 198).\<close>

definition catalog_click :: "config \<Rightarrow> browser_env \<Rightarrow> session \<Rightarrow> int \<Rightarrow> session" where
  "catalog_click cfg env S index =
     (case getBook (g_library (s_game S)) index of
       None \<Rightarrow> S
     | Some b \<Rightarrow> open_book cfg env (S\<lparr>s_ui := hideDialog (s_ui S)\<rparr>) (lib_refs S ! nat index))"

text \<open>
  The start button (\<open>submitCharacterInfo\<close>, ui.js lines 84 to 100) with the arguments of
  \<open>startGame\<close>'s environment and random draws.
\<close>

definition start_click ::
  "config \<Rightarrow> browser_env \<Rightarrow> browser_env \<Rightarrow> session \<Rightarrow> jstr \<Rightarrow> jstr \<Rightarrow> jstr \<Rightarrow>
   int \<Rightarrow> int \<Rightarrow> int \<Rightarrow> int \<Rightarrow> nat \<Rightarrow> session option" where
  "start_click cfg env_lib env_story S nameInput descInput date sx sy rx ry k =
     (case character_inputs nameInput descInput of
       Inl msg \<Rightarrow> Some (S\<lparr>s_ui := (s_ui S)\<lparr>alerts := alerts (s_ui S) @ [msg]\<rparr>\<rparr>)
     | Inr (name, description) \<Rightarrow>
         (let U1 = hideCharacterCreation (s_ui S)
          in case startGame cfg env_lib env_story (s_game S) (s_ls S) name description date sx sy rx ry k of
               None \<Rightarrow> None
             | Some (res, G', ls', evs) \<Rightarrow>
                 Some (alloc_books (report res (S\<lparr>s_game := G', s_ls := ls', s_ui := show_events (g_library G') U1 evs\<rparr>)))))"

text \<open>
  \<open>DOMContentLoaded\<close> (main.js): a new game, whose constructor sizes the canvas to the
  room (\<open>cfg\<close> is the configuration after that \<open>resizeCanvas\<close>), and
  \<open>initialize\<close>, which requests the first frame when it starts the loop (game.js
  lines 47 to 49).
\<close>

definition page_load :: "config \<Rightarrow> browser_env \<Rightarrow> lstore \<Rightarrow> int \<Rightarrow> int \<Rightarrow> rat \<Rightarrow> session option" where
  "page_load cfg env ls sx sy now =
     (let S = (new_session ls)\<lparr>s_canvas := new_canvas (width (roomSize cfg)) (height (roomSize cfg))\<rparr>
      in case game_initialize cfg env (s_game S) ls sx sy now of
           None \<Rightarrow> None
         | Some (res, G', ls', evs) \<Rightarrow>
             Some (alloc_books (report res (S\<lparr>s_game := G', s_ls := ls', s_ui := show_events (g_library G') (s_ui S) evs,
                                              framePending := isRunning G'\<rparr>))))"

subsection \<open>Answers of the backend\<close>

definition complete :: "config \<Rightarrow> session \<Rightarrow> request \<Rightarrow> session" where
  "complete cfg S q =
     (case q of
       ExitReq env d x y \<Rightarrow> finish_exit cfg S d (moveToRoom_resume cfg env (g_library (s_game S)) (s_ls S) x y)
     | PageReq env r p k \<Rightarrow> page_done S r k (getPageContent_gen cfg env (heap S ! r) (s_ls S) p))"

definition answer :: "config \<Rightarrow> session \<Rightarrow> nat \<Rightarrow> session" where
  "answer cfg S i = complete cfg (S\<lparr>waiting := take i (waiting S) @ drop (Suc i) (waiting S)\<rparr>) (waiting S ! i)"

subsection \<open>Runs\<close>

datatype session_event =
    EvKeyDown browser_env jstr
  | EvKeyUp jstr
  | EvFrame rat
  | EvDialogClose rat
  | EvPrevPage browser_env
  | EvNextPage browser_env
  | EvBookClose
  | EvCatalogItem browser_env int
  | EvStart browser_env browser_env jstr jstr jstr int int int int nat
  | EvAnswer nat
  | EvTimeout

text \<open>
  One event; \<open>None\<close> where the model is left (a position that is not an integer), the
  answer's index names no waiting request, no timer is pending for a timeout, or no
  animation frame was requested. A frame runs \<open>gameLoop\<close> with its drawing
  (\<open>frame\<close>); an exception of \<open>render\<close> is recorded and requests no next frame.
\<close>

fun dispatch :: "config \<Rightarrow> session \<Rightarrow> session_event \<Rightarrow> session option" where
  "dispatch cfg S (EvKeyDown env key) = Some (document_keydown cfg env S key)"
| "dispatch cfg S (EvKeyUp key) = Some (S\<lparr>s_game := game_handleKeyUp (s_game S) key\<rparr>)"
| "dispatch cfg S (EvFrame t) =
     (if framePending S then
        map_option (\<lambda>(G', ls', c', err, next).
            (let S1 = S\<lparr>s_game := G', s_ls := ls', s_canvas := c', framePending := next\<rparr>
             in case err of None \<Rightarrow> S1 | Some e \<Rightarrow> S1\<lparr>s_errors := s_errors S1 @ [e]\<rparr>))
          (frame cfg (s_game S) (s_ls S) (s_canvas S) t)
      else None)"
| "dispatch cfg S (EvDialogClose now) = Some (dialog_close S now)"
| "dispatch cfg S (EvPrevPage env) = Some (turnPage cfg env S (js ''prev''))"
| "dispatch cfg S (EvNextPage env) = Some (turnPage cfg env S (js ''next''))"
| "dispatch cfg S EvBookClose = Some (S\<lparr>s_ui := closeBook (s_ui S)\<rparr>)"
| "dispatch cfg S (EvCatalogItem env i) = Some (catalog_click cfg env S i)"
| "dispatch cfg S (EvStart env_lib env_story n d date sx sy rx ry k) =
     start_click cfg env_lib env_story S n d date sx sy rx ry k"
| "dispatch cfg S (EvAnswer i) = (if i < length (waiting S) then Some (answer cfg S i) else None)"
| "dispatch cfg S EvTimeout =
     (if 0 < notificationTimers (s_ui S) then Some (S\<lparr>s_ui := notification_timeout (s_ui S)\<rparr>) else None)"

fun run_session :: "config \<Rightarrow> session \<Rightarrow> session_event list \<Rightarrow> session option" where
  "run_session cfg S [] = Some S"
| "run_session cfg S (e # es) = (case dispatch cfg S e of None \<Rightarrow> None | Some S' \<Rightarrow> run_session cfg S' es)"

subsection \<open>Sample pages\<close>

text \<open>
  A backend that answers every request with \<open>t\<close>, an open book on its first page, a
  player at the east exit of room (0, 0), and a page showing an open book whose
  player stands at that book, for the runs below.
\<close>

definition env_answer :: "jstr \<Rightarrow> browser_env" where
  "env_answer t = env_titles\<lparr>fetch_result := Response 200 (completion_body (JStr t))\<rparr>"

definition reading_session :: session where
  "reading_session =
     (new_session sample_store)\<lparr>heap := [new_Book (JStr (js ''A'')) 0 0 0],
                                 s_ui := ui_openBook new_UIHandler 0 1\<rparr>"

definition exit_session :: session where
  "exit_session =
     (new_session sample_store)\<lparr>s_game :=
        sample_game\<lparr>g_player := Some ((new_Player sample_cfg JNull JNull)\<lparr>isAtExit := Some (js ''east'')\<rparr>)\<rparr>\<rparr>"

definition book_session :: session where
  "book_session =
     (new_session sample_store)\<lparr>s_game :=
        sample_game\<lparr>g_player := Some ((new_Player sample_cfg JNull JNull)\<lparr>nearbyBookIndex := 0\<rparr>),
                    g_library := (g_library sample_game)\<lparr>books := [new_Book (JStr (js ''A'')) 0 0 0]\<rparr>\<rparr>,
        heap := [new_Book (JStr (js ''A'')) 0 0 0], lib_refs := [0],
        s_ui := ui_openBook new_UIHandler 0 1\<rparr>"

subsection \<open>Well-formed heaps\<close>

text \<open>
  Every reference the page holds names an object of the heap, and the library's books
  and their references correspond one to one.
\<close>

fun req_ok :: "nat \<Rightarrow> request \<Rightarrow> bool" where
  "req_ok n (PageReq _ r _ _) = (r < n)"
| "req_ok n (ExitReq _ _ _ _) = True"

definition session_wf :: "session \<Rightarrow> bool" where
  "session_wf S \<longleftrightarrow>
     length (lib_refs S) = length (books (g_library (s_game S)))
     \<and> list_all (\<lambda>r. r < length (heap S)) (lib_refs S)
     \<and> pred_option (\<lambda>r. r < length (heap S)) (currentBook (s_ui S))
     \<and> list_all (req_ok (length (heap S))) (waiting S)"

text \<open>The flags of the player that \<open>handleInteraction\<close> reads.\<close>

definition player_flags :: "player \<Rightarrow> jstr option \<times> rat \<times> bool" where
  "player_flags p = (isAtExit p, nearbyBookIndex p, isAtCardCatalog p)"

subsection \<open>Lemmas\<close>

lemma report_fields [simp]:
  "s_game (report r S) = s_game S" "s_ui (report r S) = s_ui S" "heap (report r S) = heap S"
  "lib_refs (report r S) = lib_refs S" "waiting (report r S) = waiting S" "s_ls (report r S) = s_ls S"
  by (simp_all add: report_def split: sum.split)

lemma alloc_books_fields [simp]:
  "s_game (alloc_books S) = s_game S" "s_ui (alloc_books S) = s_ui S" "waiting (alloc_books S) = waiting S"
  "s_ls (alloc_books S) = s_ls S"
  by (simp_all add: alloc_books_def Let_def)

lemma exit_arrival_game:
  "g_library (fst (snd (exit_arrival cfg G d r))) = fst (snd r)
   \<and> map_option player_flags (g_player (fst (snd (exit_arrival cfg G d r)))) = map_option player_flags (g_player G)"
  by (auto simp: exit_arrival_def player_flags_def Let_def split: prod.split sum.split bool.split option.split)

lemma finish_exit_game:
  "g_library (s_game (finish_exit cfg S d r)) = fst (snd r)
   \<and> map_option player_flags (g_player (s_game (finish_exit cfg S d r))) = map_option player_flags (g_player (s_game S))"
  using exit_arrival_game [of cfg "s_game S" d r] by (auto simp: finish_exit_def Let_def split: prod.split)

lemma exit_begin_current:
  assumes "move_target (g_library (s_game S)) d = (nx, ny)" and "in_grid cfg nx ny"
  shows "currentRoomX (g_library (s_game (exit_begin cfg env S d))) = nx
         \<and> currentRoomY (g_library (s_game (exit_begin cfg env S d))) = ny
         \<and> map_option player_flags (g_player (s_game (exit_begin cfg env S d)))
             = map_option player_flags (g_player (s_game S))"
proof (cases "moveToRoom_begin cfg env (g_library (s_game S)) (s_ls S) d")
  case (Settled r)
  then show ?thesis
    using moveToRoom_begin_current(1) [OF assms, of env "s_ls S" r] finish_exit_game [of cfg S d r]
    by (simp add: exit_begin_def)
next
  case (Pending w)
  then obtain L1 ls1 x y where "w = (L1, ls1, x, y)" by (cases w) auto
  with Pending show ?thesis
    using moveToRoom_begin_current(2) [OF assms, of env "s_ls S" L1 ls1 x y]
    by (simp add: exit_begin_def)
qed

lemma interaction_target_exit:
  "map_option player_flags (g_player G) = Some (Some d, n, False) \<Longrightarrow> n < 0 \<Longrightarrow>
   interaction_target G = Interact_Exit d"
  by (auto simp: interaction_target_def player_flags_def)

lemma handleKeyDown_lower_e: "js_lower k = js ''e'' \<Longrightarrow> handleKeyDown p k = p"
  by (simp add: handleKeyDown_def js_def)

lemma js_lower_e: "js_lower (js ''e'') = js ''e''"
  by (simp add: js_lower_def js_def)

lemma game_keydown_e:
  assumes "g_player (s_game S) = Some p"
  shows "game_keydown cfg env S (js ''e'') = session_interaction cfg env S"
proof -
  have g: "S\<lparr>s_game := (s_game S)\<lparr>g_player := Some p\<rparr>\<rparr> = S" using assms by simp
  show ?thesis by (simp add: game_keydown_def js_lower_e handleKeyDown_lower_e assms g)
qed

lemma exit_arrival_library:
  "exit_arrival cfg (G\<lparr>g_library := L\<rparr>) d r = exit_arrival cfg G d r"
  by (simp add: exit_arrival_def Let_def split: prod.split sum.split bool.split option.split)

lemma page_done_ls: "s_ls (page_done S r k res) = snd (snd res)"
  by (auto simp: page_done_def Let_def split: prod.split sum.split view_cont.split option.split)

lemma page_start_ui:
  "bookHidden (s_ui (page_start S env r k a)) = bookHidden (s_ui S)
   \<and> currentBook (s_ui (page_start S env r k a)) = currentBook (s_ui S)"
  by (auto simp: page_start_def page_done_def Let_def split: async.split prod.split sum.split view_cont.split option.split)

lemma rat_int_of_int: "rat_int r = Some i \<Longrightarrow> r = of_int i"
  by (simp add: rat_int_def split: if_splits)

lemma interaction_target_book:
  assumes "g_player G = Some p" and "rat_int (nearbyBookIndex p) = Some i" and "0 \<le> i"
    and "i < int (length (books (g_library G)))"
  shows "interaction_target G = Interact_Book i (books (g_library G) ! nat i)"
  using assms rat_int_of_int [OF assms(2)] by (simp add: interaction_target_def getBook_def)

subsection \<open>Properties of the page\<close>

text \<open>
  C30: One press of E at an exit takes the exit twice. Both \<open>keydown\<close> listeners call
  \<open>handleInteraction\<close>; \<open>loadRoom\<close> has set the new current room before its first
  \<open>await\<close>, and the player's \<open>isAtExit\<close> is only recomputed by the next frame, so the
  second call moves on from the room the first one entered: the player lands two rooms
  away, whether the rooms are stored or generated.
\<close>

theorem e_at_exit_moves_twice:
  assumes "g_player (s_game S) = Some p" and "isAtExit p = Some d" and "nearbyBookIndex p < 0"
    and "\<not> isAtCardCatalog p" and "bookHidden (s_ui S)"
    and "move_target (g_library (s_game S)) d = (x1, y1)" and "in_grid cfg x1 y1"
    and "move_target ((g_library (s_game S))\<lparr>currentRoomX := x1, currentRoomY := y1\<rparr>) d = (x2, y2)"
    and "in_grid cfg x2 y2"
  shows "currentRoomX (g_library (s_game (document_keydown cfg env S (js ''e'')))) = x2
         \<and> currentRoomY (g_library (s_game (document_keydown cfg env S (js ''e'')))) = y2"
proof -
  have fl: "map_option player_flags (g_player (s_game S)) = Some (Some d, nearbyBookIndex p, False)"
    using assms(1,2,4) by (simp add: player_flags_def)
  let ?S1 = "exit_begin cfg env S d"
  have s1: "ui_keydown cfg env S (js ''e'') = ?S1"
    using assms(5) interaction_target_exit [OF fl assms(3)]
    by (simp add: ui_keydown_def js_lower_e session_interaction_def)
  have e1: "currentRoomX (g_library (s_game ?S1)) = x1" "currentRoomY (g_library (s_game ?S1)) = y1"
    "map_option player_flags (g_player (s_game ?S1)) = Some (Some d, nearbyBookIndex p, False)"
    using exit_begin_current [OF assms(6,7), of env] fl by simp_all
  then obtain q where q: "g_player (s_game ?S1) = Some q" by auto
  have m: "move_target (g_library (s_game ?S1)) d = (x2, y2)"
    using assms(8) move_target_cong [of "g_library (s_game ?S1)" "(g_library (s_game S))\<lparr>currentRoomX := x1, currentRoomY := y1\<rparr>" d]
      e1(1,2) by simp
  have "game_keydown cfg env ?S1 (js ''e'') = exit_begin cfg env ?S1 d"
    using game_keydown_e [OF q] interaction_target_exit [OF e1(3) assms(3)]
    by (simp add: session_interaction_def)
  then show ?thesis
    using exit_begin_current [OF m assms(9), of env] s1 by (simp add: document_keydown_def)
qed

text \<open>
  C31: E cannot close a book while the player stands at it. The interface's listener closes
  the book, then the game's listener runs \<open>handleInteraction\<close>, which finds the same
  book in reach and opens it again.
\<close>

theorem e_reopens_book:
  assumes "\<not> bookHidden (s_ui S)" and "g_player (s_game S) = Some p"
    and "rat_int (nearbyBookIndex p) = Some i" and "0 \<le> i"
    and "i < int (length (books (g_library (s_game S))))"
  shows "\<not> bookHidden (s_ui (document_keydown cfg env S (js ''e'')))
         \<and> currentBook (s_ui (document_keydown cfg env S (js ''e''))) = Some (lib_refs S ! nat i)"
proof -
  let ?S1 = "S\<lparr>s_ui := closeBook (s_ui S)\<rparr>"
  have s1: "ui_keydown cfg env S (js ''e'') = ?S1"
    using assms(1) by (simp add: ui_keydown_def js_lower_e)
  have "g_player (s_game ?S1) = Some p" using assms(2) by simp
  then have "document_keydown cfg env S (js ''e'') = session_interaction cfg env ?S1"
    using s1 game_keydown_e by (simp add: document_keydown_def)
  moreover have "interaction_target (s_game ?S1) = Interact_Book i (books (g_library (s_game S)) ! nat i)"
    using interaction_target_book [OF assms(2-5)] by simp
  ultimately show ?thesis
    using page_start_ui
    by (simp add: session_interaction_def open_book_def Let_def ui_openBook_def)
qed

text \<open>
  C32: A page is saved under the page the book shows when the backend answers, not under
  the page it was asked for: \<open>getPageContent\<close> reads \<open>this.currentPage\<close> again after
  the \<open>await\<close>. A reader who turns two pages before the first answer arrives has the
  earlier page's text stored, for every later session, as the later page.
\<close>

theorem page_answer_saved_under_current_page:
  assumes "j < length (waiting S)" and "waiting S ! j = PageReq env r p k" and "b = heap S ! r"
    and "fst (generateBookContent cfg env (b_api b) (s_ls S) (title b) p) = c" and "js_truthy c"
  shows "s_ls (answer cfg S j) (book_entry (b_save b) (book_key (b_roomX b) (b_roomY b) (bookIndex b) (currentPage b)))
           = Some (js_to_string c)"
proof -
  obtain h ls2 where g: "generateBookContent cfg env (b_api b) (s_ls S) (title b) p = (c, h, ls2)"
    using assms(4) by (metis prod.collapse)
  obtain u s3 ls3 where sv: "saveBookContent (b_save b) (b_roomX b) (b_roomY b) (bookIndex b) (currentPage b)
                               (js_to_string c) ls2 = (u, s3, ls3)"
    by (metis prod.collapse)
  have "s_ls (answer cfg S j) = ls3"
    using assms(2,3,5) g sv
    by (auto simp: answer_def complete_def page_done_ls getPageContent_gen_def Let_def split: sum.splits)
  then show ?thesis using saveBookContent_entry [OF sv] by simp
qed

text \<open>
  C33: When the backend answers a waiting exit, the library gets the catalog and the books
  of the room that exit asked for, while its current room stays whatever it is then: after
  the double exit of E, answers in the opposite order leave the player in the farther room
  among the books of the nearer one.
\<close>

theorem exit_answer_books_of_requested_room:
  assumes "j < length (waiting S)" and "waiting S ! j = ExitReq env d x y"
    and "fst (moveToRoom_resume cfg env (g_library (s_game S)) (s_ls S) x y) = Inr True"
  shows "currentRoomX (g_library (s_game (answer cfg S j))) = currentRoomX (g_library (s_game S))
         \<and> currentRoomY (g_library (s_game (answer cfg S j))) = currentRoomY (g_library (s_game S))
         \<and> (\<forall>b\<in>set (books (g_library (s_game (answer cfg S j)))). b_roomX b = x \<and> b_roomY b = y)"
proof -
  obtain bs L' ls' where g: "loadRoom_gen cfg env (g_library (s_game S)) (s_ls S) x y = (Inr bs, L', ls')"
    using assms(3) by (auto simp: moveToRoom_resume_def moved_def split: prod.splits sum.splits)
  let ?S' = "S\<lparr>waiting := take j (waiting S) @ drop (Suc j) (waiting S)\<rparr>"
  have "g_library (s_game (answer cfg S j)) = L'"
    using finish_exit_game [of cfg ?S' d "moveToRoom_resume cfg env (g_library (s_game S)) (s_ls S) x y"] g assms(2)
    by (simp add: answer_def complete_def moveToRoom_resume_def moved_def)
  then show ?thesis using loadRoom_gen_Inr [OF g] by simp
qed


theorem page_answer_saved_under_current_page_witness:
  "s_ls (answer sample_cfg (the (run_session sample_cfg reading_session
            [EvNextPage (env_answer (js ''Two'')), EvNextPage (env_answer (js ''Three'')), EvAnswer 1])) 0)
     (book_entry new_SaveSystem (book_key 0 0 0 3)) = Some (js ''Two'')"
proof -
  let ?S = "the (run_session sample_cfg reading_session
              [EvNextPage (env_answer (js ''Two'')), EvNextPage (env_answer (js ''Three'')), EvAnswer 1])"
  have w: "0 < length (waiting ?S)" "waiting ?S ! 0 = PageReq (env_answer (js ''Two'')) 0 2 TurnCont"
    by code_simp+
  have b: "book_entry (b_save (heap ?S ! 0)) (book_key (b_roomX (heap ?S ! 0)) (b_roomY (heap ?S ! 0))
              (bookIndex (heap ?S ! 0)) (currentPage (heap ?S ! 0))) = book_entry new_SaveSystem (book_key 0 0 0 3)"
    by code_simp
  have "fst (generateBookContent sample_cfg (env_answer (js ''Two'')) (b_api (heap ?S ! 0)) (s_ls ?S)
              (title (heap ?S ! 0)) 2) = JStr (js ''Two'')"
    by code_simp
  then show ?thesis
    using page_answer_saved_under_current_page [OF w refl, of sample_cfg "JStr (js ''Two'')"] b
    by (simp add: js_def)
qed

theorem exit_answer_books_of_requested_room_witness:
  "currentRoomX (g_library (s_game (answer sample_cfg
       (the (run_session sample_cfg exit_session [EvKeyDown env_titles (js ''e''), EvAnswer 1])) 0))) = 2
   \<and> list_all (\<lambda>b. b_roomX b = 1 \<and> b_roomY b = 0) (books (g_library (s_game (answer sample_cfg
       (the (run_session sample_cfg exit_session [EvKeyDown env_titles (js ''e''), EvAnswer 1])) 0))))"
proof -
  let ?S = "the (run_session sample_cfg exit_session [EvKeyDown env_titles (js ''e''), EvAnswer 1])"
  have w: "0 < length (waiting ?S)" "waiting ?S ! 0 = ExitReq env_titles (js ''east'') 1 0"
    "currentRoomX (g_library (s_game ?S)) = 2"
    "fst (moveToRoom_resume sample_cfg env_titles (g_library (s_game ?S)) (s_ls ?S) 1 0) = Inr True"
    by code_simp+
  then show ?thesis
    using exit_answer_books_of_requested_room [OF w(1,2) w(4)] by (simp add: list_all_iff)
qed

theorem e_at_exit_moves_twice_witness:
  "currentRoomX (g_library (s_game (document_keydown sample_cfg env_titles exit_session (js ''e'')))) = 2
   \<and> currentRoomY (g_library (s_game (document_keydown sample_cfg env_titles exit_session (js ''e'')))) = 0"
proof -
  let ?p = "the (g_player (s_game exit_session))"
  have "g_player (s_game exit_session) \<noteq> None" by code_simp
  then have p: "g_player (s_game exit_session) = Some ?p" by auto
  have h: "isAtExit ?p = Some (js ''east'')"
    "nearbyBookIndex ?p < 0" "\<not> isAtCardCatalog ?p" "bookHidden (s_ui exit_session)"
    "move_target (g_library (s_game exit_session)) (js ''east'') = (1, 0)" "in_grid sample_cfg 1 0"
    "move_target ((g_library (s_game exit_session))\<lparr>currentRoomX := 1, currentRoomY := 0\<rparr>) (js ''east'') = (2, 0)"
    "in_grid sample_cfg 2 0"
    by code_simp+
  show ?thesis using e_at_exit_moves_twice [OF p h] by simp
qed

theorem e_reopens_book_witness:
  "\<not> bookHidden (s_ui (document_keydown sample_cfg env_titles book_session (js ''e'')))
   \<and> currentBook (s_ui (document_keydown sample_cfg env_titles book_session (js ''e''))) = Some 0"
proof -
  let ?p = "the (g_player (s_game book_session))"
  have "g_player (s_game book_session) \<noteq> None" by code_simp
  then have p: "g_player (s_game book_session) = Some ?p" by auto
  have h: "\<not> bookHidden (s_ui book_session)"
    "rat_int (nearbyBookIndex ?p) = Some 0" "0 \<le> (0::int)"
    "0 < int (length (books (g_library (s_game book_session))))" "lib_refs book_session ! nat 0 = 0"
    by code_simp+
  show ?thesis using e_reopens_book [OF h(1) p h(2-4)] h(5) by simp
qed
end
