(* ===== verification/Runs.thy ===== *)
theory Runs
  imports Session
begin

text \<open>
  Properties of whole runs of the page (theory \<open>Session\<close>): every reference the page
  holds stays valid whatever the events and their order, and the backend's answers
  drain the waiting requests. The lemmas state which events keep the library's books,
  which only grow the heap, and which add references.
\<close>

subsection \<open>Lemmas\<close>

lemma loadRoom_gen_books:
  "loadRoom_gen cfg env L ls x y = (Inl e, L', ls') \<Longrightarrow> books L' = books L"
  by (auto simp: loadRoom_gen_def Let_def enter_room_def split: prod.splits sum.splits)

lemma loadRoom_begin_books:
  "loadRoom_begin cfg env L ls x y = Settled (Inl e, L', ls') \<Longrightarrow> books L' = books L"
  "loadRoom_begin cfg env L ls x y = Pending (L1, w) \<Longrightarrow> books L1 = books L"
  by (auto simp: loadRoom_begin_def Let_def enter_room_def dest: loadRoom_gen_books
      split: prod.splits sum.splits if_splits)

lemma moved_books: "fst (moved r) \<noteq> Inr True \<Longrightarrow> \<exists>e. r = (Inl e, fst (snd r), snd (snd r))"
  by (auto simp: moved_def split: prod.splits sum.splits)

lemma moveToRoom_begin_books:
  "moveToRoom_begin cfg env L ls d = Settled r \<Longrightarrow> fst r \<noteq> Inr True \<Longrightarrow> books (fst (snd r)) = books L"
  "moveToRoom_begin cfg env L ls d = Pending (L1, w) \<Longrightarrow> books L1 = books L"
  by (auto simp: moveToRoom_begin_def moved_def dest: loadRoom_begin_books
      split: prod.splits if_splits async.splits sum.splits)

lemma moveToRoom_resume_books:
  "fst (moveToRoom_resume cfg env L ls x y) \<noteq> Inr True \<Longrightarrow>
   books (fst (snd (moveToRoom_resume cfg env L ls x y))) = books L"
  by (auto simp: moveToRoom_resume_def moved_def dest: loadRoom_gen_books split: prod.splits sum.splits)

lemma show_event_currentBook [simp]: "currentBook (show_event L U ev) = currentBook U"
  by (cases ev) (simp_all add: showCharacterCreation_def showStoryDialog_def showCardCatalog_def
      showNotification_def)

lemma show_events_currentBook [simp]: "currentBook (show_events L U evs) = currentBook U"
  by (induction evs arbitrary: U) (simp_all add: show_events_def)

text \<open>The references held outside the library: the open book and the waiting pages.\<close>

definition refs_ok :: "nat \<Rightarrow> session \<Rightarrow> bool" where
  "refs_ok n S \<longleftrightarrow>
     pred_option (\<lambda>r. r < n) (currentBook (s_ui S))
     \<and> list_all (req_ok n) (waiting S)"

lemma session_wf_refs:
  "session_wf S \<longleftrightarrow>
     length (lib_refs S) = length (books (g_library (s_game S)))
     \<and> list_all (\<lambda>r. r < length (heap S)) (lib_refs S) \<and> refs_ok (length (heap S)) S"
  by (simp add: session_wf_def refs_ok_def)

lemma session_wf_ui:
  "currentBook U = currentBook (s_ui S) \<Longrightarrow> session_wf (S\<lparr>s_ui := U\<rparr>) = session_wf S"
  by (simp add: session_wf_def)

lemma session_wf_player [simp]:
  "session_wf (S\<lparr>s_game := (s_game S)\<lparr>g_player := p\<rparr>\<rparr>) = session_wf S"
  by (simp add: session_wf_def)

lemma session_wf_game:
  "g_library G' = g_library (s_game S) \<Longrightarrow> session_wf (S\<lparr>s_game := G', s_ls := ls'\<rparr>) = session_wf S"
  "g_library G' = g_library (s_game S) \<Longrightarrow> session_wf (S\<lparr>s_game := G'\<rparr>) = session_wf S"
  by (simp_all add: session_wf_def)

lemma session_wf_frame [simp]:
  "session_wf (S\<lparr>s_canvas := c\<rparr>) = session_wf S" "session_wf (S\<lparr>framePending := b\<rparr>) = session_wf S"
  "session_wf (S\<lparr>s_errors := es\<rparr>) = session_wf S"
  by (simp_all add: session_wf_def)

lemma session_wf_closeBook [simp]: "session_wf S \<Longrightarrow> session_wf (S\<lparr>s_ui := closeBook (s_ui S)\<rparr>)"
  by (simp add: session_wf_def closeBook_def)

lemma req_ok_mono: "req_ok n q \<Longrightarrow> n \<le> m \<Longrightarrow> req_ok m q"
  by (cases q) simp_all

lemma alloc_books_wf: "refs_ok (length (heap S)) S \<Longrightarrow> session_wf (alloc_books S)"
  by (auto simp: session_wf_refs alloc_books_def Let_def list_all_iff refs_ok_def
      elim!: option.pred_mono_strong req_ok_mono)

lemma finish_exit_wf:
  assumes "session_wf S" and "fst r \<noteq> Inr True \<Longrightarrow> books (fst (snd r)) = books (g_library (s_game S))"
  shows "session_wf (finish_exit cfg S d r)"
proof -
  obtain res G' ls' evs where x: "exit_arrival cfg (s_game S) d r = (res, G', ls', evs)"
    by (metis prod.collapse)
  have g: "g_library G' = fst (snd r)" using exit_arrival_game [of cfg "s_game S" d r] x by simp
  let ?S1 = "report res (S\<lparr>s_game := G', s_ls := ls', s_ui := show_events (g_library G') (s_ui S) evs\<rparr>)"
  have r1: "refs_ok (length (heap ?S1)) ?S1" using assms(1) by (simp add: session_wf_refs refs_ok_def)
  show ?thesis
  proof (cases "fst r = Inr True")
    case True
    then show ?thesis using r1 x by (simp add: finish_exit_def alloc_books_wf)
  next
    case False
    then show ?thesis using assms x g by (simp add: finish_exit_def session_wf_refs refs_ok_def)
  qed
qed

lemma exit_begin_wf:
  assumes "session_wf S" shows "session_wf (exit_begin cfg env S d)"
proof (cases "moveToRoom_begin cfg env (g_library (s_game S)) (s_ls S) d")
  case (Settled r)
  then show ?thesis
    using moveToRoom_begin_books(1) [OF Settled] by (simp add: exit_begin_def finish_exit_wf [OF assms])
next
  case (Pending w)
  moreover obtain L1 ls1 x y where "w = (L1, ls1, x, y)" by (cases w) auto
  ultimately show ?thesis
    using assms moveToRoom_begin_books(2) [of cfg env "g_library (s_game S)" "s_ls S" d L1 "(ls1, x, y)"]
    by (simp add: exit_begin_def session_wf_def)
qed

lemma page_done_wf: "session_wf S \<Longrightarrow> session_wf (page_done S r k res)"
  by (auto simp: page_done_def session_wf_def Let_def split: prod.splits sum.splits view_cont.splits option.splits)

lemma page_start_wf:
  assumes "session_wf S" and "r < length (heap S)" shows "session_wf (page_start S env r k a)"
proof (cases a)
  case (Settled res)
  then show ?thesis using page_done_wf [OF assms(1)] by (simp add: page_start_def)
next
  case (Pending w)
  then show ?thesis using assms by (cases w) (auto simp: page_start_def session_wf_def)
qed

lemma open_book_wf:
  assumes "session_wf S" and "r < length (heap S)" shows "session_wf (open_book cfg env S r)"
proof -
  have "session_wf (S\<lparr>s_ui := ui_openBook (s_ui S) r (currentPage (heap S ! r))\<rparr>)"
    using assms by (simp add: session_wf_def ui_openBook_def)
  then show ?thesis using assms(2) unfolding open_book_def Let_def by (intro page_start_wf) simp_all
qed

lemma lib_ref_valid:
  "session_wf S \<Longrightarrow> 0 \<le> i \<Longrightarrow> i < int (length (books (g_library (s_game S)))) \<Longrightarrow>
   lib_refs S ! nat i < length (heap S)"
  by (auto simp: session_wf_def list_all_length)

lemma interaction_target_Book:
  "interaction_target G = Interact_Book i b \<Longrightarrow> 0 \<le> i \<and> i < int (length (books (g_library G)))"
  by (auto simp: interaction_target_def getBook_def Let_def split: option.splits if_splits)

lemma session_interaction_wf:
  assumes "session_wf S" shows "session_wf (session_interaction cfg env S)"
proof (cases "interaction_target (s_game S)")
  case (Interact_Book i b)
  then show ?thesis
    using assms interaction_target_Book [OF Interact_Book]
    by (simp add: session_interaction_def open_book_wf lib_ref_valid)
next
  case (Interact_Catalog c)
  then show ?thesis
    using assms by (simp add: session_interaction_def showCardCatalog_def showStoryDialog_def session_wf_ui)
next
  case (Interact_Exit d)
  then show ?thesis using assms by (simp add: session_interaction_def exit_begin_wf)
next
  case Interact_None
  then show ?thesis using assms by (simp add: session_interaction_def)
qed

lemma document_keydown_wf:
  assumes "session_wf S" shows "session_wf (document_keydown cfg env S k)"
proof -
  have "session_wf (S\<lparr>s_ui := closeBook (s_ui S)\<rparr>)" using assms by (simp add: session_wf_def closeBook_def)
  then have u: "session_wf (ui_keydown cfg env S k)"
    using assms by (simp add: ui_keydown_def session_interaction_wf)
  show ?thesis
  proof (cases "g_player (s_game (ui_keydown cfg env S k))")
    case None
    then show ?thesis using u by (simp add: document_keydown_def game_keydown_def)
  next
    case (Some p)
    then show ?thesis using u by (simp add: document_keydown_def game_keydown_def Let_def session_interaction_wf)
  qed
qed

lemma turnPage_wf:
  assumes "session_wf S" shows "session_wf (turnPage cfg env S d)"
proof (cases "currentBook (s_ui S)")
  case (Some r)
  have w: "session_wf (S\<lparr>s_ui := (s_ui S)\<lparr>bookView := PageTurning\<rparr>\<rparr>)" using assms by (simp add: session_wf_ui)
  from assms Some have "r < length (heap S)" by (simp add: session_wf_def)
  with Some show ?thesis
    unfolding turnPage_def Let_def using page_start_wf [OF w] by simp
qed (simp add: turnPage_def assms)

lemma catalog_click_wf:
  assumes "session_wf S" shows "session_wf (catalog_click cfg env S i)"
proof (cases "getBook (g_library (s_game S)) i")
  case (Some b)
  then have "0 \<le> i" "i < int (length (books (g_library (s_game S))))" by (simp_all add: getBook_def split: if_splits)
  moreover have "session_wf (S\<lparr>s_ui := hideDialog (s_ui S)\<rparr>)"
    using assms by (simp add: session_wf_def hideDialog_def)
  ultimately show ?thesis
    using Some assms by (simp add: catalog_click_def open_book_wf lib_ref_valid)
qed (simp add: catalog_click_def assms)

lemma start_click_wf:
  assumes "session_wf S" and "start_click cfg e1 e2 S n d date sx sy rx ry k = Some S'"
  shows "session_wf S'"
proof (cases "character_inputs n d")
  case (Inl msg)
  then show ?thesis using assms by (auto simp: start_click_def session_wf_ui)
next
  case (Inr nd)
  have r: "refs_ok (length (heap S)) S" using assms(1) by (simp add: session_wf_refs)
  show ?thesis
    using assms(2) Inr r
    by (auto simp: start_click_def Let_def refs_ok_def hideCharacterCreation_def intro!: alloc_books_wf
        split: prod.splits option.splits)
qed

lemma gameLoop_library:
  "gameLoop cfg G ls t = Some (G', ls') \<Longrightarrow> g_library G' = g_library G"
  by (auto simp: gameLoop_def game_update_def Let_def split: if_splits option.splits)

lemma answer_wf: "session_wf S \<Longrightarrow> i < length (waiting S) \<Longrightarrow> session_wf (answer cfg S i)"
proof -
  assume wf: "session_wf S" and i: "i < length (waiting S)"
  let ?S' = "S\<lparr>waiting := take i (waiting S) @ drop (Suc i) (waiting S)\<rparr>"
  have wf': "session_wf ?S'"
    using wf by (auto simp: session_wf_def list_all_iff dest: in_set_takeD in_set_dropD)
  have "list_all (req_ok (length (heap S))) (waiting S)"
    using wf by (simp add: session_wf_def)
  then have q: "req_ok (length (heap S)) (waiting S ! i)"
    using i by (simp add: list_all_length)
  show "session_wf (answer cfg S i)"
    using wf' q
    by (auto simp: answer_def complete_def intro!: finish_exit_wf page_done_wf moveToRoom_resume_books
        split: request.splits)
qed

lemma frame_session_wf:
  "frame cfg (s_game S) (s_ls S) c t = Some (G', ls', c', e, n) \<Longrightarrow>
     session_wf (S\<lparr>s_game := G', s_ls := ls'\<rparr>) = session_wf S"
proof -
  assume "frame cfg (s_game S) (s_ls S) c t = Some (G', ls', c', e, n)"
  then have "g_library G' = g_library (s_game S)" by (blast dest: frame_gameLoop gameLoop_library)
  then show ?thesis by (rule session_wf_game(1))
qed

lemma dispatch_frame_wf: "session_wf S \<Longrightarrow> dispatch cfg S (EvFrame t) = Some S' \<Longrightarrow> session_wf S'"
  by (auto simp: frame_session_wf Let_def split: if_splits option.splits)

lemma dispatch_wf:
  assumes "session_wf S" and "dispatch cfg S e = Some S'" shows "session_wf S'"
  using assms
  by (cases e) (auto simp: dispatch_frame_wf document_keydown_wf turnPage_wf catalog_click_wf answer_wf session_wf_game
      session_wf_ui game_handleKeyUp_def dialog_close_def hideDialog_def startGameLoop_def notification_timeout_def Let_def
      dest: start_click_wf split: if_splits option.splits)

lemma page_load_wf: "page_load cfg env ls sx sy now = Some S \<Longrightarrow> session_wf S"
  by (auto simp: page_load_def new_session_def new_UIHandler_def refs_ok_def Let_def
      intro!: alloc_books_wf split: option.splits prod.splits)

lemma answer_waiting: "i < length (waiting S) \<Longrightarrow> length (waiting (answer cfg S i)) = length (waiting S) - 1"
  by (auto simp: answer_def complete_def finish_exit_def page_done_def Let_def
      split: request.splits prod.splits sum.splits view_cont.splits option.splits)

lemma startGame_shows_waiting:
  "startGame cfg e1 e2 G ls n d date sx sy rx ry k = Some (res, G', ls', evs) \<Longrightarrow>
   isRunning G' = isRunning G \<and> ShowWaiting \<in> set evs"
  by (auto simp: startGame_def Let_def split: option.splits prod.splits sum.splits if_splits)

lemma show_event_story_kept: "storyDialogShowing U \<Longrightarrow> storyDialogShowing (show_event L U ev)"
  by (cases ev) (simp_all add: showCharacterCreation_def showStoryDialog_def showCardCatalog_def showNotification_def)

lemma show_events_waiting: "ShowWaiting \<in> set evs \<Longrightarrow> storyDialogShowing (show_events L U evs)"
proof (induction evs arbitrary: U)
  case (Cons ev evs)
  have keep: "storyDialogShowing U' \<Longrightarrow> storyDialogShowing (show_events L U' evs)" for U'
    by (induction evs arbitrary: U') (simp_all add: show_events_def show_event_story_kept)
  show ?case
  proof (cases "ev = ShowWaiting")
    case True
    then show ?thesis using keep by (simp add: show_events_def showStoryDialog_def)
  next
    case False
    with Cons show ?thesis by (simp add: show_events_def)
  qed
qed simp

lemma run_session_wf: "session_wf S \<Longrightarrow> run_session cfg S es = Some S' \<Longrightarrow> session_wf S'"
proof (induction es arbitrary: S)
  case (Cons e es)
  then show ?case by (auto dest: dispatch_wf split: option.splits)
qed simp

subsection \<open>The animation loop\<close>

text \<open>
  Only a frame asks for the next one. Every other event keeps whether the game runs and
  whether a frame is requested, except the dialog's close button on a game that does not
  run yet; so once a running game has no frame requested, none is ever requested again.
\<close>

lemma loop_fields [simp]:
  "framePending (report r S) = framePending S" "framePending (alloc_books S) = framePending S"
  by (simp_all add: report_def alloc_books_def Let_def split: sum.split)

lemma exit_arrival_running:
  "exit_arrival cfg G d r = (res, G', ls', evs) \<Longrightarrow> isRunning G' = isRunning G"
  by (auto simp: exit_arrival_def Let_def split: prod.splits sum.splits bool.splits option.splits)

lemma finish_exit_loop [simp]:
  "isRunning (s_game (finish_exit cfg S d r)) = isRunning (s_game S) \<and> framePending (finish_exit cfg S d r) = framePending S"
  by (auto simp: finish_exit_def Let_def dest: exit_arrival_running split: prod.split)

lemma exit_begin_loop [simp]:
  "isRunning (s_game (exit_begin cfg env S d)) = isRunning (s_game S) \<and> framePending (exit_begin cfg env S d) = framePending S"
  by (simp add: exit_begin_def split: async.split prod.split)

lemma page_done_loop [simp]:
  "s_game (page_done S r k res) = s_game S \<and> framePending (page_done S r k res) = framePending S"
  by (simp add: page_done_def Let_def split: prod.split sum.split view_cont.split option.split)

lemma page_start_loop [simp]:
  "s_game (page_start S env r k a) = s_game S \<and> framePending (page_start S env r k a) = framePending S"
  by (simp add: page_start_def split: async.split prod.split)

lemma open_book_loop [simp]:
  "s_game (open_book cfg env S r) = s_game S \<and> framePending (open_book cfg env S r) = framePending S"
  by (simp add: open_book_def Let_def)

lemma turnPage_loop [simp]:
  "s_game (turnPage cfg env S d) = s_game S \<and> framePending (turnPage cfg env S d) = framePending S"
  by (simp add: turnPage_def Let_def split: option.split)

lemma session_interaction_loop [simp]:
  "isRunning (s_game (session_interaction cfg env S)) = isRunning (s_game S)
   \<and> framePending (session_interaction cfg env S) = framePending S"
  by (simp add: session_interaction_def split: interaction.split)

lemma document_keydown_loop [simp]:
  "isRunning (s_game (document_keydown cfg env S k)) = isRunning (s_game S)
   \<and> framePending (document_keydown cfg env S k) = framePending S"
  by (simp add: document_keydown_def ui_keydown_def game_keydown_def Let_def split: option.split)

lemma catalog_click_loop [simp]:
  "s_game (catalog_click cfg env S i) = s_game S \<and> framePending (catalog_click cfg env S i) = framePending S"
  by (simp add: catalog_click_def split: option.split)

lemma answer_loop [simp]:
  "isRunning (s_game (answer cfg S i)) = isRunning (s_game S) \<and> framePending (answer cfg S i) = framePending S"
  by (simp add: answer_def complete_def split: request.split)

lemma startGame_running:
  "startGame cfg e1 e2 G ls n d t sx sy rx ry k = Some (r, G', ls', evs) \<Longrightarrow> isRunning G' = isRunning G"
  by (auto simp: startGame_def Let_def split: option.splits prod.splits sum.splits if_splits)

lemma start_click_loop:
  "start_click cfg e1 e2 S n d t sx sy rx ry k = Some S' \<Longrightarrow>
     isRunning (s_game S') = isRunning (s_game S) \<and> framePending S' = framePending S"
  by (auto simp: start_click_def Let_def dest: startGame_running split: sum.splits option.splits prod.splits)

lemma dispatch_loop_stopped:
  assumes "dispatch cfg S e = Some S'" and "isRunning (s_game S)" and "\<not> framePending S"
  shows "isRunning (s_game S') \<and> \<not> framePending S'"
proof (cases e)
  case (EvStart e1 e2 n d t sx sy rx ry k)
  then show ?thesis using assms start_click_loop [of cfg e1 e2 S n d t sx sy rx ry k S'] by simp
next
  case (EvDialogClose now)
  then show ?thesis using assms by (auto simp: dialog_close_def Let_def)
next
  case (EvKeyUp k)
  then show ?thesis using assms by (auto simp: game_handleKeyUp_def split: option.splits)
qed (use assms in \<open>auto split: if_splits\<close>)

lemma run_loop_stopped:
  "run_session cfg S es = Some S' \<Longrightarrow> isRunning (s_game S) \<Longrightarrow> \<not> framePending S \<Longrightarrow>
     isRunning (s_game S') \<and> \<not> framePending S'"
proof (induction es arbitrary: S)
  case (Cons e es)
  then obtain S1 where "dispatch cfg S e = Some S1" "run_session cfg S1 es = Some S'"
    by (auto split: option.splits)
  with Cons.IH Cons.prems(2,3) dispatch_loop_stopped show ?case by blast
qed simp

lemma frame_error_stops_page:
  assumes "isRunning (s_game S)" and "framePending S"
    and "frame cfg (s_game S) (s_ls S) (s_canvas S) t = Some (G', ls', c', Some e, n)"
    and "run_session cfg S (EvFrame t # es) = Some S'"
  shows "dispatch cfg S' (EvFrame t') = None"
proof -
  let ?S1 = "S\<lparr>s_game := G', s_ls := ls', s_canvas := c', framePending := n, s_errors := s_errors S @ [e]\<rparr>"
  have "run_session cfg ?S1 es = Some S'" using assms(2-4) by simp
  moreover have "isRunning (s_game ?S1)" "\<not> framePending ?S1" using frame_error [OF assms(3)] assms(1) by simp_all
  ultimately have "\<not> framePending S'" using run_loop_stopped by blast
  then show ?thesis by simp
qed

subsection \<open>Notifications on the page\<close>

text \<open>
  One press of E at the east exit of room (0, 0) takes the exit twice (C30); the two
  answers show \<open>Entered room (1, 0)\<close> and \<open>Entered room (2, 0)\<close>, and the timer of
  the first hides the second while the second's own timer is still pending.
\<close>

lemma exit_notifications_hidden_early:
  "map_option (\<lambda>S. (notification (s_ui S), notificationShown (s_ui S), notificationTimers (s_ui S)))
     (run_session sample_cfg exit_session [EvKeyDown env_titles (js ''e''), EvAnswer 0, EvAnswer 0, EvTimeout])
   = Some (Some (js ''Entered room (2, 0)''), False, 1)"
  by code_simp

subsection \<open>Properties of runs\<close>



text \<open>
  C37: The story flow the interface tests (uitests.js, \<open>testStoryFlow\<close>) expect: a valid
  character form starts the game with the story dialog showing and the game loop not yet
  running, and closing that dialog starts the loop.
\<close>

theorem story_dialog_starts_loop:
  assumes "start_click cfg e1 e2 S n d date sx sy rx ry k = Some S1" and "character_inputs n d = Inr nd"
    and "\<not> isRunning (s_game S)"
  shows "\<not> isRunning (s_game S1) \<and> storyDialogShowing (s_ui S1) \<and> isRunning (s_game (dialog_close S1 now))"
proof -
  obtain name desc where nd: "nd = (name, desc)" by (cases nd)
  from assms(1,2) nd obtain res G' ls' evs where
    sg: "startGame cfg e1 e2 (s_game S) (s_ls S) name desc date sx sy rx ry k = Some (res, G', ls', evs)" and
    s1: "S1 = alloc_books (report res (S\<lparr>s_game := G', s_ls := ls',
            s_ui := show_events (g_library G') (hideCharacterCreation (s_ui S)) evs\<rparr>))"
    by (auto simp: start_click_def Let_def split: option.splits prod.splits)
  have "\<not> isRunning G'" "storyDialogShowing (s_ui S1)"
    using startGame_shows_waiting [OF sg] assms(3) s1 show_events_waiting by auto
  then show ?thesis
    using s1 by (simp add: dialog_close_def hideDialog_def startGameLoop_def Let_def)
qed

theorem story_dialog_starts_loop_witness:
  "\<not> isRunning (s_game (the (start_click sample_cfg env_titles env_titles (new_session sample_store)
       (js ''Ann'') (js ''scribe'') (js ''2024'') 0 0 3 4 2)))
   \<and> isRunning (s_game (dialog_close (the (start_click sample_cfg env_titles env_titles (new_session sample_store)
       (js ''Ann'') (js ''scribe'') (js ''2024'') 0 0 3 4 2)) 5))"
proof -
  have "start_click sample_cfg env_titles env_titles (new_session sample_store)
          (js ''Ann'') (js ''scribe'') (js ''2024'') 0 0 3 4 2 \<noteq> None" by code_simp
  then obtain S1 where s: "start_click sample_cfg env_titles env_titles (new_session sample_store)
          (js ''Ann'') (js ''scribe'') (js ''2024'') 0 0 3 4 2 = Some S1" by auto
  have c: "character_inputs (js ''Ann'') (js ''scribe'') = Inr (js ''Ann'', js ''scribe'')" by code_simp
  have r: "\<not> isRunning (s_game (new_session sample_store))" by (simp add: new_session_def new_Game_def)
  show ?thesis using story_dialog_starts_loop [OF s c r, of 5] s by simp
qed


end
