(* ===== verification/Tests.thy ===== *)
theory Tests
  imports Ui
begin

text \<open>
  The interface tests: class \<open>UITests\<close> of src/src/js/uitests.js, run by
  \<open>window.runBabelTests\<close> of src/src/js/test.js after the main suite. The tests drive a
  real \<open>UIHandler\<close> (the model of theory \<open>Ui\<close>, over the elements \<open>createTestDOM\<close>
  builds, which start hidden as \<open>new_UIHandler\<close> has them) with a mock game. The
  counters are the record \<open>ui_tests\<close>; console output is left out.

  \<open>testStoryFlow\<close> replaces methods of the objects it tests. Its part of the world is
  the record \<open>story_mock\<close>: the two flags the test sets from its replacements, the mock
  game's \<open>isRunning\<close>, and the handler's \<open>_isStoryDialogShowing\<close>. The mock
  \<open>startGame\<close> of \<open>createMockGame\<close> (line 55) is \<open>async () => {}\<close>: it shows nothing.
\<close>

record ui_tests =
  testsRun :: nat
  testsPassed :: nat
  testsFailed :: nat

definition new_UITests :: ui_tests where
  "new_UITests = \<lparr>testsRun = 0, testsPassed = 0, testsFailed = 0\<rparr>"

text \<open>\<open>assert\<close>, lines 159 to 171.\<close>

definition ui_assert :: "ui_tests \<Rightarrow> bool \<Rightarrow> ui_tests" where
  "ui_assert T condition =
     (if condition then T\<lparr>testsRun := Suc (testsRun T), testsPassed := Suc (testsPassed T)\<rparr>
      else T\<lparr>testsRun := Suc (testsRun T), testsFailed := Suc (testsFailed T)\<rparr>)"

text \<open>
  \<open>testDialogBehavior\<close>, lines 173 to 198: the dialog shows the content it is given
  (\<open>innerHTML\<close> of a plain string is that string) and hides again.
\<close>

definition testDialogBehavior :: "ui_tests \<Rightarrow> ui \<Rightarrow> ui_tests \<times> ui" where
  "testDialogBehavior T U =
     (let U1 = showStoryDialog U (StoryView (JStr (js ''Test content'')));
          T1 = ui_assert T (\<not> dialogHidden U1);
          T2 = ui_assert T1 (dialog U1 = StoryView (JStr (js ''Test content'')));
          U2 = hideDialog U1;
          T3 = ui_assert T2 (dialogHidden U2)
      in (T3, U2))"

text \<open>
  \<open>testBookContainerBehavior\<close>, lines 200 to 242, with the mock book at reference
  \<open>r\<close> (its \<open>currentPage\<close> is 1); its page arrives after the assertions and
  changes none of the fields they read. The class \<open>hidden\<close> and \<open>style.display\<close> of the
  book container change together in \<open>openBook\<close> and \<open>closeBook\<close>; both are
  \<open>bookHidden\<close>.
\<close>

definition testBookContainerBehavior :: "ui_tests \<Rightarrow> ui \<Rightarrow> nat \<Rightarrow> ui_tests \<times> ui" where
  "testBookContainerBehavior T U r =
     (let U1 = ui_openBook U r 1;
          T1 = ui_assert T (\<not> bookHidden U1);
          T2 = ui_assert T1 (currentBook U1 = Some r);
          U2 = closeBook U1;
          T3 = ui_assert T2 (bookHidden U2);
          T4 = ui_assert T3 (bookHidden U2);
          T5 = ui_assert T4 (currentBook U2 = None)
      in (T5, U2))"

record story_mock =
  storyDialogShown :: bool
  gameLoopStarted :: bool
  mock_isRunning :: bool
  isStoryDialogShowing :: bool

text \<open>
  Lines 294 to 303: the click on the close button runs the dialog's close listener
  (ui.js lines 30 to 39), and the manual simulation of the other branch does the same,
  once the test has replaced \<open>hideDialog\<close> (lines 261 to 264: it clears
  \<open>_isStoryDialogShowing\<close>) and \<open>startGameLoop\<close> (lines 266 to 269).
\<close>

definition mock_dialog_close :: "story_mock \<Rightarrow> story_mock" where
  "mock_dialog_close M =
     (let M1 = M\<lparr>isStoryDialogShowing := False\<rparr>
      in if isStoryDialogShowing M1 \<and> \<not> mock_isRunning M1
         then M1\<lparr>isStoryDialogShowing := False, gameLoopStarted := True, mock_isRunning := True\<rparr>
         else M1)"

text \<open>
  \<open>testStoryFlow\<close>, lines 244 to 317: the replacements, the mock \<open>startGame\<close>, the
  three assertions around the click on the close button (a button element has
  \<open>click\<close>). The methods restored at the end change no counter.
\<close>

definition testStoryFlow :: "ui_tests \<Rightarrow> bool \<Rightarrow> ui \<Rightarrow> ui_tests" where
  "testStoryFlow T running U =
     (let M0 = \<lparr>storyDialogShown = False, gameLoopStarted = False, mock_isRunning = running,
                isStoryDialogShowing = storyDialogShowing U\<rparr>;
          T1 = ui_assert T (storyDialogShown M0);
          T2 = ui_assert T1 (\<not> gameLoopStarted M0);
          M1 = mock_dialog_close M0;
          T3 = ui_assert T2 (gameLoopStarted M1)
      in T3)"

text \<open>
  \<open>runTests\<close>, lines 7 to 33: the three groups on a handler over the test elements, the
  mock game not running. The function has no \<open>return\<close>: its promise resolves to
  \<open>undefined\<close>; the summary and \<open>return this.testsFailed === 0\<close> stand after the
  \<open>return mockGame\<close> of \<open>createMockGame\<close> (lines 60 to 65) and never run.
\<close>

definition runTests :: "nat \<Rightarrow> ui_tests \<times> jsval" where
  "runTests r =
     (let (T1, U1) = testDialogBehavior new_UITests new_UIHandler;
          (T2, U2) = testBookContainerBehavior T1 U1 r
      in (testStoryFlow T2 False U2, JUndef))"

text \<open>
  \<open>window.runBabelTests\<close>, test.js lines 342 to 355: \<open>mainTestsResult && uiTestsResult\<close>,
  the value its promise resolves to: the first operand when it is falsy, the second otherwise.
\<close>

definition runBabelTests :: "jsval \<Rightarrow> jsval" where
  "runBabelTests mainTestsResult =
     (let uiTestsResult = snd (runTests 0)
      in if js_truthy mainTestsResult then uiTestsResult else mainTestsResult)"

subsection \<open>What the interface tests report\<close>

text \<open>
  The dialog and book groups pass. The story group fails twice whatever the handler: the
  mock \<open>startGame\<close> never shows the story dialog, and the replaced \<open>hideDialog\<close>
  clears \<open>_isStoryDialogShowing\<close> before the listener tests it, so the loop never
  starts.
\<close>

lemma testStoryFlow_fails:
  "testStoryFlow T running U =
     T\<lparr>testsRun := testsRun T + 3, testsPassed := Suc (testsPassed T), testsFailed := testsFailed T + 2\<rparr>"
  by (simp add: testStoryFlow_def ui_assert_def mock_dialog_close_def Let_def)

lemma uitests_counts:
  "fst (runTests r) = \<lparr>testsRun = 11, testsPassed = 9, testsFailed = 2\<rparr>"
  by (simp add: runTests_def testDialogBehavior_def testBookContainerBehavior_def testStoryFlow_fails
      ui_assert_def new_UITests_def showStoryDialog_def hideDialog_def ui_openBook_def closeBook_def Let_def)

text \<open>Whatever the main suite answers, the combined result is falsy.\<close>

lemma runBabelTests_never_passes: "\<not> js_truthy (runBabelTests m)"
  by (simp add: runBabelTests_def runTests_def Let_def split: prod.split)

end
