(* ===== verification/Debug.thy ===== *)
theory Debug
  imports Prelude
begin

text \<open>
  The error overlay of src/src/js/debug.js: \<open>window.onerror\<close> adds a box showing the
  message, source, line and column to the document's body, with a close button that
  removes that box. The body is reduced to the boxes on it, each named by the order of
  its creation; styles and console output are left out. \<open>window.onerror\<close> runs for
  exceptions that leave a synchronous callback, such as the animation frame of theory
  \<open>Render\<close>; rejections of promises (the asynchronous handlers of theory \<open>Session\<close>)
  raise \<open>unhandledrejection\<close> instead and show no box.
\<close>

record error_box =
  box_id :: nat
  innerHTML :: jstr

record body =
  boxes :: "error_box list"
  created :: nat

definition new_body :: body where
  "new_body = \<lparr>boxes = [], created = 0\<rparr>"

text \<open>Line 21: the message and source are put into the HTML as they are.\<close>

definition error_html :: "jstr \<Rightarrow> jstr \<Rightarrow> nat \<Rightarrow> nat \<Rightarrow> jstr" where
  "error_html message source lineno colno =
     js ''<strong>Error:</strong> '' @ message @ js ''<br><strong>Source:</strong> '' @ source @
     js ''<br><strong>Line:</strong> '' @ js_of_nat lineno @ js '', <strong>Column:</strong> '' @ js_of_nat colno"

text \<open>Lines 2 to 35: a new box on the body; \<open>false\<close> lets the default handling go on.\<close>

definition window_onerror :: "body \<Rightarrow> jstr \<Rightarrow> jstr \<Rightarrow> nat \<Rightarrow> nat \<Rightarrow> body \<times> bool" where
  "window_onerror B message source lineno colno =
     (B\<lparr>boxes := boxes B @ [\<lparr>box_id = created B, innerHTML = error_html message source lineno colno\<rparr>],
        created := Suc (created B)\<rparr>, False)"

text \<open>
  Lines 29 to 31: the close button of box \<open>i\<close> removes it; the button is inside the box,
  so it is only clicked while the box is on the body.
\<close>

definition close_box :: "body \<Rightarrow> nat \<Rightarrow> body" where
  "close_box B i = B\<lparr>boxes := filter (\<lambda>b. box_id b \<noteq> i) (boxes B)\<rparr>"

text \<open>Every box has its own name, given before the next one was created.\<close>

definition body_wf :: "body \<Rightarrow> bool" where
  "body_wf B \<longleftrightarrow> distinct (map box_id (boxes B)) \<and> list_all (\<lambda>b. box_id b < created B) (boxes B)"

subsection \<open>Lemmas\<close>

lemma new_body_wf: "body_wf new_body"
  by (simp add: body_wf_def new_body_def)

lemma window_onerror_wf: "body_wf B \<Longrightarrow> body_wf (fst (window_onerror B m s l c))"
  by (auto simp: body_wf_def window_onerror_def list_all_iff)

lemma close_box_wf: "body_wf B \<Longrightarrow> body_wf (close_box B i)"
  by (auto simp: body_wf_def close_box_def list_all_iff distinct_map_filter)

text \<open>Each error adds one box at the end, and the handler never cancels the default.\<close>

lemma window_onerror_adds:
  "window_onerror B m s l c = (B', r) \<Longrightarrow>
     \<not> r \<and> boxes B' = boxes B @ [\<lparr>box_id = created B, innerHTML = error_html m s l c\<rparr>]"
  by (auto simp: window_onerror_def)

text \<open>Closing a box removes that box and keeps the others in their order.\<close>

lemma close_box_removes:
  assumes "body_wf B" and "boxes B = bs1 @ b # bs2"
  shows "boxes (close_box B (box_id b)) = bs1 @ bs2"
proof -
  have "box_id b \<notin> box_id ` set bs1" "box_id b \<notin> box_id ` set bs2"
    using assms by (auto simp: body_wf_def)
  then have "filter (\<lambda>x. box_id x \<noteq> box_id b) bs1 = bs1" "filter (\<lambda>x. box_id x \<noteq> box_id b) bs2 = bs2"
    by (metis (mono_tags, lifting) filter_id_conv image_eqI)+
  then show ?thesis using assms(2) by (simp add: close_box_def)
qed

end
