(* ===== verification/Spec2Isabelle.thy ===== *)
theory Spec2Isabelle
  imports Runs Render Tests Debug
begin

text \<open>
  \<^bold>\<open>A verification library for the Library of Babel game\<close> (src/src/js).

  \<^bold>\<open>The program.\<close> A browser game over a 256 by 256 grid of rooms, each holding a
  catalog of 100 book titles whose pages are generated on demand. The core is the
  lazy-generation-with-persistent-cache protocol: the room manager (\<open>Library\<close>,
  library.js) and the book pager (\<open>Book\<close>, book.js) look a catalog or a page up in
  the content store (\<open>SaveSystem\<close>, save.js, over \<open>localStorage\<close>), and on a
  miss ask the generation client (\<open>APIHandler\<close>, api.js) for content, normalise it
  and write it back. Every \<open>Library\<close>, \<open>Book\<close> and \<open>Game\<close> object owns its own
  \<open>APIHandler\<close> and \<open>SaveSystem\<close>; they share only \<open>localStorage\<close>. The game
  controller (game.js) creates the character and embeds its story in a random book.

  \<^bold>\<open>Theories and correspondence.\<close> Each object is a record of its fields, each
  method a function from the object, the storage and (where the method reads the
  browser) an environment record to an outcome, the updated object and the updated
  storage; an escaping exception is an \<open>Inl\<close> outcome. Within one method an
  \<open>await\<close> is a sequential composition; across the page's events (theory
  \<open>Session\<close>) a method is split where it waits for the backend.
  \<^item> \<open>Prelude\<close>: JavaScript strings as lists of UTF-16 code units and the string
    built-ins the code calls (\<open>trim\<close>, \<open>indexOf\<close>, \<open>substring\<close>, \<open>split\<close>,
    \<open>includes\<close>, \<open>replace\<close>); decimal printing of integers; the two normalising
    \<open>while\<close> loops of library.js as \<open>pop_while\<close> and \<open>push_while\<close> (the latter a
    \<open>function\<close> with a measure), with their closed forms and their \<open>while_option\<close>
    forms, which return (\<open>while_option_pop_while\<close>, \<open>while_option_push_while\<close>).
  \<^item> \<open>Json\<close>: JavaScript values, truthiness, \<open>String(v)\<close>, \<open>JSON.stringify\<close> and a
    recursive-descent \<open>JSON.parse\<close> with fuel \<open>length + 1\<close>, which \<open>jfuel_le\<close> shows
    enough for every printed value; \<open>json_roundtrip\<close>, and that parsed values are in
    normal form (\<open>JSON_parse_normal\<close>, \<open>JSON_parse_wellformed\<close>).
  \<^item> \<open>Config\<close>: \<open>CONFIG\<close> (config.js) and \<open>MOCK_DATA\<close> (mockData.js).
  \<^item> \<open>Store\<close>: every \<open>SaveSystem\<close> method; key layout and its injectivity; frame
    lemmas; the known-key index invariant.
  \<^item> \<open>Api\<close>: every \<open>APIHandler\<close> method. The browser is the record
    \<open>browser_env\<close> (\<open>window.MOCK_DATA\<close>, the answers to \<open>confirm\<close> and
    \<open>prompt\<close>, \<open>Date.now\<close> before and after the rate-limit wait, the \<open>fetch\<close>
    outcome, the random draws). \<open>callAPI\<close> keeps the source's recursive retry; its
    termination measure is the fallback flag, which every failing branch sets.
    \<open>reaches_backend\<close> says when a request waits for the outside world (the
    rate-limit timer or \<open>fetch\<close>) rather than settling within microtasks.
  \<^item> \<open>Book\<close>: \<open>getPageContent\<close>, \<open>goToPage\<close>, \<open>nextPage\<close>, \<open>prevPage\<close>;
    the first two also split at the generation request (\<open>getPageContent_begin\<close>,
    \<open>goToPage_begin\<close>, continuation \<open>getPageContent_gen\<close>), and the split composed
    with its continuation is the sequential method (\<open>goToPage_split\<close>).
  \<^item> \<open>Library\<close>: \<open>loadRoom\<close> (clamp, load or generate, normalise, persist, build the
    books), \<open>moveToRoom\<close>, \<open>getBook\<close>, \<open>initialize\<close>, the shelf layout
    \<open>getBookPositions\<close> over the rationals, \<open>getRoomInfo\<close>. The elimination
    rule \<open>loadRoom_InrE\<close> (a successful load either found the catalog or generated
    and saved it) carries the proofs about \<open>loadRoom\<close>. \<open>loadRoom_begin\<close>,
    \<open>loadRoom_gen\<close>, \<open>moveToRoom_begin\<close> and \<open>moveToRoom_resume\<close> split both
    methods at the generation request, with \<open>loadRoom_split\<close> and
    \<open>moveToRoom_split\<close> relating them to the sequential ones. \<open>catalog_loops\<close>
    is the trimming and padding loops of \<open>loadRoom\<close> as the \<open>while\<close> statements
    they are.
  \<^item> \<open>Player\<close>: \<open>Player\<close> (player.js): \<open>initialize\<close>, \<open>update\<close> with the exit,
    nearby-book and card-catalog checks, the key handlers. The nearest-book search is
    given as the source writes it, over real square roots (\<open>checkForNearbyBooks_ref\<close>),
    and as the executable fold over squared rational distances. The player's life is the
    step relation \<open>player_step\<close> (key down, key up, a frame's update, in any order) and
    its closure \<open>player_reachable\<close>.
  \<^item> \<open>Game\<close>: \<open>Game\<close> (game.js): \<open>initialize\<close>, \<open>startGame\<close>,
    \<open>startGameLoop\<close>, a frame of \<open>gameLoop\<close> and \<open>update\<close>, the key handlers,
    \<open>handleInteraction\<close> (its choice is \<open>interaction_target\<close>), \<open>useExit\<close> (its
    continuation is \<open>exit_arrival\<close>). What the controller asks the UI to show is
    a list of \<open>ui_event\<close>s. \<open>startGame\<close> does not await the library before requesting
    the story; the model runs the library's initialisation and then the story request,
    each against its own environment, which is one of the interleavings the source
    allows (the two share only the API key and the fallback item of the storage).
  \<^item> \<open>Ui\<close>: \<open>UIHandler\<close> (ui.js), reduced to the state its methods set: the hidden
    containers, the dialog and page shown, the page number, notifications and alerts.
    The timers that hide the notification all wait three seconds and fire in the order
    they were set; the interface counts them, and a timeout event fires the oldest.
  \<^item> \<open>Session\<close>: the running page (main.js and the listeners of ui.js and game.js).
    The state is the game, the interface, a heap of \<open>Book\<close> objects (the library's
    books and the interface's open book are references into it), the storage and the
    backend requests waiting. A step is one browser event or one backend answer, in any
    order; the microtasks an event queues run to their end before the next event, so
    methods interleave only where a generation request waits (\<open>Pending\<close>).
    \<open>dispatch\<close> runs one event, \<open>run_session\<close> a list of them. The document's two
    \<open>keydown\<close> listeners run in the order they were added (the interface's first).
    \<open>EvTimeout\<close> fires a notification timer.
  \<^item> \<open>Runs\<close>: properties of whole runs: the heap invariant \<open>session_wf\<close>, the drain
    of waiting requests, the story flow of the interface tests, and the animation loop:
    once a running game has no frame requested, no event requests one again
    (\<open>run_loop_stopped\<close>), so a frame whose drawing throws stops the page's frames for
    good (\<open>frame_error_stops_page\<close>).
  \<^item> \<open>Render\<close>: the canvas. \<open>resizeCanvas\<close> (which also overwrites
    \<open>CONFIG.roomSize\<close>), the render methods of game.js and \<open>Player.render\<close>, over a
    2D context reduced to its style state and the list of shapes painted, and the frame
    of \<open>gameLoop\<close> with its request for the next frame. The catalog entry of the
    highlighted book is read with the semantics of \<open>v[i]\<close>, \<open>v.length\<close> and
    \<open>substring\<close>, so an entry that is not a string can throw.
  \<^item> \<open>Tests\<close>: the interface tests of uitests.js over the \<open>Ui\<close> model and their
    mock game, and \<open>runBabelTests\<close> of test.js.
  \<^item> \<open>Debug\<close>: the error overlay of debug.js: \<open>window.onerror\<close> adds a box to the
    body and its close button removes it; the boxes keep distinct names.
  \<^item> this theory: properties that span components.

  \<^bold>\<open>Properties.\<close> Each claim follows a text naming it (C1, C2, ...) in the theory of
  the definitions it is about, with a witness applying it to a concrete input. They show:
  the room-size invariant of generated catalogs and its exact padding and placeholder
  values (C1, C6, C7); deterministic repeat visits of rooms and pages across sessions
  (C2, C8, C9); absorption of every backend failure and the rate limiter's spacing (C3,
  C4); clamping and movement
  (C15 to C17); the pager's page bounds and cache (C18, C19); the shelf layout (C21);
  the equivalence of the two nearest-book searches (C22); the player's in-room invariant
  over every sequence of events and every game-loop frame (C23, C28); the key and
  position round trip (C25); exits and the interaction key (C27, C29); the page's
  references stay valid in every run (C35) and waiting requests always drain (C36); the
  event-loop model refines the sequential one for exits and pages (C34, C38); the story
  flow the interface tests expect (C37); stored characters are well-formed JSON (C39);
  the trimming and padding loops of \<open>loadRoom\<close> end (C40).
  Several claims prove behaviours that contradict the specification or the code's intent
  (C5, C11, C12, C13, C14, C26), among them races of the page: one press of E takes an
  exit twice (C30) and cannot close a book at the player's position (C31), a page
  answer is saved under the page shown when it arrives (C32), and an exit answer brings
  the books of its room into whatever room is current (C33); a narrower window traps a
  player beyond the new wall (C10), and a catalog entry that is a long array stops the
  game loop for good (C24). The manifest lists them as findings, with those the lemmas
  show: the first notification's timer hides the second (\<open>earlier_timer_hides_later\<close>,
  and on the page after one press of E, \<open>exit_notifications_hidden_early\<close>),
  the exit bands are wider than the doors drawn (\<open>exit_band_outside_doors\<close>), and the
  story test of uitests.js fails whatever the interface does (\<open>testStoryFlow_fails\<close>,
  \<open>runBabelTests_never_passes\<close>).

  \<^bold>\<open>Bounds and environment.\<close> The JSON parser's fuel is one more than the input's
  length. \<open>env_ok\<close> states the only assumption on the clock: the wait resumes no earlier
  than requested. Theorems about generation hold for every environment unless they name
  one. Witnesses use small configurations (five books per room) to keep evaluation quick.
  A waiting request records the environment of the event that made it; its answer is
  computed from that environment, on the objects as they are when it arrives. The model
  applies a generation request's effects on its own \<open>APIHandler\<close> (the API key read,
  the call time) at the answer rather than when it is sent; only the rate limiter's
  timing depends on the difference.

  \<^bold>\<open>Not modelled.\<close> Styles, focus and console output of ui.js and debug.js; the
  pixels of the canvas (the model keeps the list of shapes painted). The main suite of
  test.js (\<open>TestSuite\<close>): it replaces methods of the objects it tests with mocks,
  which the closed definitions of the model cannot take without a mocked copy of each
  method; its result is an input of \<open>runBabelTests\<close>. Which of \<open>window.onerror\<close> and
  \<open>unhandledrejection\<close> an escaping exception reaches: the session records it in
  \<open>s_errors\<close>, and theory \<open>Debug\<close> models the overlay on its own.
  \<open>Game.initialize\<close> and \<open>Game.startGame\<close> run to their end within the event that
  starts them, so the page model does not interleave other events with the story
  request. A session runs under one configuration: the window's \<open>resize\<close> event, which
  calls \<open>resizeCanvas\<close>, is a step of theory \<open>Render\<close> and not an event of
  \<open>Session\<close>; every operation takes the configuration as a parameter, so any room size
  is covered. The body of the HTTP request is not built, since the backend's answer is
  an input. Numbers are integers: JSON text with fractions or exponents is a parse error
  of the model, and a player position that is not an integer (impossible with integral
  room sizes and speed) leaves the model (\<open>None\<close>), as do an object catalog read at a
  fractional book index and \<open>title.length > 25\<close> for a \<open>length\<close> that is not a
  number.
\<close>

section \<open>Properties across components\<close>

text \<open>
  C5: embedding the character's story into a room nobody has visited breaks the room-size
  invariant. \<open>saveCharacterStoryToLibrary\<close> starts from \<open>catalog || []\<close> and assigns
  index \<open>bookIndex\<close>, which leaves holes; the stored catalog has \<open>bookIndex + 1\<close>
  entries, \<open>null\<close> but the last. The next \<open>loadRoom\<close> of that room, in any session,
  finds a truthy catalog and uses it as it is: the room has \<open>bookIndex + 1\<close> books
  instead of \<open>booksPerRoom\<close>, the first of them titled \<open>null\<close>.
\<close>

theorem story_embedding_breaks_room_size:
  assumes "saveCharacterStoryToLibrary s ch story x y k ls = (Inr r, s', ls')"
    and "fst (loadRoomCatalog s x y ls) = Inr JNull"
    and "savePrefix s = js ''babel_''" and "in_grid cfg x y"
  shows "fst (loadRoom cfg env new_Library ls' x y) =
           catalog_books (JArr (replicate k JNull @ [JStr (story_title ch)])) x y
         \<and> snd (snd (loadRoom cfg env new_Library ls' x y)) = ls'"
proof -
  let ?c = "JArr (replicate k JNull @ [JStr (story_title ch)])"
  have e: "ls' (room_entry new_SaveSystem (room_key x y)) =
             Some (json_print (JArr (replicate k JUndef @ [JStr (story_title ch)])))"
    using story_embedding_entry [OF assms(1,2)] room_entry_prefix [of new_SaveSystem s] assms(3)
    by (simp add: new_SaveSystem_def del: json_print.simps)
  have n: "json_norm (JArr (replicate k JUndef @ [JStr (story_title ch)])) = ?c" by simp
  have l: "loadRoomCatalog new_SaveSystem x y ls' =
             (Inr ?c, new_SaveSystem\<lparr>roomCatalogs := [room_key x y \<mapsto> ?c]\<rparr>, ls')"
    using e n by (simp add: loadRoomCatalog_def cache_hit_def new_SaveSystem_def JSON_parse_print
                       del: json_print.simps json_norm.simps)
  have "clamp_coord (width (librarySize cfg)) x = x" "clamp_coord (height (librarySize cfg)) y = y"
    using assms(4) by (simp_all add: in_grid_def clamp_coord_id)
  with l show ?thesis
    by (simp add: loadRoom_hit new_Library_def enter_room_def split: sum.split)
qed

theorem story_embedding_breaks_room_size_witness:
  "fst (loadRoom CONFIG env_no_key new_Library
          (snd (snd (saveCharacterStoryToLibrary new_SaveSystem (JObj [(js ''name'', JStr (js ''Ann''))])
                       (js ''Once'') 3 4 2 Map.empty))) 3 4) =
     catalog_books (JArr (replicate 2 JNull @ [JStr (story_title (JObj [(js ''name'', JStr (js ''Ann''))]))])) 3 4
   \<and> snd (snd (loadRoom CONFIG env_no_key new_Library
          (snd (snd (saveCharacterStoryToLibrary new_SaveSystem (JObj [(js ''name'', JStr (js ''Ann''))])
                       (js ''Once'') 3 4 2 Map.empty))) 3 4)) =
     snd (snd (saveCharacterStoryToLibrary new_SaveSystem (JObj [(js ''name'', JStr (js ''Ann''))])
                       (js ''Once'') 3 4 2 Map.empty))"
proof -
  let ?S = "saveCharacterStoryToLibrary new_SaveSystem (JObj [(js ''name'', JStr (js ''Ann''))]) (js ''Once'') 3 4 2 Map.empty"
  have "\<not> isl (fst ?S)" by code_simp
  then have run: "?S = (Inr (projr (fst ?S)), fst (snd ?S), snd (snd ?S))" by (rule Inr_collapse)
  have miss: "fst (loadRoomCatalog new_SaveSystem 3 4 Map.empty) = Inr JNull" by code_simp
  have pre: "savePrefix new_SaveSystem = js ''babel_''" by (simp add: new_SaveSystem_def)
  have g: "in_grid CONFIG 3 4" by (simp add: in_grid_def CONFIG_def)
  show ?thesis by (rule story_embedding_breaks_room_size [OF run miss pre g])
qed

end
